(* ===== verification/Props_Prelude.thy ===== *)
theory Props_Prelude
  imports Complex_Main "HOL-Library.AList"
begin

text \<open>
  Shared vocabulary of the development of \<open>SimPEG/Props.py\<close>: the names of the
  model's types, the collections of rewrite rules the component theories feed, and
  generic facts on association lists and partial maps that the components share.
  Attribute names of a host class are strings (Python identifiers); numeric arrays
  are lists of reals (a one-dimensional \<open>numpy.ndarray\<close> of floats).
\<close>

type_synonym name = string
type_synonym array = "real list"

named_theorems descr_simps
  "lookups of descriptor links after the schema operations"
named_theorems slot_simps
  "reads of instance storage after raw writes"

subsection \<open>Association lists as class attribute tables\<close>

lemma map_of_update_same [descr_simps]:
  "map_of (AList.update k v al) k = Some v"
  by (simp add: update_conv')

lemma map_of_update_other [descr_simps]:
  "k' \<noteq> k \<Longrightarrow> map_of (AList.update k v al) k' = map_of al k'"
  by (simp add: update_conv')

lemma keys_update [descr_simps]:
  "fst ` set (AList.update k v al) = insert k (fst ` set al)"
  using dom_update [of k v al] by (simp add: image_set [symmetric])

lemma distinct_keys_update [descr_simps]:
  "distinct (map fst al) \<Longrightarrow> distinct (map fst (AList.update k v al))"
  by (rule distinct_update)

lemma map_of_None_keys:
  "k \<notin> fst ` set al \<Longrightarrow> map_of al k = None"
  by (simp add: map_of_eq_None_iff)

lemma map_of_Some_keys:
  "map_of al k = Some v \<Longrightarrow> k \<in> fst ` set al"
  by (metis map_of_eq_None_iff option.distinct(1))

lemma list_all_keys_iff:
  "list_all P (map fst al) \<longleftrightarrow> (\<forall>k \<in> fst ` set al. P k)"
  by (simp add: list_all_iff)

end
