(* ===== verification/Props_Maps.thy ===== *)
theory Props_Maps
  imports Props_Prelude
begin

text \<open>
  The collaborators \<open>Props.py\<close> calls but does not define: the mapping objects of
  \<open>SimPEG.Maps\<close> (every one a subclass of \<open>IdentityMap\<close>), the \<open>Utils.Zero\<close>
  sentinel, and the elementwise arithmetic of numpy arrays. They are modelled from the
  interface the spec gives (section 6): a map can be applied to a model array
  (\<^verbatim>\<open>mapping * model\<close>), composed with another map (\<^verbatim>\<open>map * map\<close>
  builds a \<open>ComboMap\<close>) and differentiated (\<^verbatim>\<open>mapping.deriv(model)\<close>).
  All modelled maps act elementwise and accept any array length (shape \<open>'*'\<close>),
  so their derivative is a diagonal matrix, kept as the list of its diagonal.
  Python's exceptions are the values of \<open>error\<close>; \<open>RecursionError\<close> is the
  exception Python raises when a chain of calls exceeds the interpreter's recursion limit.
\<close>

datatype error =
    ValidationError name
  | AssertionError string
  | TypeError string
  | AttributeError string
  | MapError string
  | RecursionError

subsection \<open>Mapping objects\<close>

datatype smap =
    IdentityMap
  | ReciprocalMap
  | ExpMap
  | ComboMap smap smap

text \<open>\<open>IdentityMap._transform\<close> and its subclasses: the map applied to an array.\<close>

fun map_transform :: "smap \<Rightarrow> array \<Rightarrow> array" where
  "map_transform IdentityMap xs = xs"
| "map_transform ReciprocalMap xs = map (\<lambda>x. 1 / x) xs"
| "map_transform ExpMap xs = map exp xs"
| "map_transform (ComboMap f g) xs = map_transform f (map_transform g xs)"

text \<open>\<open>deriv\<close>: the diagonal of the Jacobian at an array; a \<open>ComboMap\<close> applies the
  chain rule.\<close>

fun map_deriv :: "smap \<Rightarrow> array \<Rightarrow> array" where
  "map_deriv IdentityMap xs = replicate (length xs) 1"
| "map_deriv ReciprocalMap xs = map (\<lambda>x. - 1 / x\<^sup>2) xs"
| "map_deriv ExpMap xs = map exp xs"
| "map_deriv (ComboMap f g) xs =
     map2 (*) (map_deriv f (map_transform g xs)) (map_deriv g xs)"

subsection \<open>Values held in attribute slots\<close>

text \<open>
  A slot of a host instance holds Python \<open>None\<close> (the \<open>None\<close> of an option), a
  numpy array, a mapping object, or any other Python object, which no descriptor
  accepts. The value of a derivative attribute is the \<open>Zero\<close> sentinel, a
  diagonal matrix, or the identity operator (\<open>IdentityOp\<close>, whose size is the
  mesh's and is not fixed by the model).
\<close>

datatype pvalue = Arr array | MapObj smap | Other string

datatype dvalue = Zero | Diag array | IdentityOp

definition is_map_value :: "pvalue \<Rightarrow> bool" where
  "is_map_value v = (case v of MapObj _ \<Rightarrow> True | _ \<Rightarrow> False)"

definition is_array_value :: "pvalue \<Rightarrow> bool" where
  "is_array_value v = (case v of Arr _ \<Rightarrow> True | _ \<Rightarrow> False)"

subsection \<open>Operators\<close>

text \<open>
  \<open>IdentityMap.__mul__\<close>: a map times a map is their composition, a map times an
  array applies the map, anything else raises.
\<close>

fun map_mul :: "smap \<Rightarrow> pvalue option \<Rightarrow> error + pvalue" where
  "map_mul f (Some (MapObj g)) = Inr (MapObj (ComboMap f g))"
| "map_mul f (Some (Arr xs)) = Inr (Arr (map_transform f xs))"
| "map_mul f _ =
     Inl (MapError ''Unrecognized data type to multiply. Try a map or a numpy.ndarray!'')"

text \<open>
  \<open>1.0 / x\<close>: elementwise on an array; \<open>TypeError\<close> on \<open>None\<close> and on objects
  without a numeric division (HOL's \<open>1 / 0 = 0\<close> where numpy gives \<open>inf\<close>; the
  two agree on \<open>1 / (1 / x) = x\<close>).
\<close>

fun one_div :: "pvalue option \<Rightarrow> error + pvalue option" where
  "one_div (Some (Arr xs)) = Inr (Some (Arr (map (\<lambda>x. 1 / x) xs)))"
| "one_div None = Inl (TypeError ''unsupported operand type(s) for /: float and NoneType'')"
| "one_div (Some _) = Inl (TypeError ''unsupported operand type(s) for /'')"

text \<open>
  \<open>mapping * self.model\<close> for the value a mapping attribute resolved to:
  \<open>IdentityMap.__mul__\<close> on a map (which raises when the model is \<open>None\<close>);
  \<open>None * x\<close> raises \<open>TypeError\<close>. A slot of a mapping attribute holds a map or
  \<open>None\<close> in every reachable state (the slot-kind invariant of \<open>Props_Ops\<close>), so
  the last equation, which does not model numpy's product of two arrays, is never used
  there.
\<close>

fun mul_model :: "pvalue option \<Rightarrow> array option \<Rightarrow> error + pvalue option" where
  "mul_model (Some (MapObj f)) mo =
     (case map_mul f (map_option Arr mo) of Inl e \<Rightarrow> Inl e | Inr v \<Rightarrow> Inr (Some v))"
| "mul_model None mo = Inl (TypeError ''unsupported operand type(s) for *: NoneType'')"
| "mul_model (Some _) mo = Inl (TypeError ''unsupported operand type(s) for *'')"

text \<open>
  \<open>mapping.deriv(model)\<close>, for the value a mapping attribute resolved to. The spec
  gives \<open>deriv\<close> on a model array, returning an array or the identity (section 6).
  With no model (\<open>None\<close>), \<open>IdentityMap.deriv\<close>, which does not read its
  argument, returns the identity operator; every other modelled map evaluates numpy
  arithmetic on the model, which raises \<open>TypeError\<close> on \<open>None\<close>. An object without
  \<open>deriv\<close> raises \<open>AttributeError\<close>.
\<close>

fun deriv_at :: "pvalue \<Rightarrow> array option \<Rightarrow> error + dvalue" where
  "deriv_at (MapObj f) (Some xs) = Inr (Diag (map_deriv f xs))"
| "deriv_at (MapObj IdentityMap) None = Inr IdentityOp"
| "deriv_at (MapObj f) None = Inl (TypeError ''unsupported operand type(s): NoneType'')"
| "deriv_at _ _ = Inl (AttributeError ''deriv'')"

subsection \<open>The maps entry by entry\<close>

text \<open>
  Every modelled map acts on each entry of the model alone: \<open>smap_fun f\<close> is its
  action on one real number and \<open>smap_dfun f\<close> the derivative \<open>deriv\<close> puts on the
  diagonal. \<open>smap_ok f x\<close> says that \<open>f\<close> is differentiable at \<open>x\<close>: no
  reciprocal is taken of zero.
\<close>

fun smap_fun :: "smap \<Rightarrow> real \<Rightarrow> real" where
  "smap_fun IdentityMap x = x"
| "smap_fun ReciprocalMap x = 1 / x"
| "smap_fun ExpMap x = exp x"
| "smap_fun (ComboMap f g) x = smap_fun f (smap_fun g x)"

fun smap_dfun :: "smap \<Rightarrow> real \<Rightarrow> real" where
  "smap_dfun IdentityMap x = 1"
| "smap_dfun ReciprocalMap x = - 1 / x\<^sup>2"
| "smap_dfun ExpMap x = exp x"
| "smap_dfun (ComboMap f g) x = smap_dfun f (smap_fun g x) * smap_dfun g x"

fun smap_ok :: "smap \<Rightarrow> real \<Rightarrow> bool" where
  "smap_ok ReciprocalMap x = (x \<noteq> 0)"
| "smap_ok (ComboMap f g) x = (smap_ok g x \<and> smap_ok f (smap_fun g x))"
| "smap_ok _ x = True"

subsection \<open>Facts on values and operators\<close>

lemma is_map_value_simps [simp]:
  "is_map_value (MapObj f)" "\<not> is_map_value (Arr xs)" "\<not> is_map_value (Other s)"
  by (simp_all add: is_map_value_def)

lemma is_array_value_simps [simp]:
  "is_array_value (Arr xs)" "\<not> is_array_value (MapObj f)" "\<not> is_array_value (Other s)"
  by (simp_all add: is_array_value_def)

lemma one_div_involutive:
  "one_div (Some (Arr xs)) = Inr (Some (Arr ys)) \<Longrightarrow> one_div (Some (Arr ys)) = Inr (Some (Arr xs))"
  by (auto simp: comp_def)

lemma one_div_Arr_length:
  "one_div (Some (Arr xs)) = Inr (Some (Arr ys)) \<Longrightarrow> length ys = length xs"
  by auto

lemma map_transform_length [simp]: "length (map_transform f xs) = length xs"
  by (induction f arbitrary: xs) auto

lemma map_deriv_length [simp]: "length (map_deriv f xs) = length xs"
  by (induction f arbitrary: xs) auto

lemma map_transform_reciprocal_inverse:
  "map_transform (ComboMap ReciprocalMap ReciprocalMap) xs = xs"
  by (simp add: comp_def)

lemma map_smap_identity:
  "map (smap_fun IdentityMap) xs = xs" "map (smap_dfun IdentityMap) xs = replicate (length xs) 1"
  by (induction xs) simp_all

lemma map_transform_entries: "map_transform f xs = map (smap_fun f) xs"
  by (induction f arbitrary: xs) (simp_all add: map_smap_identity)

lemma map_deriv_entries: "map_deriv f xs = map (smap_dfun f) xs"
  by (induction f arbitrary: xs) (simp_all add: map_transform_entries map2_map_map map_smap_identity)

text \<open>The diagonal \<open>deriv\<close> computes is the derivative of the map, entry by entry.\<close>

lemma smap_DERIV: "smap_ok f x \<Longrightarrow> (smap_fun f has_real_derivative smap_dfun f x) (at x)"
proof (induction f arbitrary: x)
  case IdentityMap
  then show ?case by (auto intro!: derivative_eq_intros)
next
  case ReciprocalMap
  then show ?case by (auto intro!: derivative_eq_intros simp: power2_eq_square field_simps)
next
  case ExpMap
  then show ?case by (auto intro!: derivative_eq_intros)
next
  case (ComboMap f g)
  then have "(smap_fun f has_real_derivative smap_dfun f (smap_fun g x)) (at (smap_fun g x))"
    "(smap_fun g has_real_derivative smap_dfun g x) (at x)" by simp_all
  then have "((\<lambda>x. smap_fun f (smap_fun g x)) has_real_derivative
      smap_dfun f (smap_fun g x) * smap_dfun g x) (at x)"
    by (rule DERIV_chain2)
  then show ?case by (simp add: comp_def)
qed

end
