(* ===== verification/Props_Schema.thy ===== *)
theory Props_Schema
  imports Props_Maps
begin

text \<open>
  The descriptor objects of \<open>Props.py\<close> and the class that holds them. A
  descriptor is identified by the attribute name it is attached under on the host
  class (the index-based back-references of the spec, section 9): the class is an
  association list from attribute names to descriptors, and every cross-reference of
  a descriptor (\<open>Mapping._prop\<close>, \<open>PhysicalProperty._mapping\<close>,
  \<open>PhysicalProperty.reciprocal\<close>, \<open>Derivative.physical_property\<close>) is the name of
  the descriptor it points to. The theory holds the link getters and setters, the
  factory \<open>Invertible\<close>, the linker \<open>Reciprocal\<close>, the well-formedness
  invariant of a class table, and the facts that the builders keep it.
\<close>

subsection \<open>Descriptors and the class table\<close>

text \<open>
  Each constructor carries the descriptor's \<open>help\<close> text and its links:
  \<open>Mapping help _prop\<close>, \<open>PhysicalProperty help _mapping reciprocal\<close>,
  \<open>Derivative help physical_property\<close>.
\<close>

datatype descriptor =
    Mapping string "name option"
  | PhysicalProperty string "name option" "name option"
  | Derivative string "name option"

type_synonym schema = "(name \<times> descriptor) list"

definition is_physprop :: "schema \<Rightarrow> name \<Rightarrow> bool" where
  "is_physprop S n = (case map_of S n of Some (PhysicalProperty _ _ _) \<Rightarrow> True | _ \<Rightarrow> False)"

definition is_mapping :: "schema \<Rightarrow> name \<Rightarrow> bool" where
  "is_mapping S n = (case map_of S n of Some (Mapping _ _) \<Rightarrow> True | _ \<Rightarrow> False)"

subsection \<open>Link getters\<close>

text \<open>\<open>Mapping.prop\<close>: \<^verbatim>\<open>getattr(self, '_prop', None)\<close>.\<close>

definition Mapping_prop :: "schema \<Rightarrow> name \<Rightarrow> name option" where
  "Mapping_prop S m = (case map_of S m of Some (Mapping _ p) \<Rightarrow> p | _ \<Rightarrow> None)"

text \<open>\<open>PhysicalProperty.mapping\<close>: \<^verbatim>\<open>getattr(self, '_mapping', None)\<close>.\<close>

definition PhysicalProperty_mapping :: "schema \<Rightarrow> name \<Rightarrow> name option" where
  "PhysicalProperty_mapping S p =
     (case map_of S p of Some (PhysicalProperty _ m _) \<Rightarrow> m | _ \<Rightarrow> None)"

text \<open>\<open>PhysicalProperty.reciprocal\<close>: a class attribute \<open>None\<close> until \<open>Reciprocal\<close> sets it.\<close>

definition PhysicalProperty_reciprocal :: "schema \<Rightarrow> name \<Rightarrow> name option" where
  "PhysicalProperty_reciprocal S p =
     (case map_of S p of Some (PhysicalProperty _ _ r) \<Rightarrow> r | _ \<Rightarrow> None)"

definition Derivative_physical_property :: "schema \<Rightarrow> name \<Rightarrow> name option" where
  "Derivative_physical_property S d =
     (case map_of S d of Some (Derivative _ p) \<Rightarrow> p | _ \<Rightarrow> None)"

text \<open>\<open>Derivative.mapping\<close> looks through to the physical property's mapping.\<close>

definition Derivative_mapping :: "schema \<Rightarrow> name \<Rightarrow> name option" where
  "Derivative_mapping S d =
     (case Derivative_physical_property S d of
        None \<Rightarrow> None
      | Some p \<Rightarrow> PhysicalProperty_mapping S p)"

text \<open>
  The attribute \<open>x.mapping\<close> of the object a \<open>reciprocal\<close> link names: a
  physical property's own mapping, or a derivative's looked-through mapping
  (\<open>Reciprocal\<close> accepts a \<open>Derivative\<close>; it refuses a \<open>Mapping\<close>).
\<close>

definition mapping_attr :: "schema \<Rightarrow> name \<Rightarrow> name option" where
  "mapping_attr S n =
     (case map_of S n of
        Some (PhysicalProperty _ m _) \<Rightarrow> m
      | Some (Derivative _ _) \<Rightarrow> Derivative_mapping S n
      | _ \<Rightarrow> None)"

text \<open>\<open>Mapping.reciprocal\<close> and \<open>Mapping.reciprocal_prop\<close>.\<close>

definition Mapping_reciprocal :: "schema \<Rightarrow> name \<Rightarrow> name option" where
  "Mapping_reciprocal S m =
     (case Mapping_prop S m of
        None \<Rightarrow> None
      | Some p \<Rightarrow> (case PhysicalProperty_reciprocal S p of
                    None \<Rightarrow> None
                  | Some r \<Rightarrow> mapping_attr S r))"

definition Mapping_reciprocal_prop :: "schema \<Rightarrow> name \<Rightarrow> name option" where
  "Mapping_reciprocal_prop S m =
     (case Mapping_prop S m of
        None \<Rightarrow> None
      | Some p \<Rightarrow> PhysicalProperty_reciprocal S p)"

subsection \<open>Link setters\<close>

text \<open>
  \<open>Mapping.prop = value\<close>: asserts that \<open>value\<close> is a physical property, then
  binds both directions. \<open>PhysicalProperty.mapping = value\<close> is the mirror image.
  \<open>self\<close> is the descriptor named by the first argument; the setters exist only on
  their own class, so another kind of \<open>self\<close> is an \<open>AttributeError\<close>.
\<close>

definition Mapping_set_prop :: "schema \<Rightarrow> name \<Rightarrow> name \<Rightarrow> error + schema" where
  "Mapping_set_prop S m p =
     (case map_of S p of
        Some (PhysicalProperty h _ r) \<Rightarrow>
          (case map_of S m of
             Some (Mapping hm _) \<Rightarrow>
               Inr (AList.update m (Mapping hm (Some p))
                     (AList.update p (PhysicalProperty h (Some m) r) S))
           | _ \<Rightarrow> Inl (AttributeError ''prop''))
      | _ \<Rightarrow> Inl (AssertionError ''isinstance(value, PhysicalProperty)''))"

definition PhysicalProperty_set_mapping :: "schema \<Rightarrow> name \<Rightarrow> name \<Rightarrow> error + schema" where
  "PhysicalProperty_set_mapping S p m =
     (case map_of S m of
        Some (Mapping hm _) \<Rightarrow>
          (case map_of S p of
             Some (PhysicalProperty h _ r) \<Rightarrow>
               Inr (AList.update p (PhysicalProperty h (Some m) r)
                     (AList.update m (Mapping hm (Some p)) S))
           | _ \<Rightarrow> Inl (AttributeError ''mapping''))
      | _ \<Rightarrow> Inl (AssertionError ''isinstance(value, Mapping)''))"

subsection \<open>The factory and the linker\<close>

definition mapping_help :: "string \<Rightarrow> string" where
  "mapping_help h = ''Mapping of '' @ h @ '' to the inversion model.''"

definition derivative_help :: "string \<Rightarrow> string" where
  "derivative_help h = ''Derivative of '' @ h @ '' wrt the model.''"

text \<open>
  \<open>Invertible(help)\<close> builds the mapping, the physical property bound to it (the
  \<open>mapping=\<close> keyword runs the setter, which binds both directions) and the
  derivative bound to the property; the class body attaches the returned triple
  under the caller's names \<open>(p, m, d)\<close>, in that order.
\<close>

definition Invertible :: "string \<Rightarrow> name \<times> name \<times> name \<Rightarrow> schema \<Rightarrow> schema" where
  "Invertible h pmd S =
     (case pmd of (p, m, d) \<Rightarrow>
        AList.update d (Derivative (derivative_help h) (Some p))
          (AList.update m (Mapping (mapping_help h) (Some p))
            (AList.update p (PhysicalProperty h (Some m) None) S)))"

text \<open>
  One assignment \<open>obj.reciprocal = other\<close>: a physical property records the link; a
  \<open>Mapping\<close> has a read-only \<open>reciprocal\<close> property, so the assignment raises; a
  \<open>Derivative\<close> takes a plain attribute that no code of \<open>Props.py\<close> reads; an
  object not attached to the class records nothing the class sees.
\<close>

definition set_reciprocal :: "schema \<Rightarrow> name \<Rightarrow> name \<Rightarrow> error + schema" where
  "set_reciprocal S n r =
     (case map_of S n of
        Some (PhysicalProperty h m _) \<Rightarrow> Inr (AList.update n (PhysicalProperty h m (Some r)) S)
      | Some (Mapping _ _) \<Rightarrow> Inl (AttributeError ''cannot set attribute reciprocal'')
      | _ \<Rightarrow> Inr S)"

definition Reciprocal :: "schema \<Rightarrow> name \<Rightarrow> name \<Rightarrow> error + schema" where
  "Reciprocal S p1 p2 =
     (case set_reciprocal S p1 p2 of
        Inl e \<Rightarrow> Inl e
      | Inr S1 \<Rightarrow> set_reciprocal S1 p2 p1)"

subsection \<open>Well-formed class tables\<close>

text \<open>
  The invariants of the spec's data model (section 3), per attribute: a mapping's
  \<open>prop\<close> points back to it, a property's \<open>mapping\<close> points back to it, a
  \<open>reciprocal\<close> link is symmetric between two distinct physical properties, and a
  derivative is bound to a physical property. Attribute names are unique.
\<close>

definition wf_at :: "schema \<Rightarrow> name \<Rightarrow> bool" where
  "wf_at S n =
     ((case Mapping_prop S n of
         None \<Rightarrow> True | Some p \<Rightarrow> PhysicalProperty_mapping S p = Some n) \<and>
      (case PhysicalProperty_mapping S n of
         None \<Rightarrow> True | Some m \<Rightarrow> Mapping_prop S m = Some n) \<and>
      (case PhysicalProperty_reciprocal S n of
         None \<Rightarrow> True | Some r \<Rightarrow> r \<noteq> n \<and> PhysicalProperty_reciprocal S r = Some n) \<and>
      (case Derivative_physical_property S n of
         None \<Rightarrow> True | Some p \<Rightarrow> is_physprop S p))"

definition wf_schema :: "schema \<Rightarrow> bool" where
  "wf_schema S = (distinct (map fst S) \<and> list_all (wf_at S) (map fst S))"

subsection \<open>The class of the spec's scenario\<close>

text \<open>
  Conductivity and resistivity as two \<open>Invertible\<close> triples linked by
  \<open>Reciprocal(sigma, rho)\<close>, as the class table the builders produce
  (\<open>scenario_class_built\<close> below).
\<close>

definition scenario_class :: schema where
  "scenario_class =
     [(''sigma'', PhysicalProperty ''Electrical conductivity'' (Some ''sigmaMap'') (Some ''rho'')),
      (''sigmaMap'', Mapping (mapping_help ''Electrical conductivity'') (Some ''sigma'')),
      (''sigmaDeriv'', Derivative (derivative_help ''Electrical conductivity'') (Some ''sigma'')),
      (''rho'', PhysicalProperty ''Electrical resistivity'' (Some ''rhoMap'') (Some ''sigma'')),
      (''rhoMap'', Mapping (mapping_help ''Electrical resistivity'') (Some ''rho'')),
      (''rhoDeriv'', Derivative (derivative_help ''Electrical resistivity'') (Some ''rho''))]"

subsection \<open>Getters on undeclared names and after updates\<close>

lemma getters_undeclared [descr_simps]:
  assumes "n \<notin> fst ` set S"
  shows "Mapping_prop S n = None" "PhysicalProperty_mapping S n = None"
    "PhysicalProperty_reciprocal S n = None" "Derivative_physical_property S n = None"
    "\<not> is_physprop S n" "\<not> is_mapping S n"
  using assms
  by (simp_all add: map_of_None_keys Mapping_prop_def PhysicalProperty_mapping_def
      PhysicalProperty_reciprocal_def Derivative_physical_property_def is_physprop_def is_mapping_def)

lemma getter_Some_declared:
  "Mapping_prop S n = Some x \<Longrightarrow> n \<in> fst ` set S"
  "PhysicalProperty_mapping S n = Some x \<Longrightarrow> n \<in> fst ` set S"
  "PhysicalProperty_reciprocal S n = Some x \<Longrightarrow> n \<in> fst ` set S"
  "Derivative_physical_property S n = Some x \<Longrightarrow> n \<in> fst ` set S"
  "is_physprop S n \<Longrightarrow> n \<in> fst ` set S"
  by (auto simp: Mapping_prop_def PhysicalProperty_mapping_def PhysicalProperty_reciprocal_def
      Derivative_physical_property_def is_physprop_def
      split: option.splits descriptor.splits dest: map_of_Some_keys)

lemma reciprocal_is_physprop:
  "PhysicalProperty_reciprocal S n = Some r \<Longrightarrow> is_physprop S n"
  by (auto simp: PhysicalProperty_reciprocal_def is_physprop_def
      split: option.splits descriptor.splits)

lemma mapping_attr_physprop [descr_simps]:
  "is_physprop S n \<Longrightarrow> mapping_attr S n = PhysicalProperty_mapping S n"
  by (auto simp: mapping_attr_def is_physprop_def PhysicalProperty_mapping_def
      split: option.splits descriptor.splits)

lemma getters_update_physprop [descr_simps]:
  "Mapping_prop (AList.update k (PhysicalProperty h mo ro) S) = (Mapping_prop S)(k := None)"
  "PhysicalProperty_mapping (AList.update k (PhysicalProperty h mo ro) S) =
     (PhysicalProperty_mapping S)(k := mo)"
  "PhysicalProperty_reciprocal (AList.update k (PhysicalProperty h mo ro) S) =
     (PhysicalProperty_reciprocal S)(k := ro)"
  "Derivative_physical_property (AList.update k (PhysicalProperty h mo ro) S) =
     (Derivative_physical_property S)(k := None)"
  "is_physprop (AList.update k (PhysicalProperty h mo ro) S) = (is_physprop S)(k := True)"
  by (simp_all add: fun_eq_iff update_conv' Mapping_prop_def PhysicalProperty_mapping_def
      PhysicalProperty_reciprocal_def Derivative_physical_property_def is_physprop_def)

lemma getters_update_mapping [descr_simps]:
  "Mapping_prop (AList.update k (Mapping h po) S) = (Mapping_prop S)(k := po)"
  "PhysicalProperty_mapping (AList.update k (Mapping h po) S) =
     (PhysicalProperty_mapping S)(k := None)"
  "PhysicalProperty_reciprocal (AList.update k (Mapping h po) S) =
     (PhysicalProperty_reciprocal S)(k := None)"
  "Derivative_physical_property (AList.update k (Mapping h po) S) =
     (Derivative_physical_property S)(k := None)"
  "is_physprop (AList.update k (Mapping h po) S) = (is_physprop S)(k := False)"
  by (simp_all add: fun_eq_iff update_conv' Mapping_prop_def PhysicalProperty_mapping_def
      PhysicalProperty_reciprocal_def Derivative_physical_property_def is_physprop_def)

lemma getters_update_derivative [descr_simps]:
  "Mapping_prop (AList.update k (Derivative h po) S) = (Mapping_prop S)(k := None)"
  "PhysicalProperty_mapping (AList.update k (Derivative h po) S) =
     (PhysicalProperty_mapping S)(k := None)"
  "PhysicalProperty_reciprocal (AList.update k (Derivative h po) S) =
     (PhysicalProperty_reciprocal S)(k := None)"
  "Derivative_physical_property (AList.update k (Derivative h po) S) =
     (Derivative_physical_property S)(k := po)"
  "is_physprop (AList.update k (Derivative h po) S) = (is_physprop S)(k := False)"
  by (simp_all add: fun_eq_iff update_conv' Mapping_prop_def PhysicalProperty_mapping_def
      PhysicalProperty_reciprocal_def Derivative_physical_property_def is_physprop_def)

subsection \<open>Consequences of well-formedness\<close>

lemma wf_schema_at:
  "wf_schema S \<Longrightarrow> n \<in> fst ` set S \<Longrightarrow> wf_at S n"
  by (force simp: wf_schema_def list_all_iff)

lemma wf_schema_intro:
  "distinct (map fst S) \<Longrightarrow> (\<And>n. n \<in> fst ` set S \<Longrightarrow> wf_at S n) \<Longrightarrow> wf_schema S"
  by (simp add: wf_schema_def list_all_iff)

lemma wf_prop_mapping:
  "wf_schema S \<Longrightarrow> Mapping_prop S m = Some p \<Longrightarrow> PhysicalProperty_mapping S p = Some m"
  by (frule (1) wf_schema_at [OF _ getter_Some_declared(1)]) (simp add: wf_at_def)

lemma wf_mapping_prop:
  "wf_schema S \<Longrightarrow> PhysicalProperty_mapping S p = Some m \<Longrightarrow> Mapping_prop S m = Some p"
  by (frule (1) wf_schema_at [OF _ getter_Some_declared(2)]) (simp add: wf_at_def)

lemma wf_reciprocal_sym:
  "wf_schema S \<Longrightarrow> PhysicalProperty_reciprocal S p = Some r \<Longrightarrow>
     PhysicalProperty_reciprocal S r = Some p \<and> r \<noteq> p"
  by (frule (1) wf_schema_at [OF _ getter_Some_declared(3)]) (simp add: wf_at_def)

lemma wf_derivative_physprop:
  "wf_schema S \<Longrightarrow> Derivative_physical_property S d = Some p \<Longrightarrow> is_physprop S p"
  by (frule (1) wf_schema_at [OF _ getter_Some_declared(4)]) (simp add: wf_at_def)

lemmas wf_links = wf_prop_mapping wf_mapping_prop wf_reciprocal_sym wf_derivative_physprop

lemma wf_mapping_inj:
  "wf_schema S \<Longrightarrow> PhysicalProperty_mapping S a = Some x \<Longrightarrow> PhysicalProperty_mapping S b = Some x \<Longrightarrow> a = b"
  using wf_mapping_prop [of S a x] wf_mapping_prop [of S b x] by simp

lemma wf_reciprocal_inj:
  "wf_schema S \<Longrightarrow> PhysicalProperty_reciprocal S a = Some x \<Longrightarrow> PhysicalProperty_reciprocal S b = Some x \<Longrightarrow> a = b"
  using wf_reciprocal_sym [of S a x] wf_reciprocal_sym [of S b x] by simp

lemma wf_reciprocal_physprop:
  "wf_schema S \<Longrightarrow> PhysicalProperty_reciprocal S p = Some r \<Longrightarrow> is_physprop S r"
  using wf_reciprocal_sym [of S p r] reciprocal_is_physprop [of S r p] by simp

lemma mapping_prop_not_physprop:
  "Mapping_prop S m = Some p \<Longrightarrow> \<not> is_physprop S m"
  by (auto simp: Mapping_prop_def is_physprop_def split: option.splits descriptor.splits)

lemma wf_mapping_not_physprop:
  "wf_schema S \<Longrightarrow> PhysicalProperty_mapping S p = Some m \<Longrightarrow> \<not> is_physprop S m"
  using wf_mapping_prop [of S p m] mapping_prop_not_physprop [of S m p] by simp

text \<open>
  Frame rule: where a new table agrees with a well-formed one on every getter at
  every declared name, the old attributes stay well-formed, since all their links
  point at declared names.
\<close>

lemma wf_at_frame:
  assumes wf: "wf_schema S" and n: "n \<in> fst ` set S"
    and agree: "\<And>k. k \<in> fst ` set S \<Longrightarrow>
      Mapping_prop S' k = Mapping_prop S k \<and>
      PhysicalProperty_mapping S' k = PhysicalProperty_mapping S k \<and>
      PhysicalProperty_reciprocal S' k = PhysicalProperty_reciprocal S k \<and>
      Derivative_physical_property S' k = Derivative_physical_property S k \<and>
      is_physprop S' k = is_physprop S k"
  shows "wf_at S' n"
proof -
  have at: "wf_at S n" using wf n by (rule wf_schema_at)
  have tgt: "\<And>x. Mapping_prop S n = Some x \<Longrightarrow> PhysicalProperty_mapping S' x = Some n"
    "\<And>x. PhysicalProperty_mapping S n = Some x \<Longrightarrow> Mapping_prop S' x = Some n"
    "\<And>x. PhysicalProperty_reciprocal S n = Some x \<Longrightarrow> PhysicalProperty_reciprocal S' x = Some n"
    "\<And>x. Derivative_physical_property S n = Some x \<Longrightarrow> is_physprop S' x"
    using agree getter_Some_declared wf_links [OF wf] by metis+
  from at agree [OF n] tgt show ?thesis
    by (auto simp: wf_at_def split: option.splits)
qed

subsection \<open>The factory keeps the class well-formed\<close>

lemma Invertible_getters [descr_simps]:
  "Mapping_prop (Invertible h (p, m, d) S) = (Mapping_prop S)(p := None, m := Some p, d := None)"
  "PhysicalProperty_mapping (Invertible h (p, m, d) S) =
     (PhysicalProperty_mapping S)(p := Some m, m := None, d := None)"
  "PhysicalProperty_reciprocal (Invertible h (p, m, d) S) =
     (PhysicalProperty_reciprocal S)(p := None, m := None, d := None)"
  "Derivative_physical_property (Invertible h (p, m, d) S) =
     (Derivative_physical_property S)(p := None, m := None, d := Some p)"
  "is_physprop (Invertible h (p, m, d) S) = (is_physprop S)(p := True, m := False, d := False)"
  by (simp_all add: Invertible_def descr_simps)

lemma Invertible_keys [descr_simps]:
  "fst ` set (Invertible h (p, m, d) S) = insert d (insert m (insert p (fst ` set S)))"
  by (simp add: Invertible_def descr_simps)

lemma Invertible_distinct:
  "distinct (map fst S) \<Longrightarrow> distinct (map fst (Invertible h (p, m, d) S))"
  by (simp add: Invertible_def distinct_update)

text \<open>
  Attaching an \<open>Invertible\<close> triple under three fresh, distinct names keeps a class
  well-formed.
\<close>

lemma Invertible_wf:
  assumes wf: "wf_schema S" and dist: "distinct [p, m, d]"
    and fresh: "p \<notin> fst ` set S" "m \<notin> fst ` set S" "d \<notin> fst ` set S"
  shows "wf_schema (Invertible h (p, m, d) S)"
proof (rule wf_schema_intro)
  show "distinct (map fst (Invertible h (p, m, d) S))"
    using wf by (simp add: wf_schema_def Invertible_distinct)
next
  fix n assume n: "n \<in> fst ` set (Invertible h (p, m, d) S)"
  show "wf_at (Invertible h (p, m, d) S) n"
  proof (cases "n \<in> {p, m, d}")
    case True
    with dist fresh show ?thesis
      by (auto simp: wf_at_def Invertible_getters getters_undeclared)
  next
    case False
    with n have old: "n \<in> fst ` set S" by (simp add: Invertible_keys)
    show ?thesis
    proof (rule wf_at_frame [OF wf old])
      fix k assume "k \<in> fst ` set S"
      with fresh have "k \<noteq> p" "k \<noteq> m" "k \<noteq> d" by auto
      then show "Mapping_prop (Invertible h (p, m, d) S) k = Mapping_prop S k \<and>
        PhysicalProperty_mapping (Invertible h (p, m, d) S) k = PhysicalProperty_mapping S k \<and>
        PhysicalProperty_reciprocal (Invertible h (p, m, d) S) k = PhysicalProperty_reciprocal S k \<and>
        Derivative_physical_property (Invertible h (p, m, d) S) k = Derivative_physical_property S k \<and>
        is_physprop (Invertible h (p, m, d) S) k = is_physprop S k"
        by (simp add: Invertible_getters)
    qed
  qed
qed

text \<open>
  The keyword \<open>mapping=mapping\<close> of \<open>Invertible\<close> is the setter
  \<open>PhysicalProperty.mapping\<close>: constructing the mapping and the property
  unbound and then running the setter gives the bound pair the factory attaches.
\<close>

lemma Invertible_via_setter:
  assumes "p \<noteq> m"
  shows "PhysicalProperty_set_mapping
      (AList.update p (PhysicalProperty h None None) (AList.update m (Mapping (mapping_help h) None) S)) p m =
    Inr (AList.update p (PhysicalProperty h (Some m) None) (AList.update m (Mapping (mapping_help h) (Some p)) S))"
proof -
  have "AList.update p (PhysicalProperty h (Some m) None)
          (AList.update m (Mapping (mapping_help h) (Some p))
            (AList.update p (PhysicalProperty h None None) (AList.update m (Mapping (mapping_help h) None) S))) =
        AList.update p (PhysicalProperty h (Some m) None) (AList.update m (Mapping (mapping_help h) (Some p)) S)"
    using assms by (induction S) auto
  with assms show ?thesis
    by (simp add: PhysicalProperty_set_mapping_def update_conv')
qed

subsection \<open>The linker\<close>

lemma set_reciprocal_physprop:
  assumes "is_physprop S n"
  obtains S' where "set_reciprocal S n r = Inr S'"
    and "Mapping_prop S' = Mapping_prop S"
    and "PhysicalProperty_mapping S' = PhysicalProperty_mapping S"
    and "PhysicalProperty_reciprocal S' = (PhysicalProperty_reciprocal S)(n := Some r)"
    and "Derivative_physical_property S' = Derivative_physical_property S"
    and "is_physprop S' = is_physprop S"
    and "fst ` set S' = fst ` set S"
    and "distinct (map fst S) \<Longrightarrow> distinct (map fst S')"
proof -
  from assms obtain h mo ro where look: "map_of S n = Some (PhysicalProperty h mo ro)"
    by (auto simp: is_physprop_def split: option.splits descriptor.splits)
  let ?S' = "AList.update n (PhysicalProperty h mo (Some r)) S"
  have "set_reciprocal S n r = Inr ?S'" by (simp add: set_reciprocal_def look)
  moreover have "Mapping_prop S n = None" "Derivative_physical_property S n = None"
    "PhysicalProperty_mapping S n = mo"
    by (simp_all add: look Mapping_prop_def Derivative_physical_property_def
        PhysicalProperty_mapping_def)
  ultimately show ?thesis
    using that assms map_of_Some_keys [OF look]
    by (simp add: descr_simps fun_upd_idem insert_absorb)
qed

lemma Reciprocal_physprops:
  assumes "is_physprop S p1" and "is_physprop S p2"
  obtains S' where "Reciprocal S p1 p2 = Inr S'"
    and "Mapping_prop S' = Mapping_prop S"
    and "PhysicalProperty_mapping S' = PhysicalProperty_mapping S"
    and "PhysicalProperty_reciprocal S' = (PhysicalProperty_reciprocal S)(p1 := Some p2, p2 := Some p1)"
    and "Derivative_physical_property S' = Derivative_physical_property S"
    and "is_physprop S' = is_physprop S"
    and "fst ` set S' = fst ` set S"
    and "distinct (map fst S) \<Longrightarrow> distinct (map fst S')"
proof -
  obtain S1 where s1: "set_reciprocal S p1 p2 = Inr S1"
    and g1: "Mapping_prop S1 = Mapping_prop S"
      "PhysicalProperty_mapping S1 = PhysicalProperty_mapping S"
      "PhysicalProperty_reciprocal S1 = (PhysicalProperty_reciprocal S)(p1 := Some p2)"
      "Derivative_physical_property S1 = Derivative_physical_property S"
      "is_physprop S1 = is_physprop S" "fst ` set S1 = fst ` set S"
      "distinct (map fst S) \<Longrightarrow> distinct (map fst S1)"
    using set_reciprocal_physprop [OF assms(1)] by metis
  have "is_physprop S1 p2" using g1(5) assms(2) by simp
  then obtain S2 where s2: "set_reciprocal S1 p2 p1 = Inr S2"
    and g2: "Mapping_prop S2 = Mapping_prop S1"
      "PhysicalProperty_mapping S2 = PhysicalProperty_mapping S1"
      "PhysicalProperty_reciprocal S2 = (PhysicalProperty_reciprocal S1)(p2 := Some p1)"
      "Derivative_physical_property S2 = Derivative_physical_property S1"
      "is_physprop S2 = is_physprop S1" "fst ` set S2 = fst ` set S1"
      "distinct (map fst S1) \<Longrightarrow> distinct (map fst S2)"
    using set_reciprocal_physprop by metis
  have "Reciprocal S p1 p2 = Inr S2" by (simp add: Reciprocal_def s1 s2)
  with g1 g2 that show ?thesis by simp
qed

lemma Reciprocal_mapping_arg:
  assumes "is_mapping S p1 \<or> (is_mapping S p2 \<and> p1 \<noteq> p2)"
  shows "Reciprocal S p1 p2 = Inl (AttributeError ''cannot set attribute reciprocal'')"
  using assms
  by (auto simp: Reciprocal_def set_reciprocal_def is_mapping_def update_conv'
      split: option.splits descriptor.splits)

text \<open>
  C19. Reciprocal symmetry: linking two physical properties with \<open>Reciprocal\<close>
  succeeds and leaves each one's \<open>reciprocal\<close> naming the other.
\<close>

theorem Reciprocal_symmetric:
  assumes "is_physprop S p1" and "is_physprop S p2"
  shows "\<exists>S'. Reciprocal S p1 p2 = Inr S' \<and>
    PhysicalProperty_reciprocal S' p1 = Some p2 \<and> PhysicalProperty_reciprocal S' p2 = Some p1"
proof -
  obtain S' where "Reciprocal S p1 p2 = Inr S'"
    and "PhysicalProperty_reciprocal S' = (PhysicalProperty_reciprocal S)(p1 := Some p2, p2 := Some p1)"
    using Reciprocal_physprops [OF assms] by metis
  then show ?thesis by auto
qed

theorem Reciprocal_symmetric_witness:
  "\<exists>S'. Reciprocal (Invertible ''r'' (''rho'', ''rhoMap'', ''rhoDeriv'')
          (Invertible ''s'' (''sigma'', ''sigmaMap'', ''sigmaDeriv'') [])) ''sigma'' ''rho'' = Inr S' \<and>
     PhysicalProperty_reciprocal S' ''sigma'' = Some ''rho'' \<and>
     PhysicalProperty_reciprocal S' ''rho'' = Some ''sigma''"
  by (rule Reciprocal_symmetric) (simp_all add: Invertible_getters)

text \<open>
  The linker keeps a class well-formed when it links two distinct physical
  properties that have no reciprocal yet.
\<close>

lemma Reciprocal_wf:
  assumes wf: "wf_schema S" and ne: "p1 \<noteq> p2"
    and pp: "is_physprop S p1" "is_physprop S p2"
    and free: "PhysicalProperty_reciprocal S p1 = None" "PhysicalProperty_reciprocal S p2 = None"
    and res: "Reciprocal S p1 p2 = Inr S'"
  shows "wf_schema S'"
proof -
  obtain S'' where r: "Reciprocal S p1 p2 = Inr S''"
    and g: "Mapping_prop S'' = Mapping_prop S"
      "PhysicalProperty_mapping S'' = PhysicalProperty_mapping S"
      "PhysicalProperty_reciprocal S'' = (PhysicalProperty_reciprocal S)(p1 := Some p2, p2 := Some p1)"
      "Derivative_physical_property S'' = Derivative_physical_property S"
      "is_physprop S'' = is_physprop S" "fst ` set S'' = fst ` set S"
      "distinct (map fst S) \<Longrightarrow> distinct (map fst S'')"
    using Reciprocal_physprops [OF pp] by metis
  from r res have eq: "S' = S''" by simp
  show ?thesis
  proof (rule wf_schema_intro)
    show "distinct (map fst S')" using wf g(7) eq by (simp add: wf_schema_def)
  next
    fix n assume "n \<in> fst ` set S'"
    then have n: "n \<in> fst ` set S" using g(6) eq by simp
    have at: "wf_at S n" using wf n by (rule wf_schema_at)
    have recip_ne: "PhysicalProperty_reciprocal S n = Some r \<Longrightarrow> r \<noteq> p1 \<and> r \<noteq> p2" for r
      using wf_reciprocal_sym [OF wf] free by (metis option.distinct(1))
    show "wf_at S' n"
      using at recip_ne ne free unfolding eq wf_at_def g
      by (auto split: option.splits)
  qed
qed

lemma scenario_class_built:
  "Reciprocal (Invertible ''Electrical resistivity'' (''rho'', ''rhoMap'', ''rhoDeriv'')
     (Invertible ''Electrical conductivity'' (''sigma'', ''sigmaMap'', ''sigmaDeriv'') []))
     ''sigma'' ''rho'' = Inr scenario_class"
  by code_simp

lemma scenario_class_wf: "wf_schema scenario_class"
  by code_simp

lemma scenario_class_links [descr_simps]:
  "Mapping_prop scenario_class ''sigmaMap'' = Some ''sigma''"
  "Mapping_prop scenario_class ''rhoMap'' = Some ''rho''"
  "PhysicalProperty_mapping scenario_class ''sigma'' = Some ''sigmaMap''"
  "PhysicalProperty_mapping scenario_class ''rho'' = Some ''rhoMap''"
  "PhysicalProperty_reciprocal scenario_class ''sigma'' = Some ''rho''"
  "PhysicalProperty_reciprocal scenario_class ''rho'' = Some ''sigma''"
  "Derivative_physical_property scenario_class ''sigmaDeriv'' = Some ''sigma''"
  "Derivative_physical_property scenario_class ''rhoDeriv'' = Some ''rho''"
  "is_physprop scenario_class ''sigma''" "is_physprop scenario_class ''rho''"
  by (simp_all add: scenario_class_def Mapping_prop_def PhysicalProperty_mapping_def
      PhysicalProperty_reciprocal_def Derivative_physical_property_def is_physprop_def)


text \<open>
  C32. Linking is idempotent under swapping: after \<open>Reciprocal(p1, p2)\<close>,
  \<open>Reciprocal(p2, p1)\<close> leaves the class unchanged.
\<close>

theorem Reciprocal_swap_idem:
  assumes "is_physprop S p1" "is_physprop S p2" and "Reciprocal S p1 p2 = Inr S'"
  shows "Reciprocal S' p2 p1 = Inr S'"
proof -
  from assms(1) obtain h1 mo1 ro1 where l1: "map_of S p1 = Some (PhysicalProperty h1 mo1 ro1)"
    by (auto simp: is_physprop_def split: option.splits descriptor.splits)
  from assms(2) obtain h2 mo2 ro2 where l2: "map_of S p2 = Some (PhysicalProperty h2 mo2 ro2)"
    by (auto simp: is_physprop_def split: option.splits descriptor.splits)
  show ?thesis
  proof (cases "p1 = p2")
    case True
    with assms(3) l1 show ?thesis
      by (auto simp: Reciprocal_def set_reciprocal_def update_conv' update_triv)
  next
    case False
    with assms(3) l1 l2 show ?thesis
      by (auto simp: Reciprocal_def set_reciprocal_def update_conv' update_triv)
  qed
qed

theorem Reciprocal_swap_idem_witness:
  "Reciprocal scenario_class ''rho'' ''sigma'' = Inr scenario_class"
proof -
  have "is_physprop (Invertible ''Electrical resistivity'' (''rho'', ''rhoMap'', ''rhoDeriv'')
     (Invertible ''Electrical conductivity'' (''sigma'', ''sigmaMap'', ''sigmaDeriv'') [])) ''sigma''"
    "is_physprop (Invertible ''Electrical resistivity'' (''rho'', ''rhoMap'', ''rhoDeriv'')
     (Invertible ''Electrical conductivity'' (''sigma'', ''sigmaMap'', ''sigmaDeriv'') [])) ''rho''"
    by (simp_all add: Invertible_getters)
  from Reciprocal_swap_idem [OF this scenario_class_built] show ?thesis .
qed

text \<open>
  C30. Re-linking a property that already has a reciprocal silently overwrites its
  link: the old partner still names it as reciprocal, while it names the new one, and
  the class is no longer well-formed (the spec's open question 2).
\<close>

theorem Reciprocal_relink_breaks_symmetry:
  assumes wf: "wf_schema S" and rp: "PhysicalProperty_reciprocal S p = Some r"
    and q: "is_physprop S q" and nq: "q \<noteq> p" "q \<noteq> r"
    and res: "Reciprocal S p q = Inr S'"
  shows "PhysicalProperty_reciprocal S' r = Some p \<and> PhysicalProperty_reciprocal S' p = Some q \<and>
    \<not> wf_schema S'"
proof -
  have pp: "is_physprop S p" using rp by (rule reciprocal_is_physprop)
  have rr: "PhysicalProperty_reciprocal S r = Some p" and ne: "r \<noteq> p"
    using wf_reciprocal_sym [OF wf rp] by simp_all
  obtain S'' where r: "Reciprocal S p q = Inr S''"
    and g: "PhysicalProperty_reciprocal S'' = (PhysicalProperty_reciprocal S)(p := Some q, q := Some p)"
    using Reciprocal_physprops [OF pp q] by metis
  from r res have eq: "S' = S''" by simp
  have a: "PhysicalProperty_reciprocal S' r = Some p" using g eq rr ne nq by simp
  have b: "PhysicalProperty_reciprocal S' p = Some q" using g eq nq by simp
  have "\<not> wf_schema S'"
  proof
    assume "wf_schema S'"
    from wf_reciprocal_sym [OF this a] b nq show False by simp
  qed
  with a b show ?thesis by simp
qed

theorem Reciprocal_relink_breaks_symmetry_witness:
  "\<exists>S'. Reciprocal (AList.update ''kappa'' (PhysicalProperty ''k'' None None) scenario_class)
          ''sigma'' ''kappa'' = Inr S' \<and>
     PhysicalProperty_reciprocal S' ''rho'' = Some ''sigma'' \<and>
     PhysicalProperty_reciprocal S' ''sigma'' = Some ''kappa'' \<and> \<not> wf_schema S'"
proof -
  let ?S = "AList.update ''kappa'' (PhysicalProperty ''k'' None None) scenario_class"
  have wf: "wf_schema ?S" by code_simp
  have rp: "PhysicalProperty_reciprocal ?S ''sigma'' = Some ''rho''"
    and q: "is_physprop ?S ''kappa''" and pp: "is_physprop ?S ''sigma''"
    by (simp_all add: descr_simps)
  obtain S' where res: "Reciprocal ?S ''sigma'' ''kappa'' = Inr S'"
    using Reciprocal_physprops [OF pp q] by metis
  show ?thesis
    using res Reciprocal_relink_breaks_symmetry [OF wf rp q _ _ res] by simp
qed

text \<open>
  C33. The factory's bindings and help texts: the property is bound to the mapping in
  both directions, the derivative to the property, no reciprocal is set, and the
  help texts are the ones \<open>Invertible\<close> formats.
\<close>

theorem Invertible_bindings:
  assumes "distinct [p, m, d]"
  shows "PhysicalProperty_mapping (Invertible h (p, m, d) S) p = Some m \<and>
    Mapping_prop (Invertible h (p, m, d) S) m = Some p \<and>
    Derivative_physical_property (Invertible h (p, m, d) S) d = Some p \<and>
    PhysicalProperty_reciprocal (Invertible h (p, m, d) S) p = None \<and>
    map_of (Invertible h (p, m, d) S) m = Some (Mapping (''Mapping of '' @ h @ '' to the inversion model.'') (Some p)) \<and>
    map_of (Invertible h (p, m, d) S) d = Some (Derivative (''Derivative of '' @ h @ '' wrt the model.'') (Some p))"
proof -
  have "PhysicalProperty_mapping (Invertible h (p, m, d) S) p = Some m \<and>
    Mapping_prop (Invertible h (p, m, d) S) m = Some p \<and>
    Derivative_physical_property (Invertible h (p, m, d) S) d = Some p \<and>
    PhysicalProperty_reciprocal (Invertible h (p, m, d) S) p = None"
    using assms by (simp add: Invertible_getters)
  moreover have "map_of (Invertible h (p, m, d) S) m = Some (Mapping (mapping_help h) (Some p))"
    "map_of (Invertible h (p, m, d) S) d = Some (Derivative (derivative_help h) (Some p))"
    using assms by (simp_all add: Invertible_def update_conv')
  ultimately show ?thesis by (simp add: mapping_help_def derivative_help_def)
qed

theorem Invertible_bindings_witness:
  "PhysicalProperty_mapping (Invertible ''Electrical conductivity'' (''sigma'', ''sigmaMap'', ''sigmaDeriv'') []) ''sigma'' = Some ''sigmaMap'' \<and>
   map_of (Invertible ''Electrical conductivity'' (''sigma'', ''sigmaMap'', ''sigmaDeriv'') []) ''sigmaMap'' =
     Some (Mapping ''Mapping of Electrical conductivity to the inversion model.'' (Some ''sigma''))"
  using Invertible_bindings [of "''sigma''" "''sigmaMap''" "''sigmaDeriv''" "''Electrical conductivity''" "[]"]
  by simp

end
