(* ===== verification/Props_Host.thy ===== *)
theory Props_Host
  imports Props_Schema
begin

text \<open>
  The host instance (\<open>BaseSimPEG\<close>, a \<open>properties.HasProperties\<close> class): the
  per-instance storage every descriptor reads and writes with \<open>_get(name)\<close> and
  \<open>_set(name, value)\<close>, and the instance's \<open>model\<close> array, which the
  descriptors read and the host supplies. Storing \<open>None\<close> and having no entry are
  the same to \<open>_get\<close>, so the backend is a partial map and \<open>_set(name, None)\<close>
  removes the entry.
\<close>

record host =
  backend :: "name \<rightharpoonup> pvalue"
  model :: "array option"

text \<open>\<open>HasProperties._get\<close>: \<^verbatim>\<open>self._backend.get(name, None)\<close>.\<close>

definition raw_get :: "host \<Rightarrow> name \<Rightarrow> pvalue option" where
  "raw_get i n = backend i n"

text \<open>\<open>HasProperties._set\<close>: \<^verbatim>\<open>self._backend[name] = value\<close>, no validation.\<close>

definition raw_set :: "host \<Rightarrow> name \<Rightarrow> pvalue option \<Rightarrow> host" where
  "raw_set i n v = i\<lparr>backend := (backend i)(n := v)\<rparr>"

text \<open>\<open>instance._set(x.name, None)\<close> guarded by \<open>if x:\<close>, for an optional link \<open>x\<close>.\<close>

definition clear_slot :: "name option \<Rightarrow> host \<Rightarrow> host" where
  "clear_slot ko i = (case ko of None \<Rightarrow> i | Some n \<Rightarrow> raw_set i n None)"

definition empty_instance :: "array option \<Rightarrow> host" where
  "empty_instance mo = \<lparr>backend = Map.empty, model = mo\<rparr>"

lemma raw_get_raw_set [slot_simps]:
  "raw_get (raw_set i n v) k = (if k = n then v else raw_get i k)"
  by (simp add: raw_get_def raw_set_def)

lemma raw_get_clear_slot [slot_simps]:
  "raw_get (clear_slot ko i) k = (if ko = Some k then None else raw_get i k)"
  by (cases ko) (simp_all add: clear_slot_def raw_get_raw_set)

lemma model_raw_set [simp, slot_simps]: "model (raw_set i n v) = model i"
  by (simp add: raw_set_def)

lemma model_clear_slot [simp, slot_simps]: "model (clear_slot ko i) = model i"
  by (cases ko) (simp_all add: clear_slot_def)

lemma raw_get_empty [simp, slot_simps]: "raw_get (empty_instance mo) k = None"
  by (simp add: raw_get_def empty_instance_def)

lemma model_empty [simp, slot_simps]: "model (empty_instance mo) = mo"
  by (simp add: empty_instance_def)

lemma clear_slot_None [simp]: "clear_slot None i = i"
  by (simp add: clear_slot_def)

lemma clear_slot_Some [simp]: "clear_slot (Some n) i = raw_set i n None"
  by (simp add: clear_slot_def)

end
