(* ===== verification/Props_Mapping.thy ===== *)
theory Props_Mapping
  imports Props_Host
begin

text \<open>
  The instance-level behaviour of a \<open>Mapping\<close> descriptor (\<open>Mapping.validate\<close>,
  \<open>Mapping.clear_props\<close> and the \<open>fget\<close>/\<open>fset\<close> pair built by
  \<open>Mapping.get_property\<close>): reading falls back to the reciprocal property's stored
  mapping wrapped in a \<open>ReciprocalMap\<close>; writing stores the validated map and
  clears the bound property, its reciprocal and the reciprocal's mapping.
\<close>

text \<open>\<open>Mapping.validate\<close>: \<open>None\<close> or an \<open>IdentityMap\<close> instance, else \<open>self.error\<close>.\<close>

fun Mapping_validate :: "name \<Rightarrow> pvalue option \<Rightarrow> error + pvalue option" where
  "Mapping_validate m None = Inr None"
| "Mapping_validate m (Some (MapObj f)) = Inr (Some (MapObj f))"
| "Mapping_validate m (Some _) = Inl (ValidationError m)"

definition Mapping_clear_props :: "schema \<Rightarrow> name \<Rightarrow> host \<Rightarrow> host" where
  "Mapping_clear_props S m i =
     clear_slot (Mapping_reciprocal S m)
       (clear_slot (Mapping_reciprocal_prop S m)
         (clear_slot (Mapping_prop S m) i))"

definition Mapping_fget :: "schema \<Rightarrow> host \<Rightarrow> name \<Rightarrow> error + pvalue option" where
  "Mapping_fget S i m =
     (case raw_get i m of
        Some v \<Rightarrow> Inr (Some v)
      | None \<Rightarrow>
          (case Mapping_reciprocal S m of
             None \<Rightarrow> Inr None
           | Some rm \<Rightarrow>
               (case raw_get i rm of
                  None \<Rightarrow> Inr None
                | Some v \<Rightarrow>
                    (case map_mul ReciprocalMap (Some v) of
                       Inl e \<Rightarrow> Inl e
                     | Inr w \<Rightarrow> Inr (Some w)))))"

definition Mapping_fset :: "schema \<Rightarrow> host \<Rightarrow> name \<Rightarrow> pvalue option \<Rightarrow> error + host" where
  "Mapping_fset S i m v =
     (case Mapping_validate m v of
        Inl e \<Rightarrow> Inl e
      | Inr v' \<Rightarrow> Inr (Mapping_clear_props S m (raw_set i m v')))"

subsection \<open>Validation\<close>

lemma Mapping_validate_ok:
  "Mapping_validate m v = Inr v' \<longleftrightarrow> v' = v \<and> (case v of None \<Rightarrow> True | Some x \<Rightarrow> is_map_value x)"
  by (cases "(m, v)" rule: Mapping_validate.cases) auto

lemma Mapping_validate_error:
  "Mapping_validate m v = Inl e \<longleftrightarrow> (\<exists>x. v = Some x \<and> \<not> is_map_value x) \<and> e = ValidationError m"
  by (cases "(m, v)" rule: Mapping_validate.cases) auto

subsection \<open>Which slots a write touches\<close>

lemma Mapping_clear_props_get [slot_simps]:
  "raw_get (Mapping_clear_props S m i) k =
     (if Mapping_prop S m = Some k \<or> Mapping_reciprocal_prop S m = Some k \<or>
         Mapping_reciprocal S m = Some k then None else raw_get i k)"
  by (simp add: Mapping_clear_props_def raw_get_clear_slot raw_get_raw_set)

lemma model_Mapping_clear_props [simp, slot_simps]:
  "model (Mapping_clear_props S m i) = model i"
  by (simp add: Mapping_clear_props_def)

lemma Mapping_fset_ok:
  "Mapping_fset S i m v = Inr i' \<longleftrightarrow>
     (case v of None \<Rightarrow> True | Some x \<Rightarrow> is_map_value x) \<and>
     i' = Mapping_clear_props S m (raw_set i m v)"
  by (cases "(m, v)" rule: Mapping_validate.cases) (auto simp: Mapping_fset_def)

text \<open>
  In a well-formed class, the slots a mapping's write clears are the bound property
  \<open>p\<close>, its reciprocal \<open>r\<close> and \<open>r\<close>'s mapping; none of them is the mapping itself.
\<close>

lemma Mapping_targets_wf:
  assumes wf: "wf_schema S" and mp: "Mapping_prop S m = Some p"
  shows "Mapping_reciprocal_prop S m = PhysicalProperty_reciprocal S p"
    and "Mapping_reciprocal S m =
           (case PhysicalProperty_reciprocal S p of None \<Rightarrow> None
            | Some r \<Rightarrow> PhysicalProperty_mapping S r)"
proof -
  show "Mapping_reciprocal_prop S m = PhysicalProperty_reciprocal S p"
    by (simp add: Mapping_reciprocal_prop_def mp)
  show "Mapping_reciprocal S m =
           (case PhysicalProperty_reciprocal S p of None \<Rightarrow> None
            | Some r \<Rightarrow> PhysicalProperty_mapping S r)"
  proof (cases "PhysicalProperty_reciprocal S p")
    case None
    then show ?thesis by (simp add: Mapping_reciprocal_def mp)
  next
    case (Some r)
    with wf_reciprocal_sym [OF wf] have "is_physprop S r"
      by (blast intro: reciprocal_is_physprop)
    with Some show ?thesis
      by (simp add: Mapping_reciprocal_def mp mapping_attr_physprop)
  qed
qed

lemma Mapping_not_cleared_self:
  assumes wf: "wf_schema S" and mp: "Mapping_prop S m = Some p"
  shows "Mapping_prop S m \<noteq> Some m" "Mapping_reciprocal_prop S m \<noteq> Some m"
    "Mapping_reciprocal S m \<noteq> Some m"
proof -
  have pm: "PhysicalProperty_mapping S p = Some m" using wf mp by (rule wf_prop_mapping)
  have nm: "Mapping_prop S x = None" if "is_physprop S x" for x
    using that by (auto simp: is_physprop_def Mapping_prop_def split: option.splits descriptor.splits)
  have pp: "is_physprop S p"
    using pm by (auto simp: is_physprop_def PhysicalProperty_mapping_def split: option.splits descriptor.splits)
  show "Mapping_prop S m \<noteq> Some m"
  proof
    assume "Mapping_prop S m = Some m"
    with mp have "p = m" by simp
    with pp nm [of m] mp show False by simp
  qed
  show "Mapping_reciprocal_prop S m \<noteq> Some m"
  proof
    assume "Mapping_reciprocal_prop S m = Some m"
    then have "PhysicalProperty_reciprocal S p = Some m"
      by (simp add: Mapping_targets_wf [OF wf mp])
    then have "PhysicalProperty_reciprocal S m = Some p"
      using wf_reciprocal_sym [OF wf] by blast
    then have "is_physprop S m" by (rule reciprocal_is_physprop)
    with nm [of m] mp show False by simp
  qed
  show "Mapping_reciprocal S m \<noteq> Some m"
  proof
    assume "Mapping_reciprocal S m = Some m"
    then obtain r where r: "PhysicalProperty_reciprocal S p = Some r" "PhysicalProperty_mapping S r = Some m"
      by (auto simp: Mapping_targets_wf [OF wf mp] split: option.splits)
    from wf r(2) have "Mapping_prop S m = Some r" by (rule wf_mapping_prop)
    with mp have "r = p" by simp
    with r(1) wf_reciprocal_sym [OF wf] show False by blast
  qed
qed

subsection \<open>The getter\<close>

lemma Mapping_fget_stored:
  "raw_get i m = Some v \<Longrightarrow> Mapping_fget S i m = Inr (Some v)"
  by (simp add: Mapping_fget_def)

lemma Mapping_fget_reciprocal_map:
  "raw_get i m = None \<Longrightarrow> Mapping_reciprocal S m = Some rm \<Longrightarrow> raw_get i rm = Some (MapObj g) \<Longrightarrow>
     Mapping_fget S i m = Inr (Some (MapObj (ComboMap ReciprocalMap g)))"
  by (simp add: Mapping_fget_def)

lemma Mapping_fget_None:
  "raw_get i m = None \<Longrightarrow>
     (case Mapping_reciprocal S m of None \<Rightarrow> True | Some rm \<Rightarrow> raw_get i rm = None) \<Longrightarrow>
     Mapping_fget S i m = Inr None"
  by (simp add: Mapping_fget_def split: option.splits)

lemma Mapping_fset_get [slot_simps]:
  "Mapping_fset S i m v = Inr i' \<Longrightarrow>
     raw_get i' k =
       (if Mapping_prop S m = Some k \<or> Mapping_reciprocal_prop S m = Some k \<or>
           Mapping_reciprocal S m = Some k then None
        else if k = m then v else raw_get i k)"
  by (auto simp: Mapping_fset_ok Mapping_clear_props_get raw_get_raw_set)

lemma Mapping_fset_model [slot_simps]:
  "Mapping_fset S i m v = Inr i' \<Longrightarrow> model i' = model i"
  by (auto simp: Mapping_fset_ok)

lemma Mapping_fset_get_wf:
  assumes wf: "wf_schema S" and mp: "Mapping_prop S m = Some p"
    and set: "Mapping_fset S i m v = Inr i'"
  shows "raw_get i' k =
       (if k = p \<or> PhysicalProperty_reciprocal S p = Some k \<or>
           (\<exists>r. PhysicalProperty_reciprocal S p = Some r \<and> PhysicalProperty_mapping S r = Some k) then None
        else if k = m then v else raw_get i k)"
    and "raw_get i' m = v"
proof -
  show get: "raw_get i' k =
       (if k = p \<or> PhysicalProperty_reciprocal S p = Some k \<or>
           (\<exists>r. PhysicalProperty_reciprocal S p = Some r \<and> PhysicalProperty_mapping S r = Some k) then None
        else if k = m then v else raw_get i k)" for k
    using Mapping_fset_get [OF set, of k]
    by (auto simp: mp Mapping_targets_wf [OF wf mp] split: option.splits)
  show "raw_get i' m = v"
    using Mapping_fset_get [OF set, of m] Mapping_not_cleared_self [OF wf mp] by simp
qed

text \<open>
  C28. The setter of a mapping attribute accepts exactly \<open>None\<close> and map objects;
  anything else raises \<open>ValidationError\<close> naming the attribute.
\<close>

theorem Mapping_fset_rejects:
  "Mapping_fset S i m v = Inl e \<longleftrightarrow> (\<exists>x. v = Some x \<and> \<not> is_map_value x) \<and> e = ValidationError m"
  by (cases "(m, v)" rule: Mapping_validate.cases) (auto simp: Mapping_fset_def)

text \<open>
  C31. With its own slot empty, a mapping attribute reads its reciprocal side's map
  wrapped in a \<open>ReciprocalMap\<close>: \<open>ReciprocalMap() * rhoMap\<close> is what
  \<open>sigmaMap\<close> reads when only \<open>rhoMap\<close> is set.
\<close>

theorem Mapping_fget_reciprocal:
  assumes wf: "wf_schema S" and mp: "Mapping_prop S m = Some p"
    and rp: "PhysicalProperty_reciprocal S p = Some r" and rm: "PhysicalProperty_mapping S r = Some rmap"
    and sm: "raw_get i m = None" and srm: "raw_get i rmap = Some (MapObj g)"
  shows "Mapping_fget S i m = Inr (Some (MapObj (ComboMap ReciprocalMap g)))"
proof -
  have "Mapping_reciprocal S m = Some rmap"
    using Mapping_targets_wf(2) [OF wf mp] rp rm by simp
  from sm this srm show ?thesis by (rule Mapping_fget_reciprocal_map)
qed

theorem Mapping_fget_reciprocal_witness:
  "Mapping_fget scenario_class (raw_set (empty_instance None) ''rhoMap'' (Some (MapObj ExpMap))) ''sigmaMap'' =
     Inr (Some (MapObj (ComboMap ReciprocalMap ExpMap)))"
  by (rule Mapping_fget_reciprocal [OF scenario_class_wf, of _ "''sigma''" "''rho''"])
     (simp_all add: descr_simps raw_get_raw_set)

text \<open>
  C29. Round trip: after a successful write to a mapping attribute, the attribute
  reads back exactly the value written, \<open>None\<close> included: the write clears the
  reciprocal side's map, so no \<open>ReciprocalMap\<close>-derived value shadows a reset.
\<close>

theorem Mapping_fset_fget_roundtrip:
  assumes wf: "wf_schema S" and set: "Mapping_fset S i m v = Inr i'"
  shows "Mapping_fget S i' m = Inr v"
proof (cases "Mapping_prop S m")
  case None
  then have "Mapping_reciprocal S m = None" "raw_get i' m = v"
    using Mapping_fset_get [OF set, of m]
    by (simp_all add: Mapping_reciprocal_def Mapping_reciprocal_prop_def)
  then show ?thesis by (cases v) (simp_all add: Mapping_fget_def)
next
  case (Some p)
  note get = Mapping_fset_get_wf [OF wf Some set]
  have "Mapping_reciprocal S m = Some rm \<Longrightarrow> raw_get i' rm = None" for rm
    using get(1) [of rm] Mapping_targets_wf(2) [OF wf Some] by (auto split: option.splits)
  then show ?thesis using get(2) by (cases v) (auto simp: Mapping_fget_def split: option.splits)
qed

theorem Mapping_fset_fget_roundtrip_witness:
  "\<exists>i'. Mapping_fset scenario_class (raw_set (empty_instance None) ''rhoMap'' (Some (MapObj ExpMap)))
       ''sigmaMap'' None = Inr i' \<and> Mapping_fget scenario_class i' ''sigmaMap'' = Inr None"
proof -
  obtain i' where set: "Mapping_fset scenario_class (raw_set (empty_instance None) ''rhoMap'' (Some (MapObj ExpMap)))
       ''sigmaMap'' None = Inr i'"
    by (simp add: Mapping_fset_def)
  then show ?thesis using Mapping_fset_fget_roundtrip [OF scenario_class_wf set] by blast
qed

end
