(* ===== verification/Props_Derivative.thy ===== *)
theory Props_Derivative
  imports Props_Mapping
begin

text \<open>
  The getter of a \<open>Derivative\<close> attribute (\<open>Derivative.get_property.fget\<close>):
  the \<open>Zero\<close> sentinel when no physical property is bound, when the property has
  no mapping, or when the mapping attribute resolves to \<open>None\<close>; otherwise the
  mapping's derivative at the instance's model. A derivative is read-only.
\<close>

definition Derivative_fget :: "schema \<Rightarrow> host \<Rightarrow> name \<Rightarrow> error + dvalue" where
  "Derivative_fget S i d =
     (case Derivative_physical_property S d of
        None \<Rightarrow> Inr Zero
      | Some _ \<Rightarrow>
          (case Derivative_mapping S d of
             None \<Rightarrow> Inr Zero
           | Some m \<Rightarrow>
               (case Mapping_fget S i m of
                  Inl e \<Rightarrow> Inl e
                | Inr None \<Rightarrow> Inr Zero
                | Inr (Some v) \<Rightarrow> deriv_at v (model i))))"

lemma Derivative_fget_mapping_value:
  "Derivative_physical_property S d = Some p \<Longrightarrow> Derivative_mapping S d = Some m \<Longrightarrow>
     Mapping_fget S i m = Inr (Some v) \<Longrightarrow> Derivative_fget S i d = deriv_at v (model i)"
  by (simp add: Derivative_fget_def)

text \<open>
  C22. Derivative fallback: when the derivative's physical property has no mapping
  (or no property is bound), the derivative reads the \<open>Zero\<close> sentinel whatever
  the instance holds.
\<close>

theorem Derivative_fget_fallback:
  assumes "Derivative_mapping S d = None"
  shows "Derivative_fget S i d = Inr Zero"
  using assms by (simp add: Derivative_fget_def split: option.splits)

theorem Derivative_fget_fallback_witness:
  "Derivative_fget [(''p'', PhysicalProperty ''h'' None None), (''d'', Derivative ''dh'' (Some ''p''))]
     (empty_instance (Some [1])) ''d'' = Inr Zero"
  by (rule Derivative_fget_fallback)
     (simp add: Derivative_mapping_def Derivative_physical_property_def PhysicalProperty_mapping_def)

text \<open>
  C23. After a mapping attribute is set to a map, the derivative of its property reads
  the map's derivative at the instance's model.
\<close>

theorem Derivative_fget_mapped:
  assumes wf: "wf_schema S" and dp: "Derivative_physical_property S d = Some p"
    and pm: "PhysicalProperty_mapping S p = Some m"
    and set: "Mapping_fset S i m (Some (MapObj f)) = Inr i'" and mdl: "model i = Some xs"
  shows "Derivative_fget S i' d = Inr (Diag (map_deriv f xs))"
proof -
  have mp: "Mapping_prop S m = Some p" using wf pm by (rule wf_mapping_prop)
  have "Mapping_fget S i' m = Inr (Some (MapObj f))"
    using Mapping_fset_get_wf(2) [OF wf mp set] by (rule Mapping_fget_stored)
  moreover have "Derivative_mapping S d = Some m" by (simp add: Derivative_mapping_def dp pm)
  moreover have "model i' = Some xs" using Mapping_fset_model [OF set] mdl by simp
  ultimately show ?thesis using Derivative_fget_mapping_value [OF dp] by simp
qed

theorem Derivative_fget_mapped_witness:
  "\<exists>i'. Mapping_fset scenario_class (empty_instance (Some [1, 2, 4])) ''sigmaMap'' (Some (MapObj ExpMap)) = Inr i' \<and>
    Derivative_fget scenario_class i' ''sigmaDeriv'' = Inr (Diag (map exp [1, 2, 4]))"
proof -
  obtain i' where set: "Mapping_fset scenario_class (empty_instance (Some [1, 2, 4])) ''sigmaMap'' (Some (MapObj ExpMap)) = Inr i'"
    by (simp add: Mapping_fset_def)
  show ?thesis
    using set Derivative_fget_mapped [OF scenario_class_wf _ _ set] by (simp add: descr_simps)
qed

text \<open>
  C24. The reciprocal's derivative is not the \<open>Zero\<close> sentinel after a mapping is
  set: the reciprocal's mapping attribute resolves to \<open>ReciprocalMap\<close> composed with
  the set map, and the derivative reads that composition's derivative (by the chain
  rule, \<open>-1 / (f m)\<^sup>2 * f' m\<close> elementwise).
\<close>

theorem Derivative_fget_reciprocal_side:
  assumes wf: "wf_schema S" and dr: "Derivative_physical_property S d = Some r"
    and rm: "PhysicalProperty_mapping S r = Some rmap"
    and rp: "PhysicalProperty_reciprocal S r = Some p" and mp: "Mapping_prop S m = Some p"
    and set: "Mapping_fset S i m (Some (MapObj f)) = Inr i'" and mdl: "model i = Some xs"
  shows "Derivative_fget S i' d = Inr (Diag (map_deriv (ComboMap ReciprocalMap f) xs))"
proof -
  note get = Mapping_fset_get_wf [OF wf mp set]
  have pr: "PhysicalProperty_reciprocal S p = Some r"
    using wf_reciprocal_sym [OF wf rp] by simp
  have pm: "PhysicalProperty_mapping S p = Some m" using wf mp by (rule wf_prop_mapping)
  have rmp: "Mapping_prop S rmap = Some r" using wf rm by (rule wf_mapping_prop)
  have "raw_get i' rmap = None" using get(1) [of rmap] pr rm by auto
  moreover have "Mapping_reciprocal S rmap = Some m"
    using Mapping_targets_wf(2) [OF wf rmp] rp pm by simp
  moreover have "raw_get i' m = Some (MapObj f)" using get(2) .
  ultimately have "Mapping_fget S i' rmap = Inr (Some (MapObj (ComboMap ReciprocalMap f)))"
    by (rule Mapping_fget_reciprocal_map)
  moreover have "Derivative_mapping S d = Some rmap" by (simp add: Derivative_mapping_def dr rm)
  moreover have "model i' = Some xs" using Mapping_fset_model [OF set] mdl by simp
  ultimately show ?thesis using Derivative_fget_mapping_value [OF dr] by simp
qed

theorem Derivative_fget_reciprocal_side_witness:
  "\<exists>i'. Mapping_fset scenario_class (empty_instance (Some [1, 2, 4])) ''sigmaMap'' (Some (MapObj IdentityMap)) = Inr i' \<and>
    Derivative_fget scenario_class i' ''rhoDeriv'' = Inr (Diag [- 1, - 1 / 4, - 1 / 16])"
proof -
  obtain i' where set: "Mapping_fset scenario_class (empty_instance (Some [1, 2, 4])) ''sigmaMap'' (Some (MapObj IdentityMap)) = Inr i'"
    by (simp add: Mapping_fset_def)
  show ?thesis
    using set Derivative_fget_reciprocal_side [OF scenario_class_wf _ _ _ _ set] by (simp add: descr_simps power2_eq_square)
qed

end
