(* ===== verification/Props_Physical.thy ===== *)
theory Props_Physical
  imports Props_Derivative
begin

text \<open>
  The instance-level behaviour of a \<open>PhysicalProperty\<close> descriptor
  (\<open>PhysicalProperty.validate\<close>, \<open>clear_mappings\<close> and the \<open>fget\<close>/\<open>fset\<close>
  pair of \<open>get_property\<close>). The getter tries, in order, the property's own slot,
  the reciprocal's slot (inverted), and then, with no mapping bound, the reciprocal's
  full getter (inverted), or, with a mapping bound, the mapping applied to the model.
  The recursion through the reciprocal's getter need not end, so the getter is a
  \<^theory_text>\<open>partial_function\<close> in the option monad: \<open>None\<close> is the Python
  \<open>RecursionError\<close> of a getter that calls itself without end.
\<close>

text \<open>\<open>PhysicalProperty.validate\<close>: \<open>None\<close> or a numpy array, else the assertion fails.\<close>

fun PhysicalProperty_validate :: "pvalue option \<Rightarrow> error + pvalue option" where
  "PhysicalProperty_validate None = Inr None"
| "PhysicalProperty_validate (Some (Arr xs)) = Inr (Some (Arr xs))"
| "PhysicalProperty_validate (Some _) = Inl (AssertionError ''Physical properties must be numpy arrays.'')"

definition PhysicalProperty_clear_mappings :: "schema \<Rightarrow> name \<Rightarrow> host \<Rightarrow> host" where
  "PhysicalProperty_clear_mappings S p i =
     (let i1 = clear_slot (PhysicalProperty_mapping S p) i in
      case PhysicalProperty_reciprocal S p of
        None \<Rightarrow> i1
      | Some r \<Rightarrow> clear_slot (mapping_attr S r) (raw_set i1 r None))"

text \<open>\<^verbatim>\<open>if scope.reciprocal: default = self._get(scope.reciprocal.name)\<close>\<close>

definition PhysicalProperty_reciprocal_slot :: "schema \<Rightarrow> host \<Rightarrow> name \<Rightarrow> pvalue option" where
  "PhysicalProperty_reciprocal_slot S i p =
     (case PhysicalProperty_reciprocal S p of None \<Rightarrow> None | Some r \<Rightarrow> raw_get i r)"

partial_function (option) PhysicalProperty_fget ::
  "schema \<Rightarrow> host \<Rightarrow> name \<Rightarrow> (error + pvalue option) option" where
  "PhysicalProperty_fget S i p =
     (case raw_get i p of
        Some v \<Rightarrow> Some (Inr (Some v))
      | None \<Rightarrow>
          (case PhysicalProperty_reciprocal_slot S i p of
             Some v \<Rightarrow> Some (one_div (Some v))
           | None \<Rightarrow>
               (case PhysicalProperty_mapping S p of
                  None \<Rightarrow>
                    (case PhysicalProperty_reciprocal S p of
                       None \<Rightarrow> Some (Inr None)
                     | Some r \<Rightarrow>
                         (if is_physprop S r then
                            Option.bind (PhysicalProperty_fget S i r)
                              (\<lambda>res. Some (case res of Inl e \<Rightarrow> Inl e | Inr v \<Rightarrow> one_div v))
                          else Some (Inl (TypeError ''unsupported operand type(s) for /''))))
                | Some m \<Rightarrow>
                    Some (case Mapping_fget S i m of
                            Inl e \<Rightarrow> Inl e
                          | Inr v \<Rightarrow> mul_model v (model i)))))"

definition PhysicalProperty_fset :: "schema \<Rightarrow> host \<Rightarrow> name \<Rightarrow> pvalue option \<Rightarrow> error + host" where
  "PhysicalProperty_fset S i p v =
     (case PhysicalProperty_validate v of
        Inl e \<Rightarrow> Inl e
      | Inr v' \<Rightarrow> Inr (PhysicalProperty_clear_mappings S p (raw_set i p v')))"

subsection \<open>The getter, one branch at a time\<close>

lemma fget_stored:
  "raw_get i p = Some v \<Longrightarrow> PhysicalProperty_fget S i p = Some (Inr (Some v))"
  by (simp add: PhysicalProperty_fget.simps)

lemma fget_reciprocal_stored:
  "raw_get i p = None \<Longrightarrow> PhysicalProperty_reciprocal S p = Some r \<Longrightarrow> raw_get i r = Some v \<Longrightarrow>
     PhysicalProperty_fget S i p = Some (one_div (Some v))"
  by (simp add: PhysicalProperty_fget.simps PhysicalProperty_reciprocal_slot_def)

lemma fget_unbound:
  "raw_get i p = None \<Longrightarrow> PhysicalProperty_reciprocal S p = None \<Longrightarrow>
     PhysicalProperty_mapping S p = None \<Longrightarrow> PhysicalProperty_fget S i p = Some (Inr None)"
  by (simp add: PhysicalProperty_fget.simps PhysicalProperty_reciprocal_slot_def)

lemma fget_mapped:
  "raw_get i p = None \<Longrightarrow> PhysicalProperty_reciprocal_slot S i p = None \<Longrightarrow>
     PhysicalProperty_mapping S p = Some m \<Longrightarrow>
     PhysicalProperty_fget S i p =
       Some (case Mapping_fget S i m of Inl e \<Rightarrow> Inl e | Inr v \<Rightarrow> mul_model v (model i))"
  by (simp add: PhysicalProperty_fget.simps)

lemma fget_recurse:
  "raw_get i p = None \<Longrightarrow> PhysicalProperty_reciprocal S p = Some r \<Longrightarrow> raw_get i r = None \<Longrightarrow>
     PhysicalProperty_mapping S p = None \<Longrightarrow> is_physprop S r \<Longrightarrow>
     PhysicalProperty_fget S i p =
       Option.bind (PhysicalProperty_fget S i r)
         (\<lambda>res. Some (case res of Inl e \<Rightarrow> Inl e | Inr v \<Rightarrow> one_div v))"
  by (simp add: PhysicalProperty_fget.simps PhysicalProperty_reciprocal_slot_def)

lemmas fget_branches = fget_stored fget_reciprocal_stored fget_unbound fget_mapped fget_recurse

subsection \<open>The setter\<close>

lemma PhysicalProperty_validate_ok:
  "PhysicalProperty_validate v = Inr v' \<longleftrightarrow>
     v' = v \<and> (case v of None \<Rightarrow> True | Some x \<Rightarrow> is_array_value x)"
  by (cases v rule: PhysicalProperty_validate.cases) auto

lemma PhysicalProperty_clear_mappings_get [slot_simps]:
  "raw_get (PhysicalProperty_clear_mappings S p i) k =
     (if PhysicalProperty_mapping S p = Some k \<or> PhysicalProperty_reciprocal S p = Some k \<or>
         (\<exists>r. PhysicalProperty_reciprocal S p = Some r \<and> mapping_attr S r = Some k)
      then None else raw_get i k)"
  by (auto simp: PhysicalProperty_clear_mappings_def Let_def raw_get_clear_slot raw_get_raw_set
      split: option.splits)

lemma PhysicalProperty_clear_mappings_model [simp, slot_simps]:
  "model (PhysicalProperty_clear_mappings S p i) = model i"
  by (simp add: PhysicalProperty_clear_mappings_def Let_def split: option.splits)

lemma PhysicalProperty_fset_ok:
  "PhysicalProperty_fset S i p v = Inr i' \<longleftrightarrow>
     (case v of None \<Rightarrow> True | Some x \<Rightarrow> is_array_value x) \<and>
     i' = PhysicalProperty_clear_mappings S p (raw_set i p v)"
  by (cases v rule: PhysicalProperty_validate.cases) (auto simp: PhysicalProperty_fset_def)

lemma PhysicalProperty_fset_get [slot_simps]:
  "PhysicalProperty_fset S i p v = Inr i' \<Longrightarrow>
     raw_get i' k =
       (if PhysicalProperty_mapping S p = Some k \<or> PhysicalProperty_reciprocal S p = Some k \<or>
           (\<exists>r. PhysicalProperty_reciprocal S p = Some r \<and> mapping_attr S r = Some k) then None
        else if k = p then v else raw_get i k)"
  by (auto simp: PhysicalProperty_fset_ok PhysicalProperty_clear_mappings_get raw_get_raw_set)

lemma PhysicalProperty_fset_model [slot_simps]:
  "PhysicalProperty_fset S i p v = Inr i' \<Longrightarrow> model i' = model i"
  by (auto simp: PhysicalProperty_fset_ok)

text \<open>
  In a well-formed class the slots a property's write clears are its mapping, its
  reciprocal and the reciprocal's mapping, and none of them is the property itself.
\<close>

lemma PhysicalProperty_cleared_wf:
  assumes wf: "wf_schema S" and pp: "is_physprop S p"
  shows "(PhysicalProperty_mapping S p = Some k \<or> PhysicalProperty_reciprocal S p = Some k \<or>
          (\<exists>r. PhysicalProperty_reciprocal S p = Some r \<and> mapping_attr S r = Some k)) \<longleftrightarrow>
         (PhysicalProperty_mapping S p = Some k \<or> PhysicalProperty_reciprocal S p = Some k \<or>
          (\<exists>r. PhysicalProperty_reciprocal S p = Some r \<and> PhysicalProperty_mapping S r = Some k))"
    and "\<not> (PhysicalProperty_mapping S p = Some p \<or> PhysicalProperty_reciprocal S p = Some p \<or>
          (\<exists>r. PhysicalProperty_reciprocal S p = Some r \<and> PhysicalProperty_mapping S r = Some p))"
proof -
  have rpp: "PhysicalProperty_reciprocal S p = Some r \<Longrightarrow> is_physprop S r" for r
    using wf_reciprocal_sym [OF wf] reciprocal_is_physprop by blast
  then show "(PhysicalProperty_mapping S p = Some k \<or> PhysicalProperty_reciprocal S p = Some k \<or>
          (\<exists>r. PhysicalProperty_reciprocal S p = Some r \<and> mapping_attr S r = Some k)) \<longleftrightarrow>
         (PhysicalProperty_mapping S p = Some k \<or> PhysicalProperty_reciprocal S p = Some k \<or>
          (\<exists>r. PhysicalProperty_reciprocal S p = Some r \<and> PhysicalProperty_mapping S r = Some k))"
    by (auto simp: mapping_attr_physprop)
  have nm: "PhysicalProperty_mapping S x = Some p \<Longrightarrow> False" for x
  proof -
    assume "PhysicalProperty_mapping S x = Some p"
    with wf have "Mapping_prop S p = Some x" by (rule wf_mapping_prop)
    with pp show False
      by (auto simp: is_physprop_def Mapping_prop_def split: option.splits descriptor.splits)
  qed
  show "\<not> (PhysicalProperty_mapping S p = Some p \<or> PhysicalProperty_reciprocal S p = Some p \<or>
          (\<exists>r. PhysicalProperty_reciprocal S p = Some r \<and> PhysicalProperty_mapping S r = Some p))"
    using nm wf_reciprocal_sym [OF wf] by blast
qed

subsection \<open>When the getter returns\<close>

text \<open>
  Two properties that name each other as reciprocal (possibly one property naming
  itself), with no mapping and empty slots, call each other's getters without end.
\<close>

lemma fget_cycle_None:
  assumes rp: "PhysicalProperty_reciprocal S p = Some r" and rr: "PhysicalProperty_reciprocal S r = Some p"
    and np: "PhysicalProperty_mapping S p = None" and nr: "PhysicalProperty_mapping S r = None"
    and sp: "raw_get i p = None" and sr: "raw_get i r = None"
  shows "PhysicalProperty_fget S i p = None"
proof (rule ccontr)
  assume "PhysicalProperty_fget S i p \<noteq> None"
  then obtain y where y: "PhysicalProperty_fget S i p = Some y" by blast
  have ppr: "is_physprop S r" using rr by (rule reciprocal_is_physprop)
  have ppp: "is_physprop S p" using rp by (rule reciprocal_is_physprop)
  have "\<not> (S = S \<and> i = i \<and> (p = p \<or> p = r))"
    by (rule PhysicalProperty_fget.raw_induct
          [where P = "\<lambda>S' i' x y. \<not> (S' = S \<and> i' = i \<and> (x = p \<or> x = r))", OF _ y])
       (auto simp: PhysicalProperty_reciprocal_slot_def rp rr np nr sp sr ppr ppp bind_eq_Some_conv
             split: option.splits if_splits; blast)
  then show False by simp
qed

lemma fget_loop_None:
  assumes wf: "wf_schema S" and rp: "PhysicalProperty_reciprocal S p = Some r"
    and np: "PhysicalProperty_mapping S p = None" and nr: "PhysicalProperty_mapping S r = None"
    and sp: "raw_get i p = None" and sr: "raw_get i r = None"
  shows "PhysicalProperty_fget S i p = None"
  using fget_cycle_None [OF rp _ np nr sp sr] wf_reciprocal_sym [OF wf rp] by simp

lemma fget_Some_unless_loop:
  assumes wf: "wf_schema S"
    and nl: "\<not> (\<exists>r. PhysicalProperty_reciprocal S p = Some r \<and> PhysicalProperty_mapping S p = None \<and>
                 PhysicalProperty_mapping S r = None \<and> raw_get i p = None \<and> raw_get i r = None)"
  shows "\<exists>y. PhysicalProperty_fget S i p = Some y"
proof (cases "raw_get i p")
  case (Some v)
  then show ?thesis by (blast dest: fget_stored)
next
  case sp: None
  show ?thesis
  proof (cases "PhysicalProperty_reciprocal S p")
    case None
    then have "PhysicalProperty_reciprocal_slot S i p = None"
      by (simp add: PhysicalProperty_reciprocal_slot_def)
    with sp None show ?thesis
      by (cases "PhysicalProperty_mapping S p") (auto dest: fget_unbound fget_mapped)
  next
    case (Some r)
    show ?thesis
    proof (cases "raw_get i r")
      case (Some v)
      with sp \<open>PhysicalProperty_reciprocal S p = Some r\<close> show ?thesis
        by (blast dest: fget_reciprocal_stored)
    next
      case sr: None
      with Some have slot: "PhysicalProperty_reciprocal_slot S i p = None"
        by (simp add: PhysicalProperty_reciprocal_slot_def)
      show ?thesis
      proof (cases "PhysicalProperty_mapping S p")
        case (Some m)
        with sp slot show ?thesis by (blast dest: fget_mapped)
      next
        case np: None
        with nl Some sp sr obtain m' where nr: "PhysicalProperty_mapping S r = Some m'" by auto
        have rr: "PhysicalProperty_reciprocal S r = Some p"
          using wf_reciprocal_sym [OF wf Some] by simp
        then have "PhysicalProperty_reciprocal_slot S i r = None"
          by (simp add: PhysicalProperty_reciprocal_slot_def sp)
        then obtain y where "PhysicalProperty_fget S i r = Some y"
          using fget_mapped [OF sr _ nr] by blast
        moreover have "is_physprop S r" using rr by (rule reciprocal_is_physprop)
        ultimately show ?thesis
          using fget_recurse [OF sp Some sr np] by simp
      qed
    qed
  qed
qed

text \<open>
  C8. The property getter returns exactly when it does not run into the endless
  mutual recursion: it calls itself without end (Python's \<open>RecursionError\<close>)
  if and only if the property and its reciprocal both have no mapping bound and
  neither slot holds a value.
\<close>

theorem PhysicalProperty_fget_returns_iff:
  assumes "wf_schema S"
  shows "(\<exists>y. PhysicalProperty_fget S i p = Some y) \<longleftrightarrow>
    \<not> (\<exists>r. PhysicalProperty_reciprocal S p = Some r \<and> PhysicalProperty_mapping S p = None \<and>
          PhysicalProperty_mapping S r = None \<and> raw_get i p = None \<and> raw_get i r = None)"
  using fget_Some_unless_loop [OF assms] fget_loop_None [OF assms] by fastforce

theorem PhysicalProperty_fget_returns_iff_witness:
  "\<not> (\<exists>y. PhysicalProperty_fget
          [(''sigma'', PhysicalProperty ''s'' None (Some ''rho'')),
           (''rho'', PhysicalProperty ''r'' None (Some ''sigma''))]
          (empty_instance None) ''sigma'' = Some y)"
proof -
  let ?S = "[(''sigma'', PhysicalProperty ''s'' None (Some ''rho'')),
             (''rho'', PhysicalProperty ''r'' None (Some ''sigma''))]"
  have wf: "wf_schema ?S" by code_simp
  have "PhysicalProperty_reciprocal ?S ''sigma'' = Some ''rho''"
    "PhysicalProperty_mapping ?S ''sigma'' = None" "PhysicalProperty_mapping ?S ''rho'' = None"
    by (simp_all add: PhysicalProperty_reciprocal_def PhysicalProperty_mapping_def)
  then show ?thesis
    using PhysicalProperty_fget_returns_iff [OF wf, of "empty_instance None" "''sigma''"] by auto
qed

subsection \<open>What the getter reads after each write\<close>

lemma PhysicalProperty_fset_get_wf:
  assumes wf: "wf_schema S" and pp: "is_physprop S p"
    and set: "PhysicalProperty_fset S i p v = Inr i'"
  shows "raw_get i' k =
       (if PhysicalProperty_mapping S p = Some k \<or> PhysicalProperty_reciprocal S p = Some k \<or>
           (\<exists>r. PhysicalProperty_reciprocal S p = Some r \<and> PhysicalProperty_mapping S r = Some k) then None
        else if k = p then v else raw_get i k)"
    and "raw_get i' p = v"
proof -
  show get: "raw_get i' k =
       (if PhysicalProperty_mapping S p = Some k \<or> PhysicalProperty_reciprocal S p = Some k \<or>
           (\<exists>r. PhysicalProperty_reciprocal S p = Some r \<and> PhysicalProperty_mapping S r = Some k) then None
        else if k = p then v else raw_get i k)" for k
    using PhysicalProperty_fset_get [OF set, of k] PhysicalProperty_cleared_wf(1) [OF wf pp, of k]
    by simp
  show "raw_get i' p = v"
    using get [of p] PhysicalProperty_cleared_wf(2) [OF wf pp] by simp
qed

lemma fget_after_Mapping_fset:
  assumes wf: "wf_schema S" and mp: "Mapping_prop S m = Some p"
    and set: "Mapping_fset S i m (Some (MapObj f)) = Inr i'" and mdl: "model i = Some xs"
  shows "PhysicalProperty_fget S i' p = Some (Inr (Some (Arr (map_transform f xs))))"
proof -
  note get = Mapping_fset_get_wf [OF wf mp set]
  have pm: "PhysicalProperty_mapping S p = Some m" using wf mp by (rule wf_prop_mapping)
  have slot: "PhysicalProperty_reciprocal_slot S i' p = None"
    by (auto simp: PhysicalProperty_reciprocal_slot_def get(1) split: option.splits)
  have "Mapping_fget S i' m = Inr (Some (MapObj f))"
    using get(2) by (rule Mapping_fget_stored)
  moreover have "model i' = Some xs" using Mapping_fset_model [OF set] mdl by simp
  ultimately show ?thesis
    using fget_mapped [OF _ slot pm] get(1) [of p] by simp
qed

text \<open>
  C3. Mutual exclusivity: after a physical property is set to an array, its mapping
  slot, its reciprocal's slot and the reciprocal's mapping slot are empty, and the
  property reads back the array.
\<close>

theorem PhysicalProperty_fset_exclusive:
  assumes wf: "wf_schema S" and pp: "is_physprop S p"
    and set: "PhysicalProperty_fset S i p (Some (Arr v)) = Inr i'"
  shows "(case PhysicalProperty_mapping S p of None \<Rightarrow> True | Some m \<Rightarrow> raw_get i' m = None) \<and>
    (case PhysicalProperty_reciprocal S p of None \<Rightarrow> True
     | Some r \<Rightarrow> raw_get i' r = None \<and>
         (case PhysicalProperty_mapping S r of None \<Rightarrow> True | Some rm \<Rightarrow> raw_get i' rm = None)) \<and>
    PhysicalProperty_fget S i' p = Some (Inr (Some (Arr v)))"
  using PhysicalProperty_fset_get_wf [OF wf pp set]
  by (auto simp: fget_stored split: option.splits)

theorem PhysicalProperty_fset_exclusive_witness:
  "\<exists>i'. PhysicalProperty_fset scenario_class (empty_instance None) ''sigma'' (Some (Arr [1, 2, 4])) = Inr i' \<and>
    raw_get i' ''sigmaMap'' = None \<and> raw_get i' ''rho'' = None \<and> raw_get i' ''rhoMap'' = None \<and>
    PhysicalProperty_fget scenario_class i' ''sigma'' = Some (Inr (Some (Arr [1, 2, 4])))"
proof -
  obtain i' where set: "PhysicalProperty_fset scenario_class (empty_instance None) ''sigma'' (Some (Arr [1, 2, 4])) = Inr i'"
    by (simp add: PhysicalProperty_fset_def)
  show ?thesis
    using set PhysicalProperty_fset_exclusive [OF scenario_class_wf _ set] by (simp add: descr_simps)
qed

text \<open>
  C4. Reciprocal derivation: after a physical property is set to an array, its
  reciprocal reads the elementwise reciprocal of that array.
\<close>

theorem PhysicalProperty_reciprocal_derivation:
  assumes wf: "wf_schema S" and rp: "PhysicalProperty_reciprocal S p = Some r"
    and set: "PhysicalProperty_fset S i p (Some (Arr v)) = Inr i'"
  shows "PhysicalProperty_fget S i' r = Some (Inr (Some (Arr (map (\<lambda>x. 1 / x) v))))"
proof -
  have pp: "is_physprop S p" using rp by (rule reciprocal_is_physprop)
  note get = PhysicalProperty_fset_get_wf [OF wf pp set]
  have rr: "PhysicalProperty_reciprocal S r = Some p"
    using wf_reciprocal_sym [OF wf rp] by simp
  have "raw_get i' r = None" using get(1) [of r] rp by simp
  with get(2) show ?thesis
    using fget_reciprocal_stored [OF _ rr] by simp
qed

theorem PhysicalProperty_reciprocal_derivation_witness:
  "\<exists>i'. PhysicalProperty_fset scenario_class (empty_instance None) ''sigma'' (Some (Arr [1, 2, 4])) = Inr i' \<and>
    PhysicalProperty_fget scenario_class i' ''rho'' = Some (Inr (Some (Arr [1, 1 / 2, 1 / 4])))"
proof -
  obtain i' where set: "PhysicalProperty_fset scenario_class (empty_instance None) ''sigma'' (Some (Arr [1, 2, 4])) = Inr i'"
    by (simp add: PhysicalProperty_fset_def)
  show ?thesis
    using set PhysicalProperty_reciprocal_derivation [OF scenario_class_wf _ set] by (simp add: descr_simps)
qed

text \<open>
  C5. Mapping derivation: after a mapping attribute is set to a map, its bound
  physical property reads the map applied to the instance's model.
\<close>

theorem PhysicalProperty_mapping_derivation:
  assumes "wf_schema S" and "Mapping_prop S m = Some p"
    and "Mapping_fset S i m (Some (MapObj f)) = Inr i'" and "model i = Some xs"
  shows "PhysicalProperty_fget S i' p = Some (Inr (Some (Arr (map_transform f xs))))"
  using assms by (rule fget_after_Mapping_fset)

theorem PhysicalProperty_mapping_derivation_witness:
  "\<exists>i'. Mapping_fset scenario_class (empty_instance (Some [1, 2, 4])) ''sigmaMap'' (Some (MapObj IdentityMap)) = Inr i' \<and>
    PhysicalProperty_fget scenario_class i' ''sigma'' = Some (Inr (Some (Arr [1, 2, 4])))"
proof -
  obtain i' where set: "Mapping_fset scenario_class (empty_instance (Some [1, 2, 4])) ''sigmaMap'' (Some (MapObj IdentityMap)) = Inr i'"
    by (simp add: Mapping_fset_def)
  show ?thesis
    using set PhysicalProperty_mapping_derivation [OF scenario_class_wf _ set] by (simp add: descr_simps)
qed

text \<open>
  C6. Setting a mapping makes the reciprocal side consistent: the reciprocal of the
  mapped property reads the elementwise reciprocal of the mapped values, whether the
  reciprocal has a mapping of its own (read through a \<open>ReciprocalMap\<close> composed
  with the set map) or not (read through the recursive getter).
\<close>

theorem PhysicalProperty_mapping_reciprocal:
  assumes wf: "wf_schema S" and mp: "Mapping_prop S m = Some p"
    and rp: "PhysicalProperty_reciprocal S p = Some r"
    and set: "Mapping_fset S i m (Some (MapObj f)) = Inr i'" and mdl: "model i = Some xs"
  shows "PhysicalProperty_fget S i' r = Some (Inr (Some (Arr (map (\<lambda>x. 1 / x) (map_transform f xs)))))"
proof -
  note get = Mapping_fset_get_wf [OF wf mp set]
  have rr: "PhysicalProperty_reciprocal S r = Some p" and ne: "r \<noteq> p"
    using wf_reciprocal_sym [OF wf rp] by simp_all
  have pm: "PhysicalProperty_mapping S p = Some m" using wf mp by (rule wf_prop_mapping)
  have sr: "raw_get i' r = None" using get(1) [of r] rp by simp
  have sp: "raw_get i' p = None" using get(1) [of p] by simp
  have slot: "PhysicalProperty_reciprocal_slot S i' r = None"
    by (simp add: PhysicalProperty_reciprocal_slot_def rr sp)
  have mdl': "model i' = Some xs" using Mapping_fset_model [OF set] mdl by simp
  show ?thesis
  proof (cases "PhysicalProperty_mapping S r")
    case None
    have "is_physprop S p" using rp by (rule reciprocal_is_physprop)
    with fget_recurse [OF sr rr sp None] fget_after_Mapping_fset [OF wf mp set mdl]
    show ?thesis by simp
  next
    case (Some rm)
    have rmp: "Mapping_prop S rm = Some r" using wf Some by (rule wf_mapping_prop)
    have "raw_get i' rm = None" using get(1) [of rm] rp Some by auto
    moreover have "Mapping_reciprocal S rm = Some m"
      using Mapping_targets_wf(2) [OF wf rmp] rr pm by simp
    moreover have "raw_get i' m = Some (MapObj f)" using get(2) .
    ultimately have "Mapping_fget S i' rm = Inr (Some (MapObj (ComboMap ReciprocalMap f)))"
      by (rule Mapping_fget_reciprocal_map)
    with fget_mapped [OF sr slot Some] mdl' show ?thesis by simp
  qed
qed

theorem PhysicalProperty_mapping_reciprocal_witness:
  "\<exists>i'. Mapping_fset scenario_class (empty_instance (Some [1, 2, 4])) ''sigmaMap'' (Some (MapObj IdentityMap)) = Inr i' \<and>
    PhysicalProperty_fget scenario_class i' ''rho'' = Some (Inr (Some (Arr [1, 1 / 2, 1 / 4])))"
proof -
  obtain i' where set: "Mapping_fset scenario_class (empty_instance (Some [1, 2, 4])) ''sigmaMap'' (Some (MapObj IdentityMap)) = Inr i'"
    by (simp add: Mapping_fset_def)
  show ?thesis
    using set PhysicalProperty_mapping_reciprocal [OF scenario_class_wf _ _ set] by (simp add: descr_simps)
qed

text \<open>
  C21. A fresh instance, with no slot set, does not read \<open>None\<close> from a physical
  property that has a mapping: the mapping attribute resolves to \<open>None\<close> and
  \<open>None * self.model\<close> raises \<open>TypeError\<close>.
\<close>

theorem PhysicalProperty_fget_fresh_TypeError:
  assumes "PhysicalProperty_mapping S p = Some m"
  shows "PhysicalProperty_fget S (empty_instance mo) p =
    Some (Inl (TypeError ''unsupported operand type(s) for *: NoneType''))"
proof -
  have "PhysicalProperty_reciprocal_slot S (empty_instance mo) p = None"
    by (simp add: PhysicalProperty_reciprocal_slot_def split: option.splits)
  moreover have "Mapping_fget S (empty_instance mo) m = Inr None"
    by (rule Mapping_fget_None) (simp_all split: option.splits)
  ultimately show ?thesis using fget_mapped [OF _ _ assms] by simp
qed

theorem PhysicalProperty_fget_fresh_TypeError_witness:
  "PhysicalProperty_fget scenario_class (empty_instance (Some [1, 2, 4])) ''sigma'' =
    Some (Inl (TypeError ''unsupported operand type(s) for *: NoneType''))"
  using PhysicalProperty_fget_fresh_TypeError [of scenario_class "''sigma''"] by (simp add: descr_simps)

text \<open>C27. The setter of a physical property accepts exactly \<open>None\<close> and arrays; anything
  else fails the assertion and no state is produced.\<close>

theorem PhysicalProperty_fset_rejects:
  "PhysicalProperty_fset S i p v = Inl e \<longleftrightarrow>
     (\<exists>x. v = Some x \<and> \<not> is_array_value x) \<and>
     e = AssertionError ''Physical properties must be numpy arrays.''"
  by (cases v rule: PhysicalProperty_validate.cases) (auto simp: PhysicalProperty_fset_def)

end
