(* ===== verification/Props_Ops.thy ===== *)
theory Props_Ops
  imports Props_Physical
begin

text \<open>
  Sequences of attribute writes on one host instance, as a client of \<open>Props.py\<close>
  performs them (\<open>obj.sigmaMap = ...\<close>, \<open>obj.rho = ...\<close>, \<open>obj.model = ...\<close>):
  Python's attribute assignment dispatches on the class attribute to the descriptor's
  setter, and a script of assignments stops at the first exception. Two invariants
  hold along every run: every slot holds a value of its descriptor's kind, and, in a
  well-formed class, at most one slot of each reciprocal group (a property, its
  mapping, its reciprocal and the reciprocal's mapping) holds a value.
\<close>

datatype op = SetAttr name "pvalue option" | SetModel "array option"

text \<open>
  \<open>setattr(obj, n, v)\<close>: a \<open>Mapping\<close> or \<open>PhysicalProperty\<close> attribute runs
  its \<open>fset\<close>; a \<open>Derivative\<close> is a property without setter; a name that is not a
  descriptor of the class becomes a plain instance attribute, which no descriptor
  reads.
\<close>

definition setattr :: "schema \<Rightarrow> host \<Rightarrow> name \<Rightarrow> pvalue option \<Rightarrow> error + host" where
  "setattr S i n v =
     (case map_of S n of
        Some (Mapping _ _) \<Rightarrow> Mapping_fset S i n v
      | Some (PhysicalProperty _ _ _) \<Rightarrow> PhysicalProperty_fset S i n v
      | Some (Derivative _ _) \<Rightarrow> Inl (AttributeError ''cannot set attribute'')
      | None \<Rightarrow> Inr i)"

fun step :: "schema \<Rightarrow> host \<Rightarrow> op \<Rightarrow> error + host" where
  "step S i (SetAttr n v) = setattr S i n v"
| "step S i (SetModel mo) = Inr (i\<lparr>model := mo\<rparr>)"

fun run :: "schema \<Rightarrow> host \<Rightarrow> op list \<Rightarrow> error + host" where
  "run S i [] = Inr i"
| "run S i (x # xs) = (case step S i x of Inl e \<Rightarrow> Inl e | Inr i' \<Rightarrow> run S i' xs)"

text \<open>
  The instance states a client can reach: a fresh instance with some model, and
  whatever a successful write makes of a reachable state.
\<close>

inductive reachable :: "schema \<Rightarrow> host \<Rightarrow> bool" for S :: schema where
  fresh: "reachable S (empty_instance mo)"
| after_step: "reachable S i \<Longrightarrow> step S i x = Inr i' \<Longrightarrow> reachable S i'"

subsection \<open>The invariants\<close>

text \<open>The kind of value a descriptor's slot may hold.\<close>

definition slot_ok :: "schema \<Rightarrow> name \<Rightarrow> pvalue \<Rightarrow> bool" where
  "slot_ok S n v =
     (case map_of S n of
        Some (Mapping _ _) \<Rightarrow> is_map_value v
      | Some (PhysicalProperty _ _ _) \<Rightarrow> is_array_value v
      | Some (Derivative _ _) \<Rightarrow> False
      | None \<Rightarrow> True)"

definition kinds_ok :: "schema \<Rightarrow> host \<Rightarrow> bool" where
  "kinds_ok S i =
     list_all (\<lambda>n. case raw_get i n of None \<Rightarrow> True | Some v \<Rightarrow> slot_ok S n v) (map fst S)"

text \<open>The reciprocal group of a physical property: the slots its getter may read.\<close>

definition prop_group :: "schema \<Rightarrow> name \<Rightarrow> name list" where
  "prop_group S p =
     p # (case PhysicalProperty_mapping S p of None \<Rightarrow> [] | Some m \<Rightarrow> [m]) @
     (case PhysicalProperty_reciprocal S p of
        None \<Rightarrow> []
      | Some r \<Rightarrow> r # (case PhysicalProperty_mapping S r of None \<Rightarrow> [] | Some rm \<Rightarrow> [rm]))"

definition at_most_one_live :: "host \<Rightarrow> name list \<Rightarrow> bool" where
  "at_most_one_live i ns =
     (\<forall>a \<in> set ns. \<forall>b \<in> set ns. raw_get i a \<noteq> None \<longrightarrow> raw_get i b \<noteq> None \<longrightarrow> a = b)"

definition exclusive :: "schema \<Rightarrow> host \<Rightarrow> bool" where
  "exclusive S i =
     list_all (\<lambda>p. is_physprop S p \<longrightarrow> at_most_one_live i (prop_group S p)) (map fst S)"

subsection \<open>Slot kinds along runs\<close>

lemma kinds_ok_iff:
  "kinds_ok S i \<longleftrightarrow> (\<forall>n v. raw_get i n = Some v \<longrightarrow> slot_ok S n v)"
proof
  assume k: "kinds_ok S i"
  show "\<forall>n v. raw_get i n = Some v \<longrightarrow> slot_ok S n v"
  proof (intro allI impI)
    fix n v assume get: "raw_get i n = Some v"
    show "slot_ok S n v"
    proof (cases "n \<in> fst ` set S")
      case True
      with k get show ?thesis by (force simp: kinds_ok_def list_all_iff)
    next
      case False
      then show ?thesis by (simp add: slot_ok_def map_of_None_keys)
    qed
  qed
next
  assume "\<forall>n v. raw_get i n = Some v \<longrightarrow> slot_ok S n v"
  then show "kinds_ok S i" by (auto simp: kinds_ok_def list_all_iff split: option.splits)
qed

lemma setattr_kinds_ok:
  assumes ok: "kinds_ok S i" and set: "setattr S i n v = Inr i'"
  shows "kinds_ok S i'"
proof (cases "map_of S n")
  case None
  with set show ?thesis using ok by (simp add: setattr_def)
next
  case (Some D)
  show ?thesis
  proof (cases D)
    case (Mapping h po)
    with Some set have ms: "Mapping_fset S i n v = Inr i'" by (simp add: setattr_def)
    then have "case v of None \<Rightarrow> True | Some x \<Rightarrow> is_map_value x" by (simp add: Mapping_fset_ok)
    with ok Some Mapping show ?thesis
      by (auto simp: kinds_ok_iff Mapping_fset_get [OF ms] slot_ok_def split: option.splits if_splits)
  next
    case (PhysicalProperty h mo ro)
    with Some set have ps: "PhysicalProperty_fset S i n v = Inr i'" by (simp add: setattr_def)
    then have "case v of None \<Rightarrow> True | Some x \<Rightarrow> is_array_value x" by (simp add: PhysicalProperty_fset_ok)
    with ok Some PhysicalProperty show ?thesis
      by (auto simp: kinds_ok_iff PhysicalProperty_fset_get [OF ps] slot_ok_def split: option.splits if_splits)
  next
    case (Derivative h po)
    with Some set show ?thesis by (simp add: setattr_def)
  qed
qed

lemma step_kinds_ok:
  assumes "kinds_ok S i" and "step S i x = Inr i'"
  shows "kinds_ok S i'"
proof (cases x)
  case (SetAttr n v)
  with assms show ?thesis by (auto intro: setattr_kinds_ok)
next
  case (SetModel mo)
  with assms show ?thesis by (auto simp: kinds_ok_def raw_get_def)
qed

lemma run_kinds_ok:
  "kinds_ok S i \<Longrightarrow> run S i xs = Inr i' \<Longrightarrow> kinds_ok S i'"
proof (induction xs arbitrary: i)
  case Nil
  then show ?case by simp
next
  case (Cons x xs)
  then show ?case by (auto split: sum.splits dest: step_kinds_ok)
qed

subsection \<open>Reciprocal groups\<close>

lemma prop_group_mem:
  "k \<in> set (prop_group S p) \<longleftrightarrow>
     k = p \<or> PhysicalProperty_mapping S p = Some k \<or> PhysicalProperty_reciprocal S p = Some k \<or>
     (\<exists>r. PhysicalProperty_reciprocal S p = Some r \<and> PhysicalProperty_mapping S r = Some k)"
  by (cases "PhysicalProperty_reciprocal S p") (auto simp: prop_group_def split: option.splits)

lemma prop_group_reciprocal:
  assumes wf: "wf_schema S" and rp: "PhysicalProperty_reciprocal S p = Some r"
  shows "set (prop_group S r) = set (prop_group S p)"
proof -
  have "PhysicalProperty_reciprocal S r = Some p" using wf_reciprocal_sym [OF wf rp] by simp
  with rp show ?thesis by (auto simp: prop_group_def split: option.splits)
qed

lemma prop_group_owner:
  "k \<in> set (prop_group S p) \<longleftrightarrow>
     (\<exists>a. (a = p \<or> PhysicalProperty_reciprocal S p = Some a) \<and>
          (k = a \<or> PhysicalProperty_mapping S a = Some k))"
  by (auto simp: prop_group_mem)

lemma prop_group_eq:
  assumes wf: "wf_schema S" and q: "is_physprop S q" and mem: "q \<in> set (prop_group S p)"
  shows "set (prop_group S p) = set (prop_group S q)"
proof -
  consider "q = p" | "PhysicalProperty_reciprocal S p = Some q"
    | a where "PhysicalProperty_mapping S a = Some q"
    using mem by (auto simp: prop_group_owner)
  then show ?thesis
  proof cases
    case 1
    then show ?thesis by simp
  next
    case 2
    then show ?thesis using prop_group_reciprocal [OF wf] by simp
  next
    case 3
    with wf_mapping_not_physprop [OF wf] q show ?thesis by blast
  qed
qed

lemma prop_group_disjoint:
  assumes wf: "wf_schema S" and p: "is_physprop S p" and q: "is_physprop S q"
    and nmem: "q \<notin> set (prop_group S p)"
  shows "set (prop_group S p) \<inter> set (prop_group S q) = {}"
proof (rule ccontr)
  assume "set (prop_group S p) \<inter> set (prop_group S q) \<noteq> {}"
  then obtain k where kp: "k \<in> set (prop_group S p)" and kq: "k \<in> set (prop_group S q)" by blast
  from kp obtain a where a: "a = p \<or> PhysicalProperty_reciprocal S p = Some a"
    and ka: "k = a \<or> PhysicalProperty_mapping S a = Some k"
    by (auto simp: prop_group_owner)
  from kq obtain b where b: "b = q \<or> PhysicalProperty_reciprocal S q = Some b"
    and kb: "k = b \<or> PhysicalProperty_mapping S b = Some k"
    by (auto simp: prop_group_owner)
  have pa': "is_physprop S a" "is_physprop S b"
    using a b p q wf_reciprocal_physprop [OF wf] by auto
  have "a = b"
    using ka kb pa' wf_mapping_not_physprop [OF wf] wf_mapping_inj [OF wf] by metis
  moreover have "q \<noteq> p" "PhysicalProperty_reciprocal S p \<noteq> Some q"
    using nmem by (auto simp: prop_group_mem)
  ultimately show False
    using a b wf_reciprocal_inj [OF wf] wf_reciprocal_sym [OF wf, of q p] by metis
qed

subsection \<open>Mutual exclusion along runs\<close>

lemma at_most_one_live_cong:
  "(\<And>k. k \<in> set ns \<Longrightarrow> raw_get i' k = raw_get i k) \<Longrightarrow> at_most_one_live i ns \<Longrightarrow>
     at_most_one_live i' ns"
  by (simp add: at_most_one_live_def)

lemma at_most_one_live_single:
  "(\<And>k. k \<in> set ns \<Longrightarrow> k \<noteq> w \<Longrightarrow> raw_get i' k = None) \<Longrightarrow> at_most_one_live i' ns"
  unfolding at_most_one_live_def by metis

lemma at_most_one_live_set:
  "set ns = set ns' \<Longrightarrow> at_most_one_live i ns = at_most_one_live i ns'"
  by (simp add: at_most_one_live_def)

lemma exclusive_iff:
  "exclusive S i \<longleftrightarrow> (\<forall>p. is_physprop S p \<longrightarrow> at_most_one_live i (prop_group S p))"
  using getter_Some_declared(5) by (auto simp: exclusive_def list_all_iff)

text \<open>
  A write to the slot \<open>w\<close> that empties the rest of one reciprocal group \<open>G\<close>
  and touches nothing outside \<open>G\<close> keeps every group's slots exclusive.
\<close>

lemma exclusive_group_write:
  assumes wf: "wf_schema S" and ex: "exclusive S i" and q: "is_physprop S q"
    and w: "w \<in> set (prop_group S q)"
    and get: "\<And>k. raw_get i' k =
       (if k = w then raw_get i' w else if k \<in> set (prop_group S q) then None else raw_get i k)"
  shows "exclusive S i'"
proof -
  have "at_most_one_live i' (prop_group S p)" if p: "is_physprop S p" for p
  proof (cases "q \<in> set (prop_group S p)")
    case True
    then have eq: "set (prop_group S p) = set (prop_group S q)" by (rule prop_group_eq [OF wf q])
    show ?thesis
      by (rule at_most_one_live_single [where w = w]) (subst get, simp add: eq)
  next
    case False
    then have dis: "set (prop_group S p) \<inter> set (prop_group S q) = {}"
      by (rule prop_group_disjoint [OF wf p q])
    from ex p have "at_most_one_live i (prop_group S p)" by (simp add: exclusive_iff)
    then show ?thesis
      by (rule at_most_one_live_cong [rotated]) (subst get, use dis w in auto)
  qed
  then show ?thesis by (simp add: exclusive_iff)
qed

lemma prop_group_self: "p \<in> set (prop_group S p)"
  by (simp add: prop_group_def)

lemma PhysicalProperty_fset_group:
  assumes wf: "wf_schema S" and pp: "is_physprop S p"
    and set: "PhysicalProperty_fset S i p v = Inr i'"
  shows "raw_get i' k =
    (if k = p then raw_get i' p else if k \<in> set (prop_group S p) then None else raw_get i k)"
  using PhysicalProperty_fset_get_wf [OF wf pp set] by (auto simp: prop_group_mem)

lemma Mapping_fset_group:
  assumes wf: "wf_schema S" and mp: "Mapping_prop S m = Some q"
    and set: "Mapping_fset S i m v = Inr i'"
  shows "raw_get i' k =
    (if k = m then raw_get i' m else if k \<in> set (prop_group S q) then None else raw_get i k)"
proof -
  have pm: "PhysicalProperty_mapping S q = Some m" using wf mp by (rule wf_prop_mapping)
  show ?thesis
    using Mapping_fset_get_wf [OF wf mp set] pm by (auto simp: prop_group_mem)
qed

lemma Mapping_fset_unbound:
  assumes "Mapping_prop S m = None" and "Mapping_fset S i m v = Inr i'"
  shows "raw_get i' k = (if k = m then v else raw_get i k)"
  using Mapping_fset_get [OF assms(2), of k] assms(1)
  by (simp add: Mapping_reciprocal_prop_def Mapping_reciprocal_def)

lemma setattr_exclusive:
  assumes wf: "wf_schema S" and ex: "exclusive S i" and set: "setattr S i n v = Inr i'"
  shows "exclusive S i'"
proof (cases "map_of S n")
  case None
  with set ex show ?thesis by (simp add: setattr_def)
next
  case (Some D)
  show ?thesis
  proof (cases D)
    case (PhysicalProperty h mo ro)
    with Some set have ps: "PhysicalProperty_fset S i n v = Inr i'" by (simp add: setattr_def)
    have pp: "is_physprop S n" using Some PhysicalProperty by (simp add: is_physprop_def)
    show ?thesis
      using exclusive_group_write [OF wf ex pp prop_group_self PhysicalProperty_fset_group [OF wf pp ps]] .
  next
    case (Mapping h po)
    with Some set have ms: "Mapping_fset S i n v = Inr i'" by (simp add: setattr_def)
    show ?thesis
    proof (cases "Mapping_prop S n")
      case (Some q)
      have pm: "PhysicalProperty_mapping S q = Some n" using wf Some by (rule wf_prop_mapping)
      have q: "is_physprop S q"
        using pm by (auto simp: is_physprop_def PhysicalProperty_mapping_def split: option.splits descriptor.splits)
      have w: "n \<in> set (prop_group S q)" using pm by (simp add: prop_group_mem)
      show ?thesis
        using exclusive_group_write [OF wf ex q w Mapping_fset_group [OF wf Some ms]] .
    next
      case None
      note get = Mapping_fset_unbound [OF None ms]
      have nPP: "\<not> is_physprop S n" using Some Mapping by (simp add: is_physprop_def)
      have out: "n \<notin> set (prop_group S p)" if pp: "is_physprop S p" for p
      proof
        assume "n \<in> set (prop_group S p)"
        then obtain a where "PhysicalProperty_mapping S a = Some n"
          using nPP pp wf_reciprocal_physprop [OF wf] by (auto simp: prop_group_owner)
        with wf have "Mapping_prop S n = Some a" by (rule wf_mapping_prop)
        with None show False by simp
      qed
      have "at_most_one_live i' (prop_group S p)" if "is_physprop S p" for p
        using ex that by (intro at_most_one_live_cong [of _ i' i]) (auto simp: get out exclusive_iff)
      then show ?thesis by (simp add: exclusive_iff)
    qed
  next
    case (Derivative h po)
    with Some set show ?thesis by (simp add: setattr_def)
  qed
qed

subsection \<open>Reachable states\<close>

lemma step_exclusive:
  assumes "wf_schema S" and "exclusive S i" and "step S i x = Inr i'"
  shows "exclusive S i'"
proof (cases x)
  case (SetAttr n v)
  with assms show ?thesis by (auto intro: setattr_exclusive)
next
  case (SetModel mo)
  with assms show ?thesis by (auto simp: exclusive_iff at_most_one_live_def raw_get_def)
qed

lemma run_reachable:
  "reachable S i \<Longrightarrow> run S i xs = Inr i' \<Longrightarrow> reachable S i'"
proof (induction xs arbitrary: i)
  case Nil
  then show ?case by simp
next
  case (Cons x xs)
  then show ?case by (auto split: sum.splits intro: reachable.after_step)
qed

lemma run_exclusive:
  "wf_schema S \<Longrightarrow> exclusive S i \<Longrightarrow> run S i xs = Inr i' \<Longrightarrow> exclusive S i'"
proof (induction xs arbitrary: i)
  case Nil
  then show ?case by simp
next
  case (Cons x xs)
  then show ?case by (auto split: sum.splits dest: step_exclusive)
qed

lemma fresh_invariants: "kinds_ok S (empty_instance mo) \<and> exclusive S (empty_instance mo)"
  by (simp add: kinds_ok_iff exclusive_iff at_most_one_live_def)

text \<open>
  C1. Every reachable instance of a well-formed class satisfies both invariants:
  each slot holds a value of its descriptor's kind (arrays for physical properties,
  maps for mappings, nothing for derivatives), and each reciprocal group has at most
  one slot set, so at most one of the stored value, the mapping-derived value and
  the reciprocal-derived value is live.
\<close>

theorem reachable_invariants:
  assumes wf: "wf_schema S" and r: "reachable S i"
  shows "kinds_ok S i \<and> exclusive S i"
  using r
proof (induction rule: reachable.induct)
  case (fresh mo)
  show ?case by (rule fresh_invariants)
next
  case (after_step i x i')
  then show ?case using step_kinds_ok step_exclusive [OF wf] by blast
qed

theorem reachable_invariants_witness:
  "\<exists>i'. run scenario_class (empty_instance None)
       [SetModel (Some [1, 2, 4]), SetAttr ''sigmaMap'' (Some (MapObj IdentityMap)), SetAttr ''rho'' (Some (Arr [3]))] = Inr i' \<and>
     kinds_ok scenario_class i' \<and> exclusive scenario_class i'"
proof -
  obtain i' where r: "run scenario_class (empty_instance None)
       [SetModel (Some [1, 2, 4]), SetAttr ''sigmaMap'' (Some (MapObj IdentityMap)), SetAttr ''rho'' (Some (Arr [3]))] = Inr i'"
    by (simp add: setattr_def scenario_class_def Mapping_fset_def PhysicalProperty_fset_def)
  have "reachable scenario_class i'"
    using run_reachable [OF reachable.fresh r] .
  with r show ?thesis using reachable_invariants [OF scenario_class_wf] by blast
qed

end
