(* ===== verification/Props_Contract.thy ===== *)
theory Props_Contract
  imports Props_Ops
begin

text \<open>
  The contract of spec section 4.2 as an abstract specification of the physical
  property getter: in a state where each reciprocal group has at most one slot set,
  the value of a property is determined by that one live slot and its role in the
  group: the property's own array, the reciprocal's array inverted, the property's
  map applied to the model, or the reciprocal's map applied to the model and
  inverted. The refinement theorems show that \<open>PhysicalProperty_fget\<close> computes
  exactly this value, and what it does when no slot of the group is live.
\<close>

text \<open>The first slot of a list of names that holds a value.\<close>

primrec first_live :: "host \<Rightarrow> name list \<Rightarrow> (name \<times> pvalue) option" where
  "first_live i [] = None"
| "first_live i (k # ks) = (case raw_get i k of Some v \<Rightarrow> Some (k, v) | None \<Rightarrow> first_live i ks)"

text \<open>The value the spec derives for property \<open>p\<close> from a live slot \<open>k\<close> holding \<open>v\<close>.\<close>

definition source_value :: "schema \<Rightarrow> name \<Rightarrow> array \<Rightarrow> name \<Rightarrow> pvalue \<Rightarrow> array option" where
  "source_value S p xs k v =
     (if k = p \<or> PhysicalProperty_reciprocal S p = Some k then
        (case v of Arr a \<Rightarrow> Some (if k = p then a else map (\<lambda>x. 1 / x) a) | _ \<Rightarrow> None)
      else
        (case v of
           MapObj f \<Rightarrow>
             Some (if PhysicalProperty_mapping S p = Some k then map_transform f xs
                   else map (\<lambda>x. 1 / x) (map_transform f xs))
         | _ \<Rightarrow> None))"

definition spec_value :: "schema \<Rightarrow> host \<Rightarrow> name \<Rightarrow> array \<Rightarrow> array option" where
  "spec_value S i p xs =
     (case first_live i (prop_group S p) of None \<Rightarrow> None | Some (k, v) \<Rightarrow> source_value S p xs k v)"

subsection \<open>Live slots\<close>

lemma first_live_Some:
  "first_live i ns = Some (k, v) \<Longrightarrow> k \<in> set ns \<and> raw_get i k = Some v"
  by (induction ns) (auto split: option.splits if_splits)

lemma first_live_None_iff:
  "first_live i ns = None \<longleftrightarrow> (\<forall>k \<in> set ns. raw_get i k = None)"
  by (induction ns) (auto split: option.splits)

lemma live_slot_unique:
  assumes ex: "exclusive S i" and pp: "is_physprop S p"
    and fl: "first_live i (prop_group S p) = Some (k, v)"
  shows "k \<in> set (prop_group S p)" "raw_get i k = Some v"
    and "\<And>k'. k' \<in> set (prop_group S p) \<Longrightarrow> k' \<noteq> k \<Longrightarrow> raw_get i k' = None"
proof -
  note kv = first_live_Some [OF fl]
  show "k \<in> set (prop_group S p)" "raw_get i k = Some v" using kv by simp_all
  have "at_most_one_live i (prop_group S p)" using ex pp by (simp add: exclusive_iff)
  then show "\<And>k'. k' \<in> set (prop_group S p) \<Longrightarrow> k' \<noteq> k \<Longrightarrow> raw_get i k' = None"
    using kv unfolding at_most_one_live_def by blast
qed

lemma kinds_ok_slot:
  "kinds_ok S i \<Longrightarrow> raw_get i k = Some v \<Longrightarrow> slot_ok S k v"
  by (simp add: kinds_ok_iff)

lemma slot_ok_physprop:
  "is_physprop S k \<Longrightarrow> slot_ok S k v \<Longrightarrow> \<exists>a. v = Arr a"
  by (cases v) (auto simp: slot_ok_def is_physprop_def split: option.splits descriptor.splits)

lemma slot_ok_mapping:
  "Mapping_prop S k = Some p \<Longrightarrow> slot_ok S k v \<Longrightarrow> \<exists>f. v = MapObj f"
  by (cases v) (auto simp: slot_ok_def Mapping_prop_def split: option.splits descriptor.splits)

subsection \<open>The getter from each role of the live slot\<close>

lemma fget_source_own:
  assumes ki: "kinds_ok S i" and pp: "is_physprop S p" and sk: "raw_get i p = Some v"
  shows "\<exists>a. source_value S p xs p v = Some a \<and> PhysicalProperty_fget S i p = Some (Inr (Some (Arr a)))"
proof -
  obtain a where "v = Arr a" using slot_ok_physprop [OF pp kinds_ok_slot [OF ki sk]] by blast
  with sk show ?thesis by (simp add: source_value_def fget_stored)
qed

lemma fget_source_reciprocal:
  assumes wf: "wf_schema S" and ki: "kinds_ok S i"
    and rp: "PhysicalProperty_reciprocal S p = Some r"
    and sp: "raw_get i p = None" and sk: "raw_get i r = Some v"
  shows "\<exists>a. source_value S p xs r v = Some a \<and> PhysicalProperty_fget S i p = Some (Inr (Some (Arr a)))"
proof -
  have "is_physprop S r" using wf rp by (rule wf_reciprocal_physprop)
  then obtain a where v: "v = Arr a" using slot_ok_physprop kinds_ok_slot [OF ki sk] by blast
  have "r \<noteq> p" using wf_reciprocal_sym [OF wf rp] by simp
  with v rp show ?thesis using fget_reciprocal_stored [OF sp rp sk] by (simp add: source_value_def)
qed

lemma fget_source_mapping:
  assumes wf: "wf_schema S" and ki: "kinds_ok S i"
    and pm: "PhysicalProperty_mapping S p = Some m" and mdl: "model i = Some xs"
    and sp: "raw_get i p = None" and slot: "PhysicalProperty_reciprocal_slot S i p = None"
    and sk: "raw_get i m = Some v"
  shows "\<exists>a. source_value S p xs m v = Some a \<and> PhysicalProperty_fget S i p = Some (Inr (Some (Arr a)))"
proof -
  have mp: "Mapping_prop S m = Some p" using wf pm by (rule wf_mapping_prop)
  then obtain f where v: "v = MapObj f" using slot_ok_mapping kinds_ok_slot [OF ki sk] by blast
  have "m \<noteq> p" "PhysicalProperty_reciprocal S p \<noteq> Some m"
    using wf_mapping_not_physprop [OF wf pm] reciprocal_is_physprop [of S p] sp sk
      wf_reciprocal_physprop [OF wf, of p m] by auto
  with v pm show ?thesis
    using fget_mapped [OF sp slot pm] Mapping_fget_stored [OF sk] mdl by (simp add: source_value_def)
qed

lemma fget_source_reciprocal_mapping:
  assumes wf: "wf_schema S" and ki: "kinds_ok S i"
    and rp: "PhysicalProperty_reciprocal S p = Some r" and rm: "PhysicalProperty_mapping S r = Some k"
    and mdl: "model i = Some xs"
    and sp: "raw_get i p = None" and sr: "raw_get i r = None"
    and sm: "\<And>m. PhysicalProperty_mapping S p = Some m \<Longrightarrow> raw_get i m = None"
    and sk: "raw_get i k = Some v"
  shows "\<exists>a. source_value S p xs k v = Some a \<and> PhysicalProperty_fget S i p = Some (Inr (Some (Arr a)))"
proof -
  have rr: "PhysicalProperty_reciprocal S r = Some p" and rne: "r \<noteq> p"
    using wf_reciprocal_sym [OF wf rp] by simp_all
  have kp: "Mapping_prop S k = Some r" using wf rm by (rule wf_mapping_prop)
  then obtain f where v: "v = MapObj f" using slot_ok_mapping kinds_ok_slot [OF ki sk] by blast
  have nphys: "\<not> is_physprop S k" using wf rm by (rule wf_mapping_not_physprop)
  have kne: "k \<noteq> p" "PhysicalProperty_reciprocal S p \<noteq> Some k" "PhysicalProperty_mapping S p \<noteq> Some k"
    using nphys reciprocal_is_physprop [of S p] wf_reciprocal_physprop [OF wf, of p k] rp rne
      wf_mapping_inj [OF wf _ rm, of p] by (auto simp: is_physprop_def)
  have val: "source_value S p xs k v = Some (map (\<lambda>x. 1 / x) (map_transform f xs))"
    using kne v by (simp add: source_value_def)
  have slot: "PhysicalProperty_reciprocal_slot S i p = None"
    by (simp add: PhysicalProperty_reciprocal_slot_def rp sr)
  show ?thesis
  proof (cases "PhysicalProperty_mapping S p")
    case None
    have slot_r: "PhysicalProperty_reciprocal_slot S i r = None"
      by (simp add: PhysicalProperty_reciprocal_slot_def rr sp)
    have "PhysicalProperty_fget S i r = Some (Inr (Some (Arr (map_transform f xs))))"
      using fget_mapped [OF sr slot_r rm] Mapping_fget_stored [OF sk] v mdl by simp
    moreover have "is_physprop S r" using wf rp by (rule wf_reciprocal_physprop)
    ultimately show ?thesis using val fget_recurse [OF sp rp sr None] by simp
  next
    case (Some m)
    have "Mapping_prop S m = Some p" using wf Some by (rule wf_mapping_prop)
    then have "Mapping_reciprocal S m = Some k" using Mapping_targets_wf(2) [OF wf] rp rm by simp
    then have "Mapping_fget S i m = Inr (Some (MapObj (ComboMap ReciprocalMap f)))"
      using Mapping_fget_reciprocal_map [OF sm [OF Some]] sk v by simp
    then show ?thesis using val fget_mapped [OF sp slot Some] mdl by (simp add: comp_def)
  qed
qed

subsection \<open>What the getter reads\<close>

lemma Mapping_fget_cong:
  assumes "raw_get i' m = raw_get i m"
    and "\<And>rm. Mapping_reciprocal S m = Some rm \<Longrightarrow> raw_get i' rm = raw_get i rm"
  shows "Mapping_fget S i' m = Mapping_fget S i m"
  using assms by (simp add: Mapping_fget_def split: option.splits)

text \<open>
  The getter of a property reads only the slots of its reciprocal group and the
  model: two states that agree there give the same result, divergence included.
\<close>

lemma fget_group_cong:
  assumes wf: "wf_schema S"
    and agree: "\<And>k. k \<in> set (prop_group S p) \<Longrightarrow> raw_get i' k = raw_get i k"
    and mdl: "model i' = model i"
  shows "PhysicalProperty_fget S i' p = PhysicalProperty_fget S i p"
proof -
  have mapped: "PhysicalProperty_fget S i' a = PhysicalProperty_fget S i a"
    if a: "a = p \<or> PhysicalProperty_reciprocal S p = Some a"
      and sa: "raw_get i a = None" and slot: "PhysicalProperty_reciprocal_slot S i a = None"
      and am: "PhysicalProperty_mapping S a = Some m" for a m
  proof -
    have ga: "set (prop_group S a) = set (prop_group S p)"
      using a prop_group_reciprocal [OF wf] by auto
    have ag: "raw_get i' k = raw_get i k" if "k \<in> set (prop_group S a)" for k
      using agree ga that by blast
    have sa': "raw_get i' a = None" using ag [OF prop_group_self] sa by simp
    have slot': "PhysicalProperty_reciprocal_slot S i' a = None"
      using slot ag by (auto simp: PhysicalProperty_reciprocal_slot_def prop_group_mem split: option.splits)
    have "Mapping_fget S i' m = Mapping_fget S i m"
    proof (rule Mapping_fget_cong)
      show "raw_get i' m = raw_get i m" using ag am by (simp add: prop_group_mem)
      fix rm assume "Mapping_reciprocal S m = Some rm"
      then obtain r where "PhysicalProperty_reciprocal S a = Some r" "PhysicalProperty_mapping S r = Some rm"
        using Mapping_targets_wf(2) [OF wf wf_mapping_prop [OF wf am]] by (auto split: option.splits)
      then show "raw_get i' rm = raw_get i rm" using ag by (auto simp: prop_group_mem)
    qed
    then show ?thesis using fget_mapped [OF sa slot am] fget_mapped [OF sa' slot' am, unfolded mdl] by simp
  qed
  have sp: "raw_get i' p = raw_get i p" using agree [OF prop_group_self] .
  have slot_eq: "PhysicalProperty_reciprocal_slot S i' p = PhysicalProperty_reciprocal_slot S i p"
    using agree by (auto simp: PhysicalProperty_reciprocal_slot_def prop_group_mem split: option.splits)
  consider (stored) v where "raw_get i p = Some v"
    | (rslot) v where "raw_get i p = None" "PhysicalProperty_reciprocal_slot S i p = Some v"
    | (empty) "raw_get i p = None" "PhysicalProperty_reciprocal_slot S i p = None"
    by fastforce
  then show ?thesis
  proof cases
    case stored
    then show ?thesis using sp by (simp add: fget_stored)
  next
    case rslot
    then obtain r where "PhysicalProperty_reciprocal S p = Some r" "raw_get i r = Some v"
      by (auto simp: PhysicalProperty_reciprocal_slot_def split: option.splits)
    then show ?thesis
      using rslot sp slot_eq fget_reciprocal_stored [of i p S r v] fget_reciprocal_stored [of i' p S r v]
      by (simp add: PhysicalProperty_reciprocal_slot_def)
  next
    case empty
    show ?thesis
    proof (cases "PhysicalProperty_mapping S p")
      case (Some m)
      then show ?thesis using mapped empty by blast
    next
      case None
      show ?thesis
      proof (cases "PhysicalProperty_reciprocal S p")
        case rNone: None
        then show ?thesis using empty sp None by (simp add: fget_unbound)
      next
        case (Some r)
        have rr: "PhysicalProperty_reciprocal S r = Some p" using wf_reciprocal_sym [OF wf Some] by simp
        have rp: "is_physprop S r" using wf Some by (rule wf_reciprocal_physprop)
        have sr: "raw_get i r = None" using empty Some by (simp add: PhysicalProperty_reciprocal_slot_def)
        have sr': "raw_get i' r = None" using sr agree Some by (simp add: prop_group_mem)
        have sp': "raw_get i' p = None" using sp empty by simp
        have "PhysicalProperty_fget S i' r = PhysicalProperty_fget S i r"
        proof (cases "PhysicalProperty_mapping S r")
          case rmNone: None
          then show ?thesis using fget_loop_None [OF wf rr rmNone None] sr sr' empty sp' by simp
        next
          case (Some rm)
          have "PhysicalProperty_reciprocal_slot S i r = None"
            using empty rr by (simp add: PhysicalProperty_reciprocal_slot_def)
          then show ?thesis using mapped [OF _ sr _ Some] \<open>PhysicalProperty_reciprocal S p = Some r\<close> by blast
        qed
        then show ?thesis
          using fget_recurse [OF _ Some _ None rp] empty sp' sr sr' by simp
      qed
    qed
  qed
qed

subsection \<open>Writes outside a group\<close>

lemma setattr_Inr_cases:
  assumes "setattr S i n v = Inr i'"
  obtains (undeclared) "map_of S n = None" "i' = i"
  | (mapping) h po where "map_of S n = Some (Mapping h po)" "Mapping_fset S i n v = Inr i'"
  | (physprop) h mo ro where "map_of S n = Some (PhysicalProperty h mo ro)"
      "PhysicalProperty_fset S i n v = Inr i'"
  using assms by (auto simp: setattr_def split: option.splits descriptor.splits)

lemma mapping_owner_physprop:
  "PhysicalProperty_mapping S p = Some m \<Longrightarrow> is_physprop S p"
  by (auto simp: PhysicalProperty_mapping_def is_physprop_def split: option.splits descriptor.splits)

lemma setattr_model:
  "setattr S i n v = Inr i' \<Longrightarrow> model i' = model i"
  by (erule setattr_Inr_cases) (auto dest: Mapping_fset_model PhysicalProperty_fset_model)

text \<open>
  A group that contains neither the written name nor, for a mapping, its property
  is disjoint from the group the write clears.
\<close>

lemma group_outside:
  assumes wf: "wf_schema S" and q: "is_physprop S q" and p: "is_physprop S p"
    and n: "n \<in> set (prop_group S p)" and nq: "n \<notin> set (prop_group S q)"
    and k: "k \<in> set (prop_group S q)"
  shows "k \<notin> set (prop_group S p)"
proof -
  have "q \<notin> set (prop_group S p)"
    using prop_group_eq [OF wf q] n nq by blast
  then show ?thesis using prop_group_disjoint [OF wf p q] k by blast
qed

lemma setattr_frame:
  assumes wf: "wf_schema S" and set: "setattr S i n v = Inr i'"
    and q: "is_physprop S q" and nq: "n \<notin> set (prop_group S q)"
    and k: "k \<in> set (prop_group S q)"
  shows "raw_get i' k = raw_get i k"
  using set
proof (cases rule: setattr_Inr_cases)
  case undeclared
  then show ?thesis by simp
next
  case (mapping h po)
  show ?thesis
  proof (cases "Mapping_prop S n")
    case None
    then show ?thesis using Mapping_fset_unbound [OF None mapping(2)] nq k by auto
  next
    case (Some p)
    have pm: "PhysicalProperty_mapping S p = Some n" using wf Some by (rule wf_prop_mapping)
    have "k \<notin> set (prop_group S p)"
      using group_outside [OF wf q mapping_owner_physprop [OF pm] _ nq k] pm
      by (simp add: prop_group_mem)
    then show ?thesis using Mapping_fset_group [OF wf Some mapping(2), of k] nq k by auto
  qed
next
  case (physprop h mo ro)
  have p: "is_physprop S n" using physprop(1) by (simp add: is_physprop_def)
  have "k \<notin> set (prop_group S n)" using group_outside [OF wf q p prop_group_self nq k] .
  then show ?thesis using PhysicalProperty_fset_group [OF wf p physprop(2), of k] nq k by auto
qed

text \<open>
  C7. Non-interference: a successful attribute write leaves the value of every
  physical property whose reciprocal group does not contain the written name
  unchanged, divergence included.
\<close>

theorem setattr_noninterference:
  assumes wf: "wf_schema S" and set: "setattr S i n v = Inr i'"
    and q: "is_physprop S q" and nq: "n \<notin> set (prop_group S q)"
  shows "PhysicalProperty_fget S i' q = PhysicalProperty_fget S i q"
  using fget_group_cong [OF wf setattr_frame [OF wf set q nq] setattr_model [OF set]] .

theorem setattr_noninterference_witness:
  "\<exists>i'. setattr (Invertible ''Magnetic susceptibility'' (''chi'', ''chiMap'', ''chiDeriv'') scenario_class)
       (raw_set (empty_instance None) ''sigma'' (Some (Arr [1, 2, 4]))) ''chi'' (Some (Arr [2])) = Inr i' \<and>
     PhysicalProperty_fget (Invertible ''Magnetic susceptibility'' (''chi'', ''chiMap'', ''chiDeriv'') scenario_class)
       i' ''sigma'' = Some (Inr (Some (Arr [1, 2, 4])))"
proof -
  define S2 where "S2 = Invertible ''Magnetic susceptibility'' (''chi'', ''chiMap'', ''chiDeriv'') scenario_class"
  define i0 where "i0 = raw_set (empty_instance None) ''sigma'' (Some (Arr [1, 2, 4]))"
  have wf2: "wf_schema S2"
    unfolding S2_def by (rule Invertible_wf [OF scenario_class_wf]) (simp_all add: scenario_class_def)
  have q: "is_physprop S2 ''sigma''" and nq: "''chi'' \<notin> set (prop_group S2 ''sigma'')"
    by (simp_all add: S2_def Invertible_def scenario_class_def is_physprop_def prop_group_def
        PhysicalProperty_mapping_def PhysicalProperty_reciprocal_def)
  obtain i' where set: "setattr S2 i0 ''chi'' (Some (Arr [2])) = Inr i'"
    by (simp add: S2_def i0_def setattr_def Invertible_def scenario_class_def PhysicalProperty_fset_def)
  have "PhysicalProperty_fget S2 i0 ''sigma'' = Some (Inr (Some (Arr [1, 2, 4])))"
    by (simp add: i0_def fget_stored raw_get_raw_set)
  then show ?thesis
    using set setattr_noninterference [OF wf2 set q nq] by (simp add: S2_def i0_def)
qed

subsection \<open>Refinement\<close>


text \<open>
  C2. Refinement of the spec's resolution contract: in a state of a well-formed class
  where every slot holds a value of its descriptor's kind and each reciprocal group
  has at most one slot set, if some slot of a property's group is set and the model
  is set, the getter returns exactly the value the spec derives from that slot.
\<close>

theorem PhysicalProperty_fget_refines_spec:
  assumes wf: "wf_schema S" and ki: "kinds_ok S i" and ex: "exclusive S i"
    and pp: "is_physprop S p" and mdl: "model i = Some xs"
    and live: "first_live i (prop_group S p) \<noteq> None"
  shows "\<exists>a. spec_value S i p xs = Some a \<and> PhysicalProperty_fget S i p = Some (Inr (Some (Arr a)))"
proof -
  obtain k v where fl: "first_live i (prop_group S p) = Some (k, v)" using live by auto
  note u = live_slot_unique [OF ex pp fl]
  have sv: "spec_value S i p xs = source_value S p xs k v" by (simp add: spec_value_def fl)
  have other: "raw_get i k' = None" if "k' \<in> set (prop_group S p)" "is_physprop S k'" "\<not> is_physprop S k"
    for k' using u(3) that by blast
  from u(1) consider (own) "k = p" | (mapped) "PhysicalProperty_mapping S p = Some k"
    | (recip) "PhysicalProperty_reciprocal S p = Some k"
    | (recip_mapped) r where "PhysicalProperty_reciprocal S p = Some r" "PhysicalProperty_mapping S r = Some k"
    by (auto simp: prop_group_mem)
  then show ?thesis
  proof cases
    case own
    with u(2) have "raw_get i p = Some v" by simp
    with fget_source_own [OF ki pp] sv own show ?thesis by simp
  next
    case recip
    have "k \<noteq> p" using wf_reciprocal_sym [OF wf recip] by simp
    then have "raw_get i p = None" using u(3) [OF prop_group_self] by simp
    with fget_source_reciprocal [OF wf ki recip] u(2) sv show ?thesis by simp
  next
    case mapped
    have nk: "\<not> is_physprop S k" using wf mapped by (rule wf_mapping_not_physprop)
    have sp: "raw_get i p = None" using other [OF prop_group_self pp nk] .
    have "PhysicalProperty_reciprocal_slot S i p = None"
    proof (cases "PhysicalProperty_reciprocal S p")
      case (Some r)
      have "r \<in> set (prop_group S p)" using Some by (simp add: prop_group_mem)
      with other [OF _ wf_reciprocal_physprop [OF wf Some] nk] Some
      show ?thesis by (simp add: PhysicalProperty_reciprocal_slot_def)
    qed (simp add: PhysicalProperty_reciprocal_slot_def)
    with fget_source_mapping [OF wf ki mapped mdl sp _ u(2)] sv show ?thesis by simp
  next
    case recip_mapped
    have nk: "\<not> is_physprop S k" using wf recip_mapped(2) by (rule wf_mapping_not_physprop)
    have rp: "is_physprop S r" using wf recip_mapped(1) by (rule wf_reciprocal_physprop)
    have sp: "raw_get i p = None" using other [OF prop_group_self pp nk] .
    have sr: "raw_get i r = None"
      using other [OF _ rp nk] recip_mapped(1) by (simp add: prop_group_mem)
    have sm: "raw_get i m = None" if pm: "PhysicalProperty_mapping S p = Some m" for m
    proof -
      have "r \<noteq> p" using wf_reciprocal_sym [OF wf recip_mapped(1)] by simp
      then have "m \<noteq> k" using wf_mapping_inj [OF wf pm, of r] recip_mapped(2) by auto
      moreover have "m \<in> set (prop_group S p)" using pm by (simp add: prop_group_mem)
      ultimately show ?thesis using u(3) by blast
    qed
    with fget_source_reciprocal_mapping [OF wf ki recip_mapped mdl sp sr _ u(2)] sv
    show ?thesis by simp
  qed
qed

theorem PhysicalProperty_fget_refines_spec_witness:
  "\<exists>i'. run scenario_class (empty_instance None)
       [SetModel (Some [1, 2, 4]), SetAttr ''sigmaMap'' (Some (MapObj IdentityMap))] = Inr i' \<and>
     spec_value scenario_class i' ''rho'' [1, 2, 4] = Some [1, 1 / 2, 1 / 4] \<and>
     PhysicalProperty_fget scenario_class i' ''rho'' = Some (Inr (Some (Arr [1, 1 / 2, 1 / 4])))"
proof -
  obtain i' where r: "run scenario_class (empty_instance None)
       [SetModel (Some [1, 2, 4]), SetAttr ''sigmaMap'' (Some (MapObj IdentityMap))] = Inr i'"
    by (simp add: setattr_def scenario_class_def Mapping_fset_def)
  define i1 where "i1 = (empty_instance None)\<lparr>model := Some [1, 2, 4]\<rparr>"
  have ms: "Mapping_fset scenario_class i1 ''sigmaMap'' (Some (MapObj IdentityMap)) = Inr i'"
    using r by (simp add: i1_def setattr_def scenario_class_def split: sum.splits)
  note get = Mapping_fset_get_wf [OF scenario_class_wf scenario_class_links(1) ms]
  have slots: "raw_get i' ''sigma'' = None" "raw_get i' ''rho'' = None" "raw_get i' ''rhoMap'' = None"
    "raw_get i' ''sigmaMap'' = Some (MapObj IdentityMap)" "model i' = Some [1, 2, 4]"
    using get(1) [of "''sigma''"] get(1) [of "''rho''"] get(1) [of "''rhoMap''"] get(2)
      Mapping_fset_model [OF ms]
    by (simp_all add: scenario_class_links i1_def)
  have sv: "spec_value scenario_class i' ''rho'' [1, 2, 4] = Some [1, 1 / 2, 1 / 4]"
    by (simp add: spec_value_def prop_group_def source_value_def slots scenario_class_links)
  have "kinds_ok scenario_class i'" "exclusive scenario_class i'"
    using fresh_invariants run_kinds_ok [OF _ r] run_exclusive [OF scenario_class_wf _ r] by blast+
  moreover have "first_live i' (prop_group scenario_class ''rho'') \<noteq> None"
    by (simp add: prop_group_def slots scenario_class_links)
  ultimately show ?thesis
    using r sv slots PhysicalProperty_fget_refines_spec [OF scenario_class_wf, of i' "''rho''" "[1, 2, 4]"]
    by (simp add: scenario_class_links)
qed

text \<open>
  C18. With no slot of its reciprocal group set, a physical property never reads a
  value: the getter returns \<open>None\<close> (no mapping and no reciprocal), raises
  \<open>TypeError\<close> from \<open>None * self.model\<close> (some mapping in the chain it follows is
  bound), or never returns (the property and its reciprocal are both unmapped).
  Spec section 7 says that a getter degrades to \<open>None\<close> and does not raise.
\<close>

theorem PhysicalProperty_fget_no_source:
  assumes wf: "wf_schema S" and none: "first_live i (prop_group S p) = None"
  shows "PhysicalProperty_fget S i p \<in>
    {Some (Inr None), Some (Inl (TypeError ''unsupported operand type(s) for *: NoneType'')), None}"
proof -
  have off: "raw_get i k = None" if "k \<in> set (prop_group S p)" for k
    using none that by (simp add: first_live_None_iff)
  have sp: "raw_get i p = None" using off [OF prop_group_self] .
  have slot: "PhysicalProperty_reciprocal_slot S i p = None"
    using off by (simp add: PhysicalProperty_reciprocal_slot_def prop_group_mem split: option.splits)
  show ?thesis
  proof (cases "PhysicalProperty_mapping S p")
    case (Some m)
    have "Mapping_fget S i m = Inr None"
      using off Some Mapping_targets_wf(2) [OF wf wf_mapping_prop [OF wf Some]]
      by (intro Mapping_fget_None) (auto simp: prop_group_mem split: option.splits)
    then show ?thesis using fget_mapped [OF sp slot Some] by simp
  next
    case None
    show ?thesis
    proof (cases "PhysicalProperty_reciprocal S p")
      case (Some r)
      have rr: "PhysicalProperty_reciprocal S r = Some p" using wf_reciprocal_sym [OF wf Some] by simp
      have sr: "raw_get i r = None" using off Some by (simp add: prop_group_mem)
      show ?thesis
      proof (cases "PhysicalProperty_mapping S r")
        case rmNone: None
        show ?thesis using fget_loop_None [OF wf Some None rmNone sp sr] by simp
      next
        case (Some rm)
        have slot_r: "PhysicalProperty_reciprocal_slot S i r = None"
          by (simp add: PhysicalProperty_reciprocal_slot_def rr sp)
        have "Mapping_prop S rm = Some r" using wf Some by (rule wf_mapping_prop)
        then have "Mapping_reciprocal S rm = None"
          using Mapping_targets_wf(2) [OF wf] rr None by simp
        moreover have "raw_get i rm = None"
          using off \<open>PhysicalProperty_reciprocal S p = Some r\<close> Some by (auto simp: prop_group_mem)
        ultimately have "Mapping_fget S i rm = Inr None" by (intro Mapping_fget_None) simp_all
        then have "PhysicalProperty_fget S i r =
            Some (Inl (TypeError ''unsupported operand type(s) for *: NoneType''))"
          using fget_mapped [OF sr slot_r Some] by simp
        moreover have "is_physprop S r" using rr by (rule reciprocal_is_physprop)
        ultimately show ?thesis
          using fget_recurse [OF sp \<open>PhysicalProperty_reciprocal S p = Some r\<close> sr None] by simp
      qed
    qed (simp add: fget_unbound [OF sp _ None])
  qed
qed

theorem PhysicalProperty_fget_no_source_witness:
  "first_live (empty_instance (Some [1, 2, 4])) (prop_group scenario_class ''rho'') = None \<and>
   PhysicalProperty_fget scenario_class (empty_instance (Some [1, 2, 4])) ''rho'' \<in>
    {Some (Inr None), Some (Inl (TypeError ''unsupported operand type(s) for *: NoneType'')), None}"
proof -
  have "first_live (empty_instance (Some [1, 2, 4])) (prop_group scenario_class ''rho'') = None"
    by (simp add: first_live_None_iff)
  then show ?thesis using PhysicalProperty_fget_no_source [OF scenario_class_wf] by blast
qed

end
