(* ===== verification/Props_Depth.thy ===== *)
theory Props_Depth
  imports Props_Physical
begin

text \<open>
  The physical-property getter as CPython runs it: each nested call of a getter
  takes a frame, and a call made with no frame left raises \<open>RecursionError\<close>
  (the interpreter's recursion limit, \<open>sys.getrecursionlimit()\<close>). The depth
  bound \<open>n\<close> is the number of getter frames still available; the body is the
  body of \<^const>\<open>PhysicalProperty_fget\<close> with the recursive call made at depth
  \<open>n - 1\<close>. The theorems show that two frames give the result of the unbounded
  getter, and that the unbounded getter's divergence is exactly a
  \<open>RecursionError\<close> at every depth.
\<close>

fun PhysicalProperty_fget_depth :: "nat \<Rightarrow> schema \<Rightarrow> host \<Rightarrow> name \<Rightarrow> error + pvalue option" where
  "PhysicalProperty_fget_depth 0 S i p = Inl RecursionError"
| "PhysicalProperty_fget_depth (Suc n) S i p =
     (case raw_get i p of
        Some v \<Rightarrow> Inr (Some v)
      | None \<Rightarrow>
          (case PhysicalProperty_reciprocal_slot S i p of
             Some v \<Rightarrow> one_div (Some v)
           | None \<Rightarrow>
               (case PhysicalProperty_mapping S p of
                  None \<Rightarrow>
                    (case PhysicalProperty_reciprocal S p of
                       None \<Rightarrow> Inr None
                     | Some r \<Rightarrow>
                         (if is_physprop S r then
                            (case PhysicalProperty_fget_depth n S i r of
                               Inl e \<Rightarrow> Inl e
                             | Inr v \<Rightarrow> one_div v)
                          else Inl (TypeError ''unsupported operand type(s) for /'')))
                | Some m \<Rightarrow>
                    (case Mapping_fget S i m of
                       Inl e \<Rightarrow> Inl e
                     | Inr v \<Rightarrow> mul_model v (model i)))))"

subsection \<open>One frame at a time\<close>

text \<open>Outside the recursive branch one frame computes what the unbounded getter does.\<close>

lemma fget_depth_nonrec:
  assumes "\<not> (raw_get i p = None \<and> PhysicalProperty_reciprocal_slot S i p = None \<and>
              PhysicalProperty_mapping S p = None \<and>
              (\<exists>r. PhysicalProperty_reciprocal S p = Some r \<and> is_physprop S r))"
  shows "PhysicalProperty_fget S i p = Some (PhysicalProperty_fget_depth (Suc n) S i p)"
  using assms
  by (subst PhysicalProperty_fget.simps)
     (auto split: option.splits sum.splits)

lemma fget_depth_recurse:
  "raw_get i p = None \<Longrightarrow> PhysicalProperty_reciprocal_slot S i p = None \<Longrightarrow>
   PhysicalProperty_mapping S p = None \<Longrightarrow> PhysicalProperty_reciprocal S p = Some r \<Longrightarrow>
   is_physprop S r \<Longrightarrow>
   PhysicalProperty_fget_depth (Suc n) S i p =
     (case PhysicalProperty_fget_depth n S i r of Inl e \<Rightarrow> Inl e | Inr v \<Rightarrow> one_div v)"
  by simp

text \<open>Two unmapped reciprocal properties with empty slots exhaust every depth.\<close>

lemma fget_depth_loop:
  assumes wf: "wf_schema S"
  shows "PhysicalProperty_reciprocal S p = Some r \<Longrightarrow> PhysicalProperty_mapping S p = None \<Longrightarrow>
    PhysicalProperty_mapping S r = None \<Longrightarrow> raw_get i p = None \<Longrightarrow> raw_get i r = None \<Longrightarrow>
    PhysicalProperty_fget_depth n S i p = Inl RecursionError"
proof (induction n arbitrary: p r)
  case 0
  then show ?case by simp
next
  case (Suc n)
  have rr: "PhysicalProperty_reciprocal S r = Some p" using wf_reciprocal_sym [OF wf Suc.prems(1)] by simp
  have "PhysicalProperty_fget_depth n S i r = Inl RecursionError"
    using Suc.IH [OF rr Suc.prems(3,2,5,4)] .
  moreover have "is_physprop S r" using wf Suc.prems(1) by (rule wf_reciprocal_physprop)
  ultimately show ?case
    using Suc.prems by (simp add: PhysicalProperty_reciprocal_slot_def)
qed

text \<open>
  Adequacy of the depth bound: with at least two frames, the
  depth-bounded getter returns what \<^const>\<open>PhysicalProperty_fget\<close> returns, and
  \<open>RecursionError\<close> exactly where the unbounded getter diverges. So the recursion
  of line 123 nests at most one call, unless it never ends.
\<close>

theorem PhysicalProperty_fget_depth_equiv:
  assumes wf: "wf_schema S" and n: "2 \<le> n"
  shows "PhysicalProperty_fget_depth n S i p =
    (case PhysicalProperty_fget S i p of None \<Rightarrow> Inl RecursionError | Some res \<Rightarrow> res)"
proof -
  obtain k where nk: "n = Suc (Suc k)" using n by (metis add_2_eq_Suc le_Suc_ex)
  show ?thesis
  proof (cases "raw_get i p = None \<and> PhysicalProperty_reciprocal_slot S i p = None \<and>
      PhysicalProperty_mapping S p = None \<and>
      (\<exists>r. PhysicalProperty_reciprocal S p = Some r \<and> is_physprop S r)")
    case False
    then show ?thesis using fget_depth_nonrec [OF False, of "Suc k"] nk by simp
  next
    case True
    then obtain r where sp: "raw_get i p = None" and slot: "PhysicalProperty_reciprocal_slot S i p = None"
      and pm: "PhysicalProperty_mapping S p = None" and rp: "PhysicalProperty_reciprocal S p = Some r"
      and r: "is_physprop S r" by blast
    have rr: "PhysicalProperty_reciprocal S r = Some p" using wf_reciprocal_sym [OF wf rp] by simp
    have sr: "raw_get i r = None" using slot rp by (simp add: PhysicalProperty_reciprocal_slot_def)
    have slot_r: "PhysicalProperty_reciprocal_slot S i r = None"
      using rr sp by (simp add: PhysicalProperty_reciprocal_slot_def)
    have step: "PhysicalProperty_fget_depth n S i p =
      (case PhysicalProperty_fget_depth (Suc k) S i r of Inl e \<Rightarrow> Inl e | Inr v \<Rightarrow> one_div v)"
      using fget_depth_recurse [OF sp slot pm rp r] nk by simp
    show ?thesis
    proof (cases "PhysicalProperty_mapping S r")
      case None
      then show ?thesis
        using step fget_depth_loop [OF wf rr None pm sr sp] fget_loop_None [OF wf rp pm None sp sr]
        by simp
    next
      case (Some rm)
      have "PhysicalProperty_fget S i r = Some (PhysicalProperty_fget_depth (Suc k) S i r)"
        using Some by (intro fget_depth_nonrec) simp
      then show ?thesis using step fget_recurse [OF sp rp sr pm r]
        by (simp split: sum.splits)
    qed
  qed
qed

theorem PhysicalProperty_fget_depth_equiv_witness:
  "2 \<le> (1000::nat) \<and>
   PhysicalProperty_fget_depth 1000 scenario_class (empty_instance (Some [1, 2, 4])) ''rho'' =
     (case PhysicalProperty_fget scenario_class (empty_instance (Some [1, 2, 4])) ''rho'' of
        None \<Rightarrow> Inl RecursionError | Some res \<Rightarrow> res)"
  using PhysicalProperty_fget_depth_equiv [OF scenario_class_wf, of 1000] by simp

end
