(* ===== verification/Props_Access.thy ===== *)
theory Props_Access
  imports Props_Contract Props_Depth
begin

text \<open>
  Attribute access on a host instance. Each descriptor's \<open>get_property\<close> returns a
  Python \<open>property\<close> object built from its \<open>fget\<close> and, for \<open>Mapping\<close> and
  \<open>PhysicalProperty\<close>, its \<open>fset\<close>; the \<open>properties\<close> library installs that
  object on the host class under the descriptor's name, so \<open>obj.name\<close> calls its
  getter and \<open>obj.name = v\<close> its setter (or raises when there is none). The
  objects are records of the two functions (\<open>attr_property\<close>), and \<open>getattr\<close>
  and \<open>setattr_via\<close> route through them. The theorems: writes through the property
  objects are the writes of \<open>Props_Ops\<close>; every value read has its attribute's
  kind; and from any state, writing every physical property once reaches a state
  where no getter diverges.
\<close>

text \<open>What \<open>obj.name\<close> evaluates to: a slot value or a derivative value.\<close>

datatype attr_value = PropVal "pvalue option" | DerivVal dvalue

record attr_property =
  prop_get :: "host \<Rightarrow> (error + attr_value) option"
  prop_set :: "(host \<Rightarrow> pvalue option \<Rightarrow> error + host) option"

definition lift_prop :: "error + pvalue option \<Rightarrow> error + attr_value" where
  "lift_prop r = (case r of Inl e \<Rightarrow> Inl e | Inr v \<Rightarrow> Inr (PropVal v))"

text \<open>\<open>Mapping.get_property\<close>: \<^verbatim>\<open>property(fget=fget, fset=fset, doc=scope.help)\<close>.\<close>

definition Mapping_get_property :: "schema \<Rightarrow> name \<Rightarrow> attr_property" where
  "Mapping_get_property S m =
     \<lparr>prop_get = (\<lambda>i. Some (lift_prop (Mapping_fget S i m))),
      prop_set = Some (\<lambda>i v. Mapping_fset S i m v)\<rparr>"

text \<open>\<open>PhysicalProperty.get_property\<close>; a getter that never returns stays \<open>None\<close>.\<close>

definition PhysicalProperty_get_property :: "schema \<Rightarrow> name \<Rightarrow> attr_property" where
  "PhysicalProperty_get_property S p =
     \<lparr>prop_get = (\<lambda>i. map_option lift_prop (PhysicalProperty_fget S i p)),
      prop_set = Some (\<lambda>i v. PhysicalProperty_fset S i p v)\<rparr>"

text \<open>\<open>Derivative.get_property\<close>: \<^verbatim>\<open>property(fget=fget, doc=scope.help)\<close>, read-only.\<close>

definition Derivative_get_property :: "schema \<Rightarrow> name \<Rightarrow> attr_property" where
  "Derivative_get_property S d =
     \<lparr>prop_get = (\<lambda>i. Some (case Derivative_fget S i d of Inl e \<Rightarrow> Inl e | Inr z \<Rightarrow> Inr (DerivVal z))),
      prop_set = None\<rparr>"

text \<open>The property object the host class holds under a name.\<close>

definition class_property :: "schema \<Rightarrow> name \<Rightarrow> attr_property option" where
  "class_property S n =
     (case map_of S n of
        None \<Rightarrow> None
      | Some (Mapping _ _) \<Rightarrow> Some (Mapping_get_property S n)
      | Some (PhysicalProperty _ _ _) \<Rightarrow> Some (PhysicalProperty_get_property S n)
      | Some (Derivative _ _) \<Rightarrow> Some (Derivative_get_property S n))"

text \<open>
  \<open>obj.name\<close> for a name of the class table. Instance attributes that client code
  adds under other names are not tracked by the model; reading such a name is
  reported as \<open>AttributeError\<close>.
\<close>

definition getattr :: "schema \<Rightarrow> host \<Rightarrow> name \<Rightarrow> (error + attr_value) option" where
  "getattr S i n =
     (case class_property S n of
        None \<Rightarrow> Some (Inl (AttributeError n))
      | Some P \<Rightarrow> prop_get P i)"

text \<open>\<open>obj.name = v\<close>: a property without setter raises.\<close>

definition setattr_via :: "schema \<Rightarrow> host \<Rightarrow> name \<Rightarrow> pvalue option \<Rightarrow> error + host" where
  "setattr_via S i n v =
     (case class_property S n of
        None \<Rightarrow> Inr i
      | Some P \<Rightarrow>
          (case prop_set P of
             None \<Rightarrow> Inl (AttributeError ''cannot set attribute'')
           | Some f \<Rightarrow> f i v))"

text \<open>The kind of value each attribute may read.\<close>

definition attr_value_ok :: "schema \<Rightarrow> name \<Rightarrow> attr_value \<Rightarrow> bool" where
  "attr_value_ok S n v =
     (case (map_of S n, v) of
        (Some (Mapping _ _), PropVal None) \<Rightarrow> True
      | (Some (Mapping _ _), PropVal (Some x)) \<Rightarrow> is_map_value x
      | (Some (PhysicalProperty _ _ _), PropVal None) \<Rightarrow> True
      | (Some (PhysicalProperty _ _ _), PropVal (Some x)) \<Rightarrow> is_array_value x
      | (Some (Derivative _ _), DerivVal _) \<Rightarrow> True
      | _ \<Rightarrow> False)"

text \<open>A property whose reciprocal group has a slot set.\<close>

definition group_live :: "schema \<Rightarrow> host \<Rightarrow> name \<Rightarrow> bool" where
  "group_live S i p = (first_live i (prop_group S p) \<noteq> None)"

text \<open>The client script that writes the array \<open>a\<close> to every physical property.\<close>

definition write_all :: "schema \<Rightarrow> array \<Rightarrow> op list" where
  "write_all S a = map (\<lambda>p. SetAttr p (Some (Arr a))) (filter (is_physprop S) (map fst S))"

subsection \<open>Writes through the property objects\<close>

lemma setattr_via_setattr: "setattr_via S i n v = setattr S i n v"
proof (cases "map_of S n")
  case None
  then show ?thesis by (simp add: setattr_via_def setattr_def class_property_def)
next
  case (Some D)
  then show ?thesis
    by (cases D) (simp_all add: setattr_via_def setattr_def class_property_def Mapping_get_property_def
        PhysicalProperty_get_property_def Derivative_get_property_def)
qed

subsection \<open>The kind of every value read\<close>

lemma lift_prop_Inr [simp]: "lift_prop r = Inr v \<longleftrightarrow> (\<exists>w. r = Inr w \<and> v = PropVal w)"
  by (cases r) (auto simp: lift_prop_def)

lemma one_div_kind: "one_div v = Inr w \<Longrightarrow> \<exists>a. w = Some (Arr a)"
  by (cases v rule: one_div.cases) auto

lemma mul_model_kind: "mul_model v mo = Inr w \<Longrightarrow> \<exists>a. w = Some (Arr a)"
  by (cases "(v, mo)" rule: mul_model.cases) (auto split: option.splits sum.splits elim: map_mul.elims)

lemma bind_one_div_kind:
  assumes "Option.bind r (\<lambda>res. Some (case res of Inl e \<Rightarrow> Inl e | Inr v \<Rightarrow> one_div v)) =
    Some (Inr (Some x))"
  shows "\<exists>a. x = Arr a"
proof -
  obtain y where "r = Some y" "(case y of Inl e \<Rightarrow> Inl e | Inr v \<Rightarrow> one_div v) = Inr (Some x)"
    using assms by (auto simp: bind_eq_Some_conv)
  then obtain v where "one_div v = Inr (Some x)" by (cases y) auto
  then show ?thesis by (auto dest: one_div_kind)
qed

lemma Mapping_fget_kind:
  assumes wf: "wf_schema S" and ki: "kinds_ok S i" and m: "map_of S m = Some (Mapping h po)"
    and get: "Mapping_fget S i m = Inr (Some x)"
  shows "is_map_value x"
proof (cases "raw_get i m")
  case (Some v)
  then have "slot_ok S m v" by (rule kinds_ok_slot [OF ki])
  with Some get m show ?thesis by (simp add: Mapping_fget_def slot_ok_def)
next
  case None
  then obtain rm v where rm: "Mapping_reciprocal S m = Some rm" and srm: "raw_get i rm = Some v"
    and mul: "map_mul ReciprocalMap (Some v) = Inr x"
    using get by (auto simp: Mapping_fget_def split: option.splits sum.splits)
  obtain p r where "Mapping_prop S m = Some p" "PhysicalProperty_reciprocal S p = Some r"
      "mapping_attr S r = Some rm"
    using rm by (auto simp: Mapping_reciprocal_def split: option.splits)
  then have "Mapping_prop S rm = Some r"
    using wf_mapping_prop [OF wf] wf_reciprocal_physprop [OF wf] mapping_attr_physprop by metis
  then obtain f where "v = MapObj f" using slot_ok_mapping kinds_ok_slot [OF ki srm] by blast
  with mul show ?thesis by auto
qed

lemma PhysicalProperty_fget_kind:
  assumes ki: "kinds_ok S i" and p: "is_physprop S p"
    and get: "PhysicalProperty_fget S i p = Some (Inr (Some x))"
  shows "is_array_value x"
proof (cases "raw_get i p")
  case (Some v)
  then have "slot_ok S p v" by (rule kinds_ok_slot [OF ki])
  with Some get p show ?thesis
    using slot_ok_physprop fget_stored by fastforce
next
  case None
  from get have "PhysicalProperty_fget S i p = Some (Inr (Some x))" .
  then have "\<exists>a. Some x = Some (Arr a)"
    using None
    by (subst (asm) PhysicalProperty_fget.simps)
       (auto split: option.splits if_splits sum.splits dest: one_div_kind mul_model_kind bind_one_div_kind)
  then show ?thesis by auto
qed

text \<open>
  C13. Every value read through an attribute has the attribute's kind: on a state
  whose slots hold values of their descriptors' kinds, a mapping attribute reads
  \<open>None\<close> or a map, a physical property \<open>None\<close> or an array, and a derivative
  the \<open>Zero\<close> sentinel or a matrix.
\<close>

theorem getattr_kind:
  assumes wf: "wf_schema S" and ki: "kinds_ok S i" and get: "getattr S i n = Some (Inr v)"
  shows "attr_value_ok S n v"
proof (cases "map_of S n")
  case None
  with get show ?thesis by (simp add: getattr_def class_property_def)
next
  case md: (Some D)
  show ?thesis
  proof (cases D)
    case (Mapping h po)
    with md get obtain w where w: "Mapping_fget S i n = Inr w" and v: "v = PropVal w"
      by (auto simp: getattr_def class_property_def Mapping_get_property_def
          split: sum.splits)
    show ?thesis
    proof (cases w)
      case (Some x)
      with w md Mapping have "is_map_value x" using Mapping_fget_kind [OF wf ki, of n] by simp
      with Some v md Mapping show ?thesis by (simp add: attr_value_ok_def)
    qed (simp add: v md Mapping attr_value_ok_def)
  next
    case (PhysicalProperty h mo ro)
    with md get obtain w where w: "PhysicalProperty_fget S i n = Some (Inr w)" and v: "v = PropVal w"
      by (auto simp: getattr_def class_property_def PhysicalProperty_get_property_def
          split: sum.splits)
    have p: "is_physprop S n" using md PhysicalProperty by (simp add: is_physprop_def)
    show ?thesis
    proof (cases w)
      case (Some x)
      with w have "is_array_value x" using PhysicalProperty_fget_kind [OF ki p] by simp
      with Some v md PhysicalProperty show ?thesis by (simp add: attr_value_ok_def)
    qed (simp add: v md PhysicalProperty attr_value_ok_def)
  next
    case (Derivative h po)
    with md get show ?thesis
      by (auto simp: getattr_def class_property_def Derivative_get_property_def attr_value_ok_def
          split: sum.splits)
  qed
qed

theorem getattr_kind_witness:
  "getattr scenario_class (raw_set (empty_instance None) ''rho'' (Some (Arr [2]))) ''rho'' =
     Some (Inr (PropVal (Some (Arr [2])))) \<and>
   attr_value_ok scenario_class ''rho'' (PropVal (Some (Arr [2])))"
proof -
  let ?i = "raw_set (empty_instance None) ''rho'' (Some (Arr [2]))"
  have ki: "kinds_ok scenario_class ?i"
    by (simp add: kinds_ok_iff raw_get_raw_set slot_ok_def scenario_class_def)
  have get: "getattr scenario_class ?i ''rho'' = Some (Inr (PropVal (Some (Arr [2]))))"
    by (simp add: getattr_def class_property_def scenario_class_def PhysicalProperty_get_property_def
        lift_prop_def fget_stored raw_get_raw_set)
  show ?thesis using get getattr_kind [OF scenario_class_wf ki get] by simp
qed

subsection \<open>Writes that end every divergence\<close>

lemma first_live_cong:
  "(\<And>k. k \<in> set ns \<Longrightarrow> raw_get i' k = raw_get i k) \<Longrightarrow> first_live i' ns = first_live i ns"
  by (induction ns) (auto split: option.splits)

lemma setattr_write_physprop:
  assumes wf: "wf_schema S" and q: "is_physprop S q"
  shows "\<exists>i'. setattr S i q (Some (Arr a)) = Inr i' \<and> raw_get i' q = Some (Arr a)"
proof -
  obtain h mo ro where d: "map_of S q = Some (PhysicalProperty h mo ro)"
    using q by (auto simp: is_physprop_def split: option.splits descriptor.splits)
  obtain i' where set: "PhysicalProperty_fset S i q (Some (Arr a)) = Inr i'"
    by (simp add: PhysicalProperty_fset_def)
  have "raw_get i' q = Some (Arr a)" using PhysicalProperty_fset_get_wf [OF wf q set] by simp
  with set d show ?thesis by (simp add: setattr_def)
qed

lemma live_after_write:
  assumes wf: "wf_schema S" and set: "setattr S i q v = Inr i'" and sq: "raw_get i' q \<noteq> None"
    and p: "is_physprop S p" and live: "p = q \<or> group_live S i p"
  shows "group_live S i' p"
proof (cases "q \<in> set (prop_group S p)")
  case True
  with sq show ?thesis by (auto simp: group_live_def first_live_None_iff)
next
  case False
  then have "p \<noteq> q" using prop_group_self [of p S] by blast
  with live have "group_live S i p" by simp
  then show ?thesis
    using first_live_cong [OF setattr_frame [OF wf set p False]] by (simp add: group_live_def)
qed

lemma run_writes_live:
  assumes wf: "wf_schema S"
  shows "\<forall>q \<in> set qs. is_physprop S q \<Longrightarrow> \<forall>p \<in> P. is_physprop S p \<and> group_live S i p \<Longrightarrow>
    \<exists>i'. run S i (map (\<lambda>q. SetAttr q (Some (Arr a))) qs) = Inr i' \<and>
      (\<forall>p \<in> P \<union> set qs. group_live S i' p)"
proof (induction qs arbitrary: i P)
  case Nil
  then show ?case by simp
next
  case (Cons q qs)
  have q: "is_physprop S q" using Cons.prems(1) by simp
  obtain i1 where set: "setattr S i q (Some (Arr a)) = Inr i1" and sq: "raw_get i1 q = Some (Arr a)"
    using setattr_write_physprop [OF wf q] by blast
  have "\<forall>p \<in> insert q P. is_physprop S p \<and> group_live S i1 p"
    using Cons.prems(2) q live_after_write [OF wf set] sq by auto
  with Cons.IH [where i = i1 and P = "insert q P"] Cons.prems(1) obtain i' where
    "run S i1 (map (\<lambda>q. SetAttr q (Some (Arr a))) qs) = Inr i'"
    "\<forall>p \<in> insert q P \<union> set qs. group_live S i' p" by auto
  with set show ?case by auto
qed

lemma live_returns:
  assumes wf: "wf_schema S" and live: "group_live S i p"
  shows "\<exists>y. PhysicalProperty_fget S i p = Some y"
proof (rule fget_Some_unless_loop [OF wf], rule notI)
  assume "\<exists>r. PhysicalProperty_reciprocal S p = Some r \<and> PhysicalProperty_mapping S p = None \<and>
    PhysicalProperty_mapping S r = None \<and> raw_get i p = None \<and> raw_get i r = None"
  then obtain r where "PhysicalProperty_reciprocal S p = Some r" "PhysicalProperty_mapping S p = None"
    "PhysicalProperty_mapping S r = None" "raw_get i p = None" "raw_get i r = None" by blast
  with live show False by (simp add: group_live_def prop_group_def)
qed

text \<open>
  C12. Liveness of resolution: from any state of a well-formed class, the client
  script that writes an array to every physical property succeeds and reaches a
  state where no physical-property getter diverges.
\<close>

theorem write_all_getters_return:
  assumes wf: "wf_schema S"
  shows "\<exists>i'. run S i (write_all S a) = Inr i' \<and>
    (\<forall>p. is_physprop S p \<longrightarrow> (\<exists>y. PhysicalProperty_fget S i' p = Some y))"
proof -
  obtain i' where r: "run S i (write_all S a) = Inr i'"
    and live: "\<forall>p \<in> set (filter (is_physprop S) (map fst S)). group_live S i' p"
    using run_writes_live [OF wf, of "filter (is_physprop S) (map fst S)" "{}" i a]
    by (auto simp: write_all_def)
  have "\<exists>y. PhysicalProperty_fget S i' p = Some y" if "is_physprop S p" for p
    using that live live_returns [OF wf] getter_Some_declared(5) [OF that] by auto
  with r show ?thesis by blast
qed

theorem write_all_getters_return_witness:
  "\<exists>i'. run [(''sigma'', PhysicalProperty ''s'' None (Some ''rho'')),
              (''rho'', PhysicalProperty ''r'' None (Some ''sigma''))]
          (empty_instance None)
          (write_all [(''sigma'', PhysicalProperty ''s'' None (Some ''rho'')),
                      (''rho'', PhysicalProperty ''r'' None (Some ''sigma''))] [1]) = Inr i' \<and>
     (\<forall>p. is_physprop [(''sigma'', PhysicalProperty ''s'' None (Some ''rho'')),
                        (''rho'', PhysicalProperty ''r'' None (Some ''sigma''))] p \<longrightarrow>
        (\<exists>y. PhysicalProperty_fget [(''sigma'', PhysicalProperty ''s'' None (Some ''rho'')),
                                    (''rho'', PhysicalProperty ''r'' None (Some ''sigma''))] i' p = Some y))"
proof -
  have wf: "wf_schema [(''sigma'', PhysicalProperty ''s'' None (Some ''rho'')),
                       (''rho'', PhysicalProperty ''r'' None (Some ''sigma''))]" by code_simp
  show ?thesis using write_all_getters_return [OF wf] .
qed

end
