(* ===== verification/Props_Order.thy ===== *)
theory Props_Order
  imports Props_Access
begin

text \<open>
  The order of attribute writes. A successful write \<open>obj.n = v\<close> stores \<open>v\<close> in
  slot \<open>n\<close> and empties the other slots of its footprint, the reciprocal group the
  write invalidates (\<open>write_group\<close>), whatever the state was; whether it succeeds
  depends only on \<open>n\<close> and \<open>v\<close>. So two writes with disjoint footprints commute:
  a client may interleave its writes to independent properties in any order.
\<close>

definition write_group :: "schema \<Rightarrow> name \<Rightarrow> name list" where
  "write_group S n =
     (case map_of S n of
        Some (Mapping _ _) \<Rightarrow> (case Mapping_prop S n of None \<Rightarrow> [n] | Some p \<Rightarrow> prop_group S p)
      | Some (PhysicalProperty _ _ _) \<Rightarrow> prop_group S n
      | _ \<Rightarrow> [])"

subsection \<open>The footprint of a write\<close>

lemma PhysicalProperty_validate_Inr: "PhysicalProperty_validate v = Inr v' \<Longrightarrow> v' = v"
  by (cases v rule: PhysicalProperty_validate.cases) auto

lemma setattr_footprint:
  assumes wf: "wf_schema S" and set: "setattr S i n v = Inr i'"
  shows "raw_get i' k =
      (if k \<in> set (write_group S n) then (if k = n then v else None) else raw_get i k)"
  using set
proof (cases rule: setattr_Inr_cases)
  case undeclared
  then show ?thesis by (simp add: write_group_def)
next
  case (mapping h po)
  show ?thesis
  proof (cases "Mapping_prop S n")
    case None
    then show ?thesis using Mapping_fset_unbound [OF None mapping(2), of k] mapping(1)
      by (simp add: write_group_def)
  next
    case (Some p)
    have "n \<in> set (prop_group S p)"
      using wf_prop_mapping [OF wf Some] by (simp add: prop_group_mem)
    then show ?thesis
      using Mapping_fset_group [OF wf Some mapping(2), of k] Mapping_fset_get_wf(2) [OF wf Some mapping(2)]
        mapping(1) Some
      by (auto simp: write_group_def)
  qed
next
  case (physprop h mo ro)
  have p: "is_physprop S n" using physprop(1) by (simp add: is_physprop_def)
  have "raw_get i' n = v"
    using PhysicalProperty_fset_get_wf(2) [OF wf p physprop(2)] physprop(2)
    by (auto simp: PhysicalProperty_fset_def dest!: PhysicalProperty_validate_Inr split: sum.splits)
  then show ?thesis using PhysicalProperty_fset_group [OF wf p physprop(2), of k] physprop(1)
    by (auto simp: write_group_def prop_group_self)
qed

lemma setattr_Inr_any_state:
  "setattr S i n v = Inr i1 \<Longrightarrow> \<exists>i'. setattr S j n v = Inr i'"
  by (erule setattr_Inr_cases)
     (auto simp: setattr_def Mapping_fset_def PhysicalProperty_fset_def split: sum.splits)

lemma host_eqI:
  "(\<And>k. raw_get i k = raw_get j k) \<Longrightarrow> model i = model j \<Longrightarrow> i = j"
  by (cases i, cases j) (auto simp: raw_get_def)

subsection \<open>Independent writes commute\<close>

text \<open>
  C14. Two successful writes whose footprints are disjoint commute: performing them
  in either order gives the same instance.
\<close>

theorem setattr_commute:
  assumes wf: "wf_schema S" and disj: "set (write_group S n) \<inter> set (write_group S n') = {}"
    and ok1: "setattr S i n v = Inr i1" and ok2: "setattr S i n' v' = Inr i2"
  shows "run S i [SetAttr n v, SetAttr n' v'] = run S i [SetAttr n' v', SetAttr n v]"
proof -
  obtain i12 where s12: "setattr S i1 n' v' = Inr i12" using setattr_Inr_any_state [OF ok2] by blast
  obtain i21 where s21: "setattr S i2 n v = Inr i21" using setattr_Inr_any_state [OF ok1] by blast
  have "i12 = i21"
  proof (rule host_eqI)
    fix k
    show "raw_get i12 k = raw_get i21 k"
      using setattr_footprint [OF wf ok1, of k] setattr_footprint [OF wf ok2, of k]
        setattr_footprint [OF wf s12, of k] setattr_footprint [OF wf s21, of k] disj
      by auto
  next
    show "model i12 = model i21"
      using setattr_model [OF ok1] setattr_model [OF ok2] setattr_model [OF s12] setattr_model [OF s21]
      by simp
  qed
  with ok1 ok2 s12 s21 show ?thesis by simp
qed

theorem setattr_commute_witness:
  "set (write_group (Invertible ''Magnetic susceptibility'' (''chi'', ''chiMap'', ''chiDeriv'') scenario_class) ''sigma'') \<inter>
   set (write_group (Invertible ''Magnetic susceptibility'' (''chi'', ''chiMap'', ''chiDeriv'') scenario_class) ''chiMap'') = {} \<and>
   run (Invertible ''Magnetic susceptibility'' (''chi'', ''chiMap'', ''chiDeriv'') scenario_class) (empty_instance None)
     [SetAttr ''sigma'' (Some (Arr [1, 2, 4])), SetAttr ''chiMap'' (Some (MapObj ExpMap))] =
   run (Invertible ''Magnetic susceptibility'' (''chi'', ''chiMap'', ''chiDeriv'') scenario_class) (empty_instance None)
     [SetAttr ''chiMap'' (Some (MapObj ExpMap)), SetAttr ''sigma'' (Some (Arr [1, 2, 4]))]"
proof -
  define S2 where "S2 = Invertible ''Magnetic susceptibility'' (''chi'', ''chiMap'', ''chiDeriv'') scenario_class"
  have wf2: "wf_schema S2"
    unfolding S2_def by (rule Invertible_wf [OF scenario_class_wf]) (simp_all add: scenario_class_def)
  have disj: "set (write_group S2 ''sigma'') \<inter> set (write_group S2 ''chiMap'') = {}"
    by (simp add: S2_def Invertible_def scenario_class_def write_group_def prop_group_def
        PhysicalProperty_mapping_def PhysicalProperty_reciprocal_def Mapping_prop_def)
  obtain i1 where ok1: "setattr S2 (empty_instance None) ''sigma'' (Some (Arr [1, 2, 4])) = Inr i1"
    by (simp add: S2_def setattr_def Invertible_def scenario_class_def PhysicalProperty_fset_def)
  obtain i2 where ok2: "setattr S2 (empty_instance None) ''chiMap'' (Some (MapObj ExpMap)) = Inr i2"
    by (simp add: S2_def setattr_def Invertible_def scenario_class_def Mapping_fset_def)
  show ?thesis using disj setattr_commute [OF wf2 disj ok1 ok2] by (simp add: S2_def)
qed

end
