(* ===== verification/Props_Binding.thy ===== *)
theory Props_Binding
  imports Props_Physical
begin

text \<open>
  The binding setters \<open>Mapping.prop = value\<close> and \<open>PhysicalProperty.mapping =
  value\<close> (\<^const>\<open>Mapping_set_prop\<close>, \<^const>\<open>PhysicalProperty_set_mapping\<close>) and the
  linker \<open>Reciprocal\<close> applied outside the way \<open>Invertible\<close> and class bodies use
  them. Both setters assert the kind of their argument; both build the same class
  table; they keep a class well-formed exactly when they bind an unbound mapping to
  an unmapped property (or repeat an existing binding): a rebinding leaves the old
  partner pointing at its former mate, against the unique mutual binding of spec
  section 3. \<open>Reciprocal(p, p)\<close> is accepted and makes an unmapped property's
  getter call itself without end.
\<close>

subsection \<open>What the binding setters do to the link getters\<close>

lemma bind_getters:
  assumes m: "map_of S m = Some (Mapping hm po)" and p: "map_of S p = Some (PhysicalProperty h mo ro)"
  defines "S' \<equiv> AList.update m (Mapping hm (Some p)) (AList.update p (PhysicalProperty h (Some m) ro) S)"
  shows "Mapping_prop S' = (Mapping_prop S)(m := Some p)"
    and "PhysicalProperty_mapping S' = (PhysicalProperty_mapping S)(p := Some m)"
    and "PhysicalProperty_reciprocal S' = PhysicalProperty_reciprocal S"
    and "Derivative_physical_property S' = Derivative_physical_property S"
    and "is_physprop S' = is_physprop S"
    and "map_of S' = (map_of S)(p \<mapsto> PhysicalProperty h (Some m) ro, m \<mapsto> Mapping hm (Some p))"
    and "distinct (map fst S) \<Longrightarrow> distinct (map fst S')"
    and "fst ` set S' = fst ` set S"
proof -
  have mp: "m \<noteq> p" using m p by auto
  have g: "Mapping_prop S p = None" "PhysicalProperty_mapping S m = None"
    "PhysicalProperty_reciprocal S m = None" "PhysicalProperty_reciprocal S p = ro"
    "Derivative_physical_property S m = None" "Derivative_physical_property S p = None"
    "is_physprop S m = False" "is_physprop S p = True"
    using m p by (simp_all add: Mapping_prop_def PhysicalProperty_mapping_def PhysicalProperty_reciprocal_def
        Derivative_physical_property_def is_physprop_def)
  show "Mapping_prop S' = (Mapping_prop S)(m := Some p)"
    "PhysicalProperty_mapping S' = (PhysicalProperty_mapping S)(p := Some m)"
    "PhysicalProperty_reciprocal S' = PhysicalProperty_reciprocal S"
    "Derivative_physical_property S' = Derivative_physical_property S"
    "is_physprop S' = is_physprop S"
    using mp g by (auto simp: S'_def descr_simps fun_eq_iff)
  show "map_of S' = (map_of S)(p \<mapsto> PhysicalProperty h (Some m) ro, m \<mapsto> Mapping hm (Some p))"
    by (simp add: S'_def update_conv' fun_eq_iff)
  show "distinct (map fst S) \<Longrightarrow> distinct (map fst S')" by (simp add: S'_def distinct_update)
  show "fst ` set S' = fst ` set S" using m p by (auto simp: S'_def descr_simps dest: map_of_Some_keys)
qed

lemma Mapping_set_prop_ok:
  "map_of S m = Some (Mapping hm po) \<Longrightarrow> map_of S p = Some (PhysicalProperty h mo ro) \<Longrightarrow>
   Mapping_set_prop S m p =
     Inr (AList.update m (Mapping hm (Some p)) (AList.update p (PhysicalProperty h (Some m) ro) S))"
  by (simp add: Mapping_set_prop_def)

lemma PhysicalProperty_set_mapping_ok:
  "map_of S m = Some (Mapping hm po) \<Longrightarrow> map_of S p = Some (PhysicalProperty h mo ro) \<Longrightarrow>
   PhysicalProperty_set_mapping S p m =
     Inr (AList.update p (PhysicalProperty h (Some m) ro) (AList.update m (Mapping hm (Some p)) S))"
  by (simp add: PhysicalProperty_set_mapping_def)

text \<open>
  On a well-formed class, the table both setters build is well-formed exactly when
  neither the mapping nor the property was bound to another partner before.
\<close>

lemma bind_wf_iff:
  assumes wf: "wf_schema S"
    and m: "map_of S m = Some (Mapping hm po)" and p: "map_of S p = Some (PhysicalProperty h mo ro)"
  shows "wf_schema (AList.update m (Mapping hm (Some p)) (AList.update p (PhysicalProperty h (Some m) ro) S)) \<longleftrightarrow>
    (Mapping_prop S m = None \<or> Mapping_prop S m = Some p) \<and>
    (PhysicalProperty_mapping S p = None \<or> PhysicalProperty_mapping S p = Some m)"
    (is "wf_schema ?S' \<longleftrightarrow> ?free")
proof
  note g = bind_getters [OF m p]
  assume wf': "wf_schema ?S'"
  have "Mapping_prop S m = None \<or> Mapping_prop S m = Some p"
  proof (cases "Mapping_prop S m")
    case (Some p0)
    then have "PhysicalProperty_mapping S p0 = Some m" by (rule wf_prop_mapping [OF wf])
    moreover have "p0 = p" if "p0 \<noteq> p"
    proof -
      have "PhysicalProperty_mapping ?S' p0 = Some m" using g(2) that calculation by simp
      then have "Mapping_prop ?S' m = Some p0" by (rule wf_mapping_prop [OF wf'])
      with g(1) show ?thesis by simp
    qed
    ultimately show ?thesis using Some by blast
  qed simp
  moreover have "PhysicalProperty_mapping S p = None \<or> PhysicalProperty_mapping S p = Some m"
  proof (cases "PhysicalProperty_mapping S p")
    case (Some m0)
    then have mp0: "Mapping_prop S m0 = Some p" by (rule wf_mapping_prop [OF wf])
    have "m0 = m"
    proof (rule ccontr)
      assume "m0 \<noteq> m"
      then have "Mapping_prop ?S' m0 = Some p" using g(1) mp0 by simp
      then have "PhysicalProperty_mapping ?S' p = Some m0" by (rule wf_prop_mapping [OF wf'])
      with g(2) \<open>m0 \<noteq> m\<close> show False by simp
    qed
    with Some show ?thesis by simp
  qed simp
  ultimately show ?free ..
next
  note g = bind_getters [OF m p]
  assume free: ?free
  show "wf_schema ?S'"
  proof (rule wf_schema_intro)
    show "distinct (map fst ?S')" using wf g(7) by (simp add: wf_schema_def)
  next
    fix n
    have mp: "\<And>x. Mapping_prop S n = Some x \<Longrightarrow> PhysicalProperty_mapping S x = Some n"
      "\<And>x. PhysicalProperty_mapping S n = Some x \<Longrightarrow> Mapping_prop S x = Some n"
      using wf_prop_mapping [OF wf] wf_mapping_prop [OF wf] by blast+
    have rr: "\<And>x. PhysicalProperty_reciprocal S n = Some x \<Longrightarrow> x \<noteq> n \<and> PhysicalProperty_reciprocal S x = Some n"
      using wf_reciprocal_sym [OF wf] by blast
    have dp: "\<And>x. Derivative_physical_property S n = Some x \<Longrightarrow> is_physprop S x"
      using wf_derivative_physprop [OF wf] by blast
    have np: "Mapping_prop S n = Some p \<Longrightarrow> n = m" "PhysicalProperty_mapping S n = Some m \<Longrightarrow> n = p"
      using free mp by auto
    show "wf_at ?S' n"
      unfolding wf_at_def g(1-5)
      apply (intro conjI)
      subgoal using mp(1) np(1) by (cases "n = m") (auto split: option.splits)
      subgoal using mp(2) np(2) by (cases "n = p") (auto split: option.splits)
      subgoal using rr by (auto split: option.splits)
      subgoal using dp by (auto split: option.splits)
      done
  qed
qed

subsection \<open>Properties of the setters and of the linker\<close>

text \<open>
  C34. The binding setters assert the kind of their argument: \<open>Mapping.prop\<close> set
  to anything but a physical property, and \<open>PhysicalProperty.mapping\<close> set to
  anything but a mapping, fail the assertion and change no link.
\<close>

theorem binding_setters_assert:
  "(\<not> is_physprop S p \<longrightarrow>
      Mapping_set_prop S m p = Inl (AssertionError ''isinstance(value, PhysicalProperty)'')) \<and>
   (\<not> is_mapping S m \<longrightarrow>
      PhysicalProperty_set_mapping S p m = Inl (AssertionError ''isinstance(value, Mapping)''))"
  by (auto simp: Mapping_set_prop_def PhysicalProperty_set_mapping_def is_physprop_def is_mapping_def
      split: option.splits descriptor.splits)

theorem binding_setters_assert_witness:
  "Mapping_set_prop scenario_class ''sigmaMap'' ''rhoMap'' =
     Inl (AssertionError ''isinstance(value, PhysicalProperty)'') \<and>
   PhysicalProperty_set_mapping scenario_class ''sigma'' ''rho'' =
     Inl (AssertionError ''isinstance(value, Mapping)'')"
proof -
  have "\<not> is_physprop scenario_class ''rhoMap''" "\<not> is_mapping scenario_class ''rho''"
    by (simp_all add: is_physprop_def is_mapping_def scenario_class_def Invertible_def)
  then show ?thesis using binding_setters_assert [of scenario_class "''rhoMap''" "''sigmaMap''"]
      binding_setters_assert [of scenario_class "''sigma''" "''rho''"] by simp
qed

text \<open>
  C17. The two binding setters agree: \<open>m.prop = p\<close> succeeds exactly when
  \<open>p.mapping = m\<close> does, and both give the same class table.
\<close>

theorem binding_setters_agree:
  "(\<exists>T. Mapping_set_prop S m p = Inr T) = (\<exists>T'. PhysicalProperty_set_mapping S p m = Inr T') \<and>
   (\<forall>T T'. Mapping_set_prop S m p = Inr T \<longrightarrow> PhysicalProperty_set_mapping S p m = Inr T' \<longrightarrow>
      map_of T = map_of T')"
proof -
  have ok: "(\<exists>T. Mapping_set_prop S m p = Inr T) \<longleftrightarrow> is_mapping S m \<and> is_physprop S p"
    "(\<exists>T'. PhysicalProperty_set_mapping S p m = Inr T') \<longleftrightarrow> is_mapping S m \<and> is_physprop S p"
    by (auto simp: Mapping_set_prop_def PhysicalProperty_set_mapping_def is_physprop_def is_mapping_def
        split: option.splits descriptor.splits)
  have "map_of T = map_of T'"
    if "Mapping_set_prop S m p = Inr T" "PhysicalProperty_set_mapping S p m = Inr T'" for T T'
  proof -
    have kinds: "is_mapping S m" "is_physprop S p" using ok(1) that(1) by blast+
    obtain hm po where m: "map_of S m = Some (Mapping hm po)"
      using kinds(1) by (auto simp: is_mapping_def split: option.splits descriptor.splits)
    obtain h mo ro where p: "map_of S p = Some (PhysicalProperty h mo ro)"
      using kinds(2) by (auto simp: is_physprop_def split: option.splits descriptor.splits)
    have "m \<noteq> p" using m p by auto
    then show ?thesis
      using that Mapping_set_prop_ok [OF m p] PhysicalProperty_set_mapping_ok [OF m p]
      by (auto simp: update_conv' fun_eq_iff)
  qed
  with ok show ?thesis by blast
qed

theorem binding_setters_agree_witness:
  "(\<exists>T. Mapping_set_prop scenario_class ''sigmaMap'' ''rho'' = Inr T) \<and>
   map_of (projr (Mapping_set_prop scenario_class ''sigmaMap'' ''rho'')) =
   map_of (projr (PhysicalProperty_set_mapping scenario_class ''rho'' ''sigmaMap''))"
proof -
  obtain T where t: "Mapping_set_prop scenario_class ''sigmaMap'' ''rho'' = Inr T"
    by (simp add: Mapping_set_prop_def scenario_class_def Invertible_def)
  then obtain T' where t': "PhysicalProperty_set_mapping scenario_class ''rho'' ''sigmaMap'' = Inr T'"
    using binding_setters_agree [of scenario_class "''sigmaMap''" "''rho''"] by blast
  show ?thesis using t t' binding_setters_agree [of scenario_class "''sigmaMap''" "''rho''"] by simp
qed

text \<open>
  C15. On a well-formed class, \<open>m.prop = p\<close> keeps the class well-formed exactly
  when it binds an unbound mapping to an unmapped property (or repeats the existing
  binding): rebinding either one leaves its former partner pointing back at it.
\<close>

theorem Mapping_set_prop_wf_iff:
  assumes wf: "wf_schema S" and m: "is_mapping S m" and p: "is_physprop S p"
    and set: "Mapping_set_prop S m p = Inr S'"
  shows "wf_schema S' \<longleftrightarrow>
    (Mapping_prop S m = None \<or> Mapping_prop S m = Some p) \<and>
    (PhysicalProperty_mapping S p = None \<or> PhysicalProperty_mapping S p = Some m)"
proof -
  obtain hm po where m': "map_of S m = Some (Mapping hm po)"
    using m by (auto simp: is_mapping_def split: option.splits descriptor.splits)
  obtain h mo ro where p': "map_of S p = Some (PhysicalProperty h mo ro)"
    using p by (auto simp: is_physprop_def split: option.splits descriptor.splits)
  show ?thesis using set Mapping_set_prop_ok [OF m' p'] bind_wf_iff [OF wf m' p'] by simp
qed

theorem Mapping_set_prop_wf_iff_witness:
  "\<exists>S'. Mapping_set_prop scenario_class ''sigmaMap'' ''rho'' = Inr S' \<and> \<not> wf_schema S'"
proof -
  obtain S' where set: "Mapping_set_prop scenario_class ''sigmaMap'' ''rho'' = Inr S'"
    by (simp add: Mapping_set_prop_def scenario_class_def Invertible_def)
  have "is_mapping scenario_class ''sigmaMap''" "is_physprop scenario_class ''rho''"
    by (simp_all add: is_physprop_def is_mapping_def scenario_class_def Invertible_def)
  then show ?thesis
    using set Mapping_set_prop_wf_iff [OF scenario_class_wf _ _ set] by (simp add: scenario_class_links)
qed

text \<open>
  C16. \<open>Reciprocal(p, p)\<close> on a physical property without mapping is accepted: the
  call succeeds, the property becomes its own reciprocal, the class is no longer
  well-formed, and the property's getter calls itself without end whenever its slot
  is empty.
\<close>

theorem Reciprocal_self_link:
  assumes p: "is_physprop S p" and nm: "PhysicalProperty_mapping S p = None"
  shows "\<exists>S'. Reciprocal S p p = Inr S' \<and> PhysicalProperty_reciprocal S' p = Some p \<and> \<not> wf_schema S' \<and>
    (\<forall>i. raw_get i p = None \<longrightarrow> PhysicalProperty_fget S' i p = None)"
proof -
  obtain S' where r: "Reciprocal S p p = Inr S'"
    and g: "PhysicalProperty_mapping S' = PhysicalProperty_mapping S"
      "PhysicalProperty_reciprocal S' = (PhysicalProperty_reciprocal S)(p := Some p, p := Some p)"
    using Reciprocal_physprops [OF p p] by metis
  have rp: "PhysicalProperty_reciprocal S' p = Some p" and mp: "PhysicalProperty_mapping S' p = None"
    using g nm by simp_all
  have "\<not> wf_schema S'" using wf_reciprocal_sym [of S' p p] rp by blast
  moreover have "PhysicalProperty_fget S' i p = None" if "raw_get i p = None" for i
    using fget_cycle_None [OF rp rp mp mp that that] .
  ultimately show ?thesis using r rp by blast
qed

theorem Reciprocal_self_link_witness:
  "\<exists>S'. Reciprocal [(''sigma'', PhysicalProperty ''s'' None None)] ''sigma'' ''sigma'' = Inr S' \<and>
     PhysicalProperty_reciprocal S' ''sigma'' = Some ''sigma'' \<and>
     \<not> wf_schema S' \<and> PhysicalProperty_fget S' (empty_instance None) ''sigma'' = None"
proof -
  have "is_physprop [(''sigma'', PhysicalProperty ''s'' None None)] ''sigma''"
    "PhysicalProperty_mapping [(''sigma'', PhysicalProperty ''s'' None None)] ''sigma'' = None"
    by (simp_all add: is_physprop_def PhysicalProperty_mapping_def)
  then show ?thesis using Reciprocal_self_link [of "[(''sigma'', PhysicalProperty ''s'' None None)]" "''sigma''"]
    by (auto simp: raw_get_def empty_instance_def)
qed

end
