(* ===== verification/Props_Jacobian.thy ===== *)
theory Props_Jacobian
  imports Props_Contract
begin

text \<open>
  The derivative attribute against the value it differentiates. Spec section 4.3
  says a \<open>Derivative\<close> reads \<open>mapping.deriv(model)\<close> through its property's mapping,
  or the \<open>Zero\<close> sentinel. As an abstract specification (\<open>spec_deriv\<close>): the
  derivative is determined by the live slot of the property's reciprocal group, as
  the value is (\<^const>\<open>spec_value\<close>): \<open>Zero\<close> when the value is a stored array,
  the diagonal of the map's derivative when it is computed through a map. The
  theorems show that the getter computes \<open>spec_deriv\<close> for a mapped property, that
  the diagonal it reads is then the true derivative of the value with respect to
  the model, entry by entry, and where the two part: an unmapped property whose
  value depends on the model through its reciprocal's map has derivative \<open>Zero\<close>.
\<close>

definition source_deriv :: "schema \<Rightarrow> name \<Rightarrow> array \<Rightarrow> name \<Rightarrow> pvalue \<Rightarrow> dvalue" where
  "source_deriv S p xs k v =
     (case v of
        MapObj f \<Rightarrow>
          Diag (map_deriv (if PhysicalProperty_mapping S p = Some k then f else ComboMap ReciprocalMap f) xs)
      | _ \<Rightarrow> Zero)"

definition spec_deriv :: "schema \<Rightarrow> host \<Rightarrow> name \<Rightarrow> array \<Rightarrow> dvalue" where
  "spec_deriv S i p xs =
     (case first_live i (prop_group S p) of None \<Rightarrow> Zero | Some (k, v) \<Rightarrow> source_deriv S p xs k v)"

text \<open>
  A class whose conductivity has no map of its own and reaches a map only through
  its reciprocal (\<open>sigma = Reciprocal(rho)\<close>, \<open>rho\<close> with \<open>rhoMap\<close>), with a
  derivative bound to the unmapped side.
\<close>

definition unmapped_class :: schema where
  "unmapped_class =
     [(''sigma'', PhysicalProperty ''s'' None (Some ''rho'')),
      (''sigmaDeriv'', Derivative ''ds'' (Some ''sigma'')),
      (''rho'', PhysicalProperty ''r'' (Some ''rhoMap'') (Some ''sigma'')),
      (''rhoMap'', Mapping ''m'' (Some ''rho''))]"

subsection \<open>What the mapping attribute reads\<close>

lemma slot_ok_map_value:
  "slot_ok S k (MapObj f) \<Longrightarrow> \<not> is_physprop S k"
  by (auto simp: slot_ok_def is_physprop_def split: option.splits descriptor.splits)

text \<open>
  On a state satisfying both invariants, the mapping attribute of a property reads
  the map of the group's live slot when that slot holds a map (wrapped in a
  \<open>ReciprocalMap\<close> when it is the reciprocal's mapping), and \<open>None\<close> otherwise.
\<close>

lemma Mapping_fget_live:
  assumes wf: "wf_schema S" and ki: "kinds_ok S i" and ex: "exclusive S i"
    and pm: "PhysicalProperty_mapping S p = Some m"
  shows "Mapping_fget S i m =
    (case first_live i (prop_group S p) of
       Some (k, MapObj f) \<Rightarrow> Inr (Some (MapObj (if k = m then f else ComboMap ReciprocalMap f)))
     | _ \<Rightarrow> Inr None)"
proof -
  have pp: "is_physprop S p" using pm by (rule mapping_owner_physprop)
  have mp: "Mapping_prop S m = Some p" using wf pm by (rule wf_mapping_prop)
  have mg: "m \<in> set (prop_group S p)" using pm by (simp add: prop_group_mem)
  have rmg: "rm \<in> set (prop_group S p) \<and> rm \<noteq> m \<and> \<not> is_physprop S rm"
    if rmm: "Mapping_reciprocal S m = Some rm" for rm
  proof -
    obtain r where rp: "PhysicalProperty_reciprocal S p = Some r" and rr: "PhysicalProperty_mapping S r = Some rm"
      using rmm Mapping_targets_wf(2) [OF wf mp] by (auto split: option.splits)
    have "r \<noteq> p" using wf_reciprocal_sym [OF wf rp] by simp
    then have "rm \<noteq> m" using wf_mapping_inj [OF wf rr] pm by auto
    then show ?thesis using rp rr wf_mapping_not_physprop [OF wf rr] by (auto simp: prop_group_mem)
  qed
  show ?thesis
  proof (cases "first_live i (prop_group S p)")
    case None
    then have off: "k \<in> set (prop_group S p) \<Longrightarrow> raw_get i k = None" for k
      by (simp add: first_live_None_iff)
    have "Mapping_fget S i m = Inr None"
      using off [OF mg] off rmg by (intro Mapping_fget_None) (auto split: option.splits)
    with None show ?thesis by simp
  next
    case (Some kv)
    then obtain k v where fl: "first_live i (prop_group S p) = Some (k, v)" by (cases kv) auto
    note u = live_slot_unique [OF ex pp fl]
    have sk: "slot_ok S k v" using kinds_ok_slot [OF ki u(2)] .
    show ?thesis
    proof (cases "k = m")
      case True
      then obtain f where "v = MapObj f" using slot_ok_mapping [OF mp] sk by blast
      with True u(2) fl show ?thesis by (simp add: Mapping_fget_stored)
    next
      case False
      have sm: "raw_get i m = None" using u(3) [OF mg False [symmetric]] .
      show ?thesis
      proof (cases "\<exists>f. v = MapObj f")
        case True
        then obtain f where MapObj: "v = MapObj f" by blast
        have "\<not> is_physprop S k" using sk MapObj by (simp add: slot_ok_map_value)
        then obtain r where rp: "PhysicalProperty_reciprocal S p = Some r"
          and rk: "PhysicalProperty_mapping S r = Some k"
          using u(1) pp False pm wf_reciprocal_physprop [OF wf] by (auto simp: prop_group_mem)
        have "Mapping_reciprocal S m = Some k" using Mapping_targets_wf(2) [OF wf mp] rp rk by simp
        then have "Mapping_fget S i m = Inr (Some (MapObj (ComboMap ReciprocalMap f)))"
          using sm u(2) MapObj by (intro Mapping_fget_reciprocal_map) simp_all
        with fl MapObj False show ?thesis by simp
      next
        case nomap: False
        have "Mapping_fget S i m = Inr None"
        proof (rule Mapping_fget_None [OF sm])
          show "case Mapping_reciprocal S m of None \<Rightarrow> True | Some rm \<Rightarrow> raw_get i rm = None"
          proof (cases "Mapping_reciprocal S m")
            case (Some rm)
            have "rm \<noteq> k"
            proof
              assume "rm = k"
              then have "Mapping_prop S k \<noteq> None"
                using rmg [OF Some] Some Mapping_targets_wf(2) [OF wf mp]
                by (auto simp: prop_group_mem dest: wf_mapping_prop [OF wf] split: option.splits)
              then show False using sk nomap slot_ok_mapping by fastforce
            qed
            with Some rmg [OF Some] u(3) show ?thesis by simp
          qed simp
        qed
        with fl nomap show ?thesis by (cases v) auto
      qed
    qed
  qed
qed

text \<open>A state with one slot set satisfies both invariants when the value has the slot's kind.\<close>

lemma single_slot_invariants:
  "slot_ok S n v \<Longrightarrow>
   kinds_ok S (raw_set (empty_instance mo) n (Some v)) \<and> exclusive S (raw_set (empty_instance mo) n (Some v))"
  by (auto simp: kinds_ok_iff exclusive_iff at_most_one_live_def raw_get_raw_set
      empty_instance_def raw_get_def raw_set_def)

lemma live_map_slot:
  assumes wf: "wf_schema S" and ki: "kinds_ok S i" and ex: "exclusive S i" and pp: "is_physprop S p"
    and live: "first_live i (prop_group S p) = Some (k, MapObj g)"
  shows "raw_get i p = None" and "PhysicalProperty_reciprocal_slot S i p = None"
    and "k \<noteq> p" and "PhysicalProperty_reciprocal S p \<noteq> Some k"
proof -
  note u = live_slot_unique [OF ex pp live]
  have nk: "\<not> is_physprop S k" using kinds_ok_slot [OF ki u(2)] by (rule slot_ok_map_value)
  show kp: "k \<noteq> p" using nk pp by blast
  show "raw_get i p = None" using u(3) [OF prop_group_self] kp by simp
  show "PhysicalProperty_reciprocal S p \<noteq> Some k" using nk wf_reciprocal_physprop [OF wf] by blast
  show "PhysicalProperty_reciprocal_slot S i p = None"
    using u(3) nk wf_reciprocal_physprop [OF wf]
    by (auto simp: PhysicalProperty_reciprocal_slot_def prop_group_mem split: option.splits)
qed

subsection \<open>The derivative against its specification\<close>

text \<open>
  C10. Refinement of the derivative's contract: on a state satisfying both
  invariants, with the model set, the derivative of a mapped property reads
  \<open>Zero\<close> when the property's value is a stored array or unset, and the diagonal of
  the derivative of the live map otherwise (composed with \<open>ReciprocalMap\<close> when the
  map is the reciprocal's).
\<close>

theorem Derivative_fget_refines_spec_deriv:
  assumes wf: "wf_schema S" and ki: "kinds_ok S i" and ex: "exclusive S i"
    and dp: "Derivative_physical_property S d = Some p" and pm: "PhysicalProperty_mapping S p = Some m"
    and mdl: "model i = Some xs"
  shows "Derivative_fget S i d = Inr (spec_deriv S i p xs)"
proof -
  have dm: "Derivative_mapping S d = Some m" by (simp add: Derivative_mapping_def dp pm)
  show ?thesis
    using Mapping_fget_live [OF wf ki ex pm] dm dp mdl pm
    by (auto simp: Derivative_fget_def spec_deriv_def source_deriv_def split: option.splits pvalue.splits)
qed

theorem Derivative_fget_refines_spec_deriv_witness:
  "Derivative_fget scenario_class (raw_set (empty_instance (Some [1, 2, 4])) ''rhoMap'' (Some (MapObj ExpMap)))
     ''sigmaDeriv'' =
   Inr (spec_deriv scenario_class (raw_set (empty_instance (Some [1, 2, 4])) ''rhoMap'' (Some (MapObj ExpMap)))
     ''sigma'' [1, 2, 4]) \<and>
   spec_deriv scenario_class (raw_set (empty_instance (Some [1, 2, 4])) ''rhoMap'' (Some (MapObj ExpMap)))
     ''sigma'' [1, 2, 4] = Diag (map_deriv (ComboMap ReciprocalMap ExpMap) [1, 2, 4])"
proof -
  let ?i = "raw_set (empty_instance (Some [1, 2, 4])) ''rhoMap'' (Some (MapObj ExpMap))"
  have "slot_ok scenario_class ''rhoMap'' (MapObj ExpMap)"
    by (simp add: slot_ok_def scenario_class_def Invertible_def)
  note inv = single_slot_invariants [OF this, of "Some [1, 2, 4]"]
  have "spec_deriv scenario_class ?i ''sigma'' [1, 2, 4] = Diag (map_deriv (ComboMap ReciprocalMap ExpMap) [1, 2, 4])"
    by (simp add: spec_deriv_def source_deriv_def prop_group_def scenario_class_links raw_get_raw_set
        empty_instance_def raw_get_def raw_set_def)
  moreover have "Derivative_fget scenario_class ?i ''sigmaDeriv'' = Inr (spec_deriv scenario_class ?i ''sigma'' [1, 2, 4])"
    using inv Derivative_fget_refines_spec_deriv [OF scenario_class_wf _ _ _ _, of ?i "''sigmaDeriv''" "''sigma''"]
    by (simp add: scenario_class_links raw_set_def empty_instance_def)
  ultimately show ?thesis by simp
qed

text \<open>
  C11. The derivative is the Jacobian of the value: when a map slot is live in a
  mapped property's group, the value read and the derivative read come from one
  elementwise map \<open>f\<close> (the set map, or \<open>ReciprocalMap\<close> after the reciprocal's
  map): the value's entries are \<open>f\<close> of the model's and the derivative's diagonal
  holds the derivative of \<open>f\<close> there, wherever \<open>f\<close> is differentiable.
\<close>

theorem Derivative_is_jacobian:
  assumes wf: "wf_schema S" and ki: "kinds_ok S i" and ex: "exclusive S i"
    and dp: "Derivative_physical_property S d = Some p" and pm: "PhysicalProperty_mapping S p = Some m"
    and mdl: "model i = Some xs" and live: "first_live i (prop_group S p) = Some (k, MapObj g)"
  shows "\<exists>f. spec_value S i p xs = Some (map (smap_fun f) xs) \<and>
    Derivative_fget S i d = Inr (Diag (map (smap_dfun f) xs)) \<and>
    (\<forall>x. smap_ok f x \<longrightarrow> (smap_fun f has_real_derivative smap_dfun f x) (at x))"
proof (intro exI conjI allI impI)
  let ?f = "if k = m then g else ComboMap ReciprocalMap g"
  have pp: "is_physprop S p" using pm by (rule mapping_owner_physprop)
  note l = live_map_slot [OF wf ki ex pp live]
  show "spec_value S i p xs = Some (map (smap_fun ?f) xs)"
    using l(3,4) live pm by (simp add: spec_value_def source_value_def map_transform_entries comp_def)
  have dm: "Derivative_mapping S d = Some m" by (simp add: Derivative_mapping_def dp pm)
  show "Derivative_fget S i d = Inr (Diag (map (smap_dfun ?f) xs))"
    using Mapping_fget_live [OF wf ki ex pm] live dm dp mdl
    by (simp add: Derivative_fget_def map_deriv_entries)
  show "(smap_fun ?f has_real_derivative smap_dfun ?f x) (at x)" if "smap_ok ?f x" for x
    using that by (rule smap_DERIV)
qed

theorem Derivative_is_jacobian_witness:
  "\<exists>f. spec_value scenario_class (raw_set (empty_instance (Some [1, 2, 4])) ''rhoMap'' (Some (MapObj ExpMap)))
        ''sigma'' [1, 2, 4] = Some (map (smap_fun f) [1, 2, 4]) \<and>
      Derivative_fget scenario_class (raw_set (empty_instance (Some [1, 2, 4])) ''rhoMap'' (Some (MapObj ExpMap)))
        ''sigmaDeriv'' = Inr (Diag (map (smap_dfun f) [1, 2, 4])) \<and>
      (\<forall>x. smap_ok f x \<longrightarrow> (smap_fun f has_real_derivative smap_dfun f x) (at x))"
proof -
  let ?i = "raw_set (empty_instance (Some [1, 2, 4])) ''rhoMap'' (Some (MapObj ExpMap))"
  have "slot_ok scenario_class ''rhoMap'' (MapObj ExpMap)"
    by (simp add: slot_ok_def scenario_class_def Invertible_def)
  note inv = single_slot_invariants [OF this, of "Some [1, 2, 4]"]
  have live: "first_live ?i (prop_group scenario_class ''sigma'') = Some (''rhoMap'', MapObj ExpMap)"
    by (simp add: prop_group_def scenario_class_links raw_get_raw_set empty_instance_def raw_get_def raw_set_def)
  show ?thesis
    using inv Derivative_is_jacobian [OF scenario_class_wf _ _ _ _ _ live, of "''sigmaDeriv''" "''sigmaMap''" "[1, 2, 4]"]
    by (simp add: scenario_class_links raw_set_def empty_instance_def)
qed

text \<open>
  C25. The derivative of a property without a map is \<open>Zero\<close> even when its value
  depends on the model through the reciprocal's map: the getter reads
  \<open>1 / (rhoMap * model)\<close>, while the derivative never looks past the property's own
  mapping.
\<close>

theorem Derivative_unmapped_ignores_model:
  assumes wf: "wf_schema S" and dp: "Derivative_physical_property S d = Some p"
    and pu: "PhysicalProperty_mapping S p = None" and pr: "PhysicalProperty_reciprocal S p = Some r"
    and rm: "PhysicalProperty_mapping S r = Some k"
    and np: "raw_get i p = None" and nr: "raw_get i r = None" and kg: "raw_get i k = Some (MapObj g)"
    and mdl: "model i = Some xs"
  shows "Derivative_fget S i d = Inr Zero \<and>
    PhysicalProperty_fget S i p = Some (Inr (Some (Arr (map (smap_fun (ComboMap ReciprocalMap g)) xs))))"
proof
  show "Derivative_fget S i d = Inr Zero"
    by (simp add: Derivative_fget_def Derivative_mapping_def dp pu)
  have rp: "PhysicalProperty_reciprocal S r = Some p" using wf_reciprocal_sym [OF wf pr] by simp
  have "PhysicalProperty_fget S i r = Some (Inr (Some (Arr (map (smap_fun g) xs))))"
    using fget_mapped [OF nr _ rm] Mapping_fget_stored [OF kg] rp np mdl
    by (simp add: PhysicalProperty_reciprocal_slot_def map_transform_entries)
  then show "PhysicalProperty_fget S i p = Some (Inr (Some (Arr (map (smap_fun (ComboMap ReciprocalMap g)) xs))))"
    using fget_recurse [OF np pr nr pu wf_reciprocal_physprop [OF wf pr]] by simp
qed

theorem Derivative_unmapped_ignores_model_witness:
  "Derivative_fget unmapped_class (raw_set (empty_instance (Some [2, 5])) ''rhoMap'' (Some (MapObj ExpMap)))
     ''sigmaDeriv'' = Inr Zero \<and>
   PhysicalProperty_fget unmapped_class (raw_set (empty_instance (Some [2, 5])) ''rhoMap'' (Some (MapObj ExpMap)))
     ''sigma'' = Some (Inr (Some (Arr [1 / exp 2, 1 / exp 5])))"
proof -
  have wf: "wf_schema unmapped_class" unfolding unmapped_class_def by code_simp
  show ?thesis
    using Derivative_unmapped_ignores_model [OF wf, of "''sigmaDeriv''" "''sigma''" "''rho''" "''rhoMap''"
        "raw_set (empty_instance (Some [2, 5])) ''rhoMap'' (Some (MapObj ExpMap))" ExpMap "[2, 5]"]
    by (simp add: unmapped_class_def Derivative_physical_property_def PhysicalProperty_mapping_def
        PhysicalProperty_reciprocal_def raw_get_raw_set)
qed

text \<open>
  C26. Reading a mapped property before the model is set raises: with a map live
  in the property's group and \<open>model = None\<close>, the getter evaluates
  \<open>map * None\<close>, and \<open>IdentityMap.__mul__\<close> raises its "Unrecognized data type"
  error for an operand that is neither a map nor an array, where spec section 7
  says a read degrades to \<open>None\<close>.
\<close>

theorem PhysicalProperty_fget_model_unset:
  assumes wf: "wf_schema S" and ki: "kinds_ok S i" and ex: "exclusive S i"
    and pm: "PhysicalProperty_mapping S p = Some m"
    and live: "first_live i (prop_group S p) = Some (k, MapObj g)" and mdl: "model i = None"
  shows "PhysicalProperty_fget S i p =
      Some (Inl (MapError ''Unrecognized data type to multiply. Try a map or a numpy.ndarray!''))"
proof -
  have pp: "is_physprop S p" using pm by (rule mapping_owner_physprop)
  note l = live_map_slot [OF wf ki ex pp live]
  show ?thesis
    using fget_mapped [OF l(1,2) pm] Mapping_fget_live [OF wf ki ex pm] live mdl by simp
qed

theorem PhysicalProperty_fget_model_unset_witness:
  "PhysicalProperty_fget scenario_class (raw_set (empty_instance None) ''sigmaMap'' (Some (MapObj IdentityMap)))
     ''sigma'' = Some (Inl (MapError ''Unrecognized data type to multiply. Try a map or a numpy.ndarray!''))"
proof -
  let ?i = "raw_set (empty_instance None) ''sigmaMap'' (Some (MapObj IdentityMap))"
  have "slot_ok scenario_class ''sigmaMap'' (MapObj IdentityMap)"
    by (simp add: slot_ok_def scenario_class_def Invertible_def)
  note inv = single_slot_invariants [OF this, of None]
  have live: "first_live ?i (prop_group scenario_class ''sigma'') = Some (''sigmaMap'', MapObj IdentityMap)"
    by (simp add: prop_group_def scenario_class_links raw_get_raw_set empty_instance_def raw_get_def raw_set_def)
  show ?thesis
    using inv PhysicalProperty_fget_model_unset [OF scenario_class_wf _ _ _ live, of "''sigmaMap''"]
    by (simp add: scenario_class_links raw_set_def empty_instance_def)
qed

end
