(* ===== verification/Spec2Isabelle.thy ===== *)
theory Spec2Isabelle
  imports Props_Order Props_Binding Props_Jacobian
begin

text \<open>
  Verification development of \<open>src/SimPEG/Props.py\<close>, the attribute framework of
  SimPEG for physical properties: a property may be stored directly, derived as the
  elementwise reciprocal of a paired property, or computed by applying a mapping to
  the inversion model.

  \<^bold>\<open>Parts of the program and their theories.\<close>
  \<^item> \<open>Props_Prelude\<close>: names of the model's types (\<open>name\<close>, \<open>array\<close>), the rule
    collections \<open>descr_simps\<close> and \<open>slot_simps\<close>, facts on association lists.
  \<^item> \<open>Props_Maps\<close>: the collaborators the file calls but does not define, modelled from
    the spec: mapping objects of \<open>SimPEG.Maps\<close> (\<open>smap\<close>, applied by
    \<open>map_transform\<close>, differentiated by \<open>map_deriv\<close>, multiplied by \<open>map_mul\<close>),
    Python values in attribute slots (\<open>pvalue\<close>), derivative values with the
    \<open>Utils.Zero\<close> sentinel (\<open>dvalue\<close>), numpy's \<open>1.0 / x\<close> (\<open>one_div\<close>), and
    Python's exceptions (\<open>error\<close>); each map's scalar function and derivative
    (\<open>smap_fun\<close>, \<open>smap_dfun\<close>) and where the function is differentiable
    (\<open>smap_ok\<close>), with \<open>map_transform\<close> and \<open>map_deriv\<close> proved to apply them
    entry by entry and \<open>smap_dfun\<close> proved to be the derivative of \<open>smap_fun\<close>
    (\<open>has_real_derivative\<close> of HOL's analysis library).
  \<^item> \<open>Props_Schema\<close>: the three descriptor classes \<open>Mapping\<close>,
    \<open>PhysicalProperty\<close>, \<open>Derivative\<close> as the constructors of \<open>descriptor\<close>; a
    host class as an association list from attribute names to descriptors
    (\<open>schema\<close>); the link getters and setters (\<open>Mapping.prop\<close>,
    \<open>PhysicalProperty.mapping\<close>, \<open>Mapping.reciprocal\<close>, \<open>Derivative.mapping\<close>),
    the factory \<open>Invertible\<close> and the linker \<open>Reciprocal\<close>; the invariant
    \<open>wf_schema\<close> and the facts that both builders keep it.
  \<^item> \<open>Props_Host\<close>: the host instance (\<open>BaseSimPEG\<close>, from
    \<open>properties.HasProperties\<close>): its slot storage read by \<open>_get\<close> and written
    by \<open>_set\<close> (\<open>raw_get\<close>, \<open>raw_set\<close>) and its \<open>model\<close> array.
  \<^item> \<open>Props_Mapping\<close>: \<open>Mapping.validate\<close> (\<open>Mapping_validate\<close>),
    \<open>Mapping.clear_props\<close> (\<open>Mapping_clear_props\<close>) and the \<open>fget\<close>/\<open>fset\<close> of
    \<open>Mapping.get_property\<close> (\<open>Mapping_fget\<close>, \<open>Mapping_fset\<close>).
  \<^item> \<open>Props_Derivative\<close>: the getter of \<open>Derivative.get_property\<close>
    (\<open>Derivative_fget\<close>), which looks through to the property's mapping.
  \<^item> \<open>Props_Physical\<close>: \<open>PhysicalProperty.validate\<close>, \<open>clear_mappings\<close> and the
    \<open>fget\<close>/\<open>fset\<close> of \<open>PhysicalProperty.get_property\<close>. The getter recurses
    through the reciprocal's getter (line 123 of the source); it is a
    \<^theory_text>\<open>partial_function\<close> in the option monad, where \<open>None\<close> is the
    \<open>RecursionError\<close> of a getter that calls itself without end, so no fuel bound is
    needed and "the getter returns" is the statement \<open>\<noteq> None\<close>.
  \<^item> \<open>Props_Ops\<close>: client code as sequences of attribute assignments (\<open>op\<close>,
    \<open>setattr\<close> dispatching to the descriptors' setters, \<open>step\<close>, \<open>run\<close>), the
    reachable instance states (\<open>reachable\<close>, an inductive relation), and the two
    state invariants: each slot holds a value of its descriptor's kind
    (\<open>kinds_ok\<close>), and each reciprocal group has at most one slot set
    (\<open>exclusive\<close>, the mutual exclusivity of spec section 4.2).
  \<^item> \<open>Props_Contract\<close>: the resolution contract of spec section 4.2 as an
    abstract getter (\<open>spec_value\<close>: the value is determined by the one live slot
    of the property's reciprocal group and that slot's role), and the refinement
    theorems: on states satisfying both invariants the getter computes
    \<open>spec_value\<close>, and with no live slot it never reads a value.
  \<^item> \<open>Props_Depth\<close>: the same getter as CPython runs it, with the recursion
    limit as a depth bound (\<open>PhysicalProperty_fget_depth\<close>, a \<^theory_text>\<open>fun\<close> on the
    number of getter frames left, raising \<open>RecursionError\<close> at zero). Two frames
    are enough: on a well-formed class the getter calls at most one other getter
    (its reciprocal's), unless the two call each other without end, so every
    depth of at least two (CPython's default is 1000) gives the result of the
    unbounded getter and \<open>RecursionError\<close> exactly where it diverges.
  \<^item> \<open>Props_Access\<close>: the property objects the three \<open>get_property\<close> methods
    return (\<open>attr_property\<close>: getter and optional setter), their installation
    on the host class (\<open>class_property\<close>), and \<open>obj.name\<close> and
    \<open>obj.name = v\<close> routed through them (\<open>getattr\<close>, \<open>setattr_via\<close>).
  \<^item> \<open>Props_Order\<close>: the footprint of a write (\<open>write_group\<close>: the slots it
    stores into and clears), which does not depend on the state, and the
    commutation of writes with disjoint footprints.
  \<^item> \<open>Props_Binding\<close>: the binding setters \<open>Mapping.prop\<close> and
    \<open>PhysicalProperty.mapping\<close> and the linker \<open>Reciprocal\<close> used outside the
    pattern of \<open>Invertible\<close> and class bodies: their assertion errors, the
    agreement of the two setters, when a binding keeps the class well-formed, and
    the self-link \<open>Reciprocal(p, p)\<close>.
  \<^item> \<open>Props_Jacobian\<close>: the contract of a \<open>Derivative\<close> read (spec section
    4.3) as an abstract derivative (\<open>spec_deriv\<close>, from the live slot of the
    property's group, as \<open>spec_value\<close> is), what the mapping attribute reads on an
    invariant state (\<open>Mapping_fget_live\<close>), and the derivative against the value it
    differentiates.
  \<^item> This theory: classes built as a SimPEG class body builds them
    (\<open>built_class\<close>), and the properties that span components.

  State correspondence: a host instance of the code is the record \<open>host\<close>; its
  \<open>_get(name)\<close>/\<open>_set(name, v)\<close> are \<open>raw_get\<close>/\<open>raw_set\<close> on the partial map
  \<open>backend\<close>, and \<open>self.model\<close> is the field \<open>model\<close>. Every setter and getter
  takes the class (\<open>schema\<close>) explicitly, where the code closes over \<open>scope\<close>.
  Every Python exception is a value \<open>Inl e\<close> of \<open>error + _\<close>.

  \<^bold>\<open>What is proved.\<close>
  \<^item> Schema: \<open>Invertible\<close> and \<open>Reciprocal\<close> keep \<open>wf_schema\<close>; \<open>Reciprocal\<close>
    links symmetrically and is idempotent under swapping; re-linking an already
    linked property breaks symmetry (a divergence from the spec's data model).
  \<^item> Getters: every branch of the three getters, errors included; the physical
    property getter returns exactly unless it enters an unmapped pair of mutually
    reciprocal properties with no slot set, and it always returns on classes built
    by \<open>built_class\<close>.
  \<^item> Setters: validation errors; after a write, the written slot reads back and the
    other slots of its reciprocal group are empty; the reciprocal and mapping
    derivations of spec section 4.1.
  \<^item> Refinement: \<open>PhysicalProperty_fget\<close> implements the abstract getter
    \<open>spec_value\<close> on every state with consistent slot kinds and exclusive groups,
    hence on every reachable state.
  \<^item> Access: writes through the property objects are the writes of
    \<open>Props_Ops\<close>; on states with consistent slot kinds every value read has its
    attribute's kind; from any state, writing an array to every physical property
    reaches a state where no getter diverges.
  \<^item> Derivatives: on states satisfying both invariants with the model set, the
    derivative of a mapped property implements \<open>spec_deriv\<close>, and when a map is
    live its diagonal is the true derivative of the value with respect to the
    model, entry by entry; a property without a mapping whose value depends on the
    model through its reciprocal's map still has derivative \<open>Zero\<close> (a gap in the
    spec); with a map set and the model unset, the getter raises the error of
    \<open>IdentityMap.__mul__\<close> where spec section 7 promises \<open>None\<close>.
  \<^item> Order: two successful writes to independent reciprocal groups commute.
  \<^item> Binding: both binding setters raise \<open>AssertionError\<close> on an argument of
    the wrong kind and build the same table; a binding keeps a well-formed class
    well-formed exactly when it does not rebind a bound mapping or property (a
    rebinding breaks the unique mutual binding of spec section 3);
    \<open>Reciprocal(p, p)\<close> is accepted and makes an unmapped \<open>p\<close> diverge.
  \<^item> Runs: every reachable state of a well-formed class satisfies \<open>kinds_ok\<close> and
    \<open>exclusive\<close>, by rule induction on \<open>reachable\<close>.
  \<^item> Depth: with CPython's recursion limit as a bound of at least two getter
    frames, the getter's \<open>RecursionError\<close> is exactly the divergence of the
    unbounded getter (an adequacy lemma of the model, not a claim on the code).
  \<^item> The spec's sigma/rho scenario, computed end to end (an example).

  \<^bold>\<open>Not modelled.\<close> The \<open>properties\<close> library's class construction, registration,
  observers, serialisation and help-text rendering (only the help strings that
  \<open>Invertible\<close> formats are kept); numpy shapes and broadcasting (all arrays are
  one-dimensional and every modelled map acts elementwise and keeps the array's
  length, a restriction of the model: the spec allows any model-to-property
  transformation, so no length bound is claimed of the code); maps other than identity,
  reciprocal, exponential and their compositions; the \<open>inf\<close> of numpy's
  \<open>1.0 / 0\<close> (HOL has \<open>1 / 0 = 0\<close>; the theorems state derived values as
  \<open>1 / x\<close> elementwise, which is numpy's value at every nonzero entry);
  \<open>Reciprocal\<close> applied to descriptors other than physical properties beyond the
  error the code raises for a mapping; the documentation strings of the property
  objects (\<open>doc=scope.help\<close>) and the \<open>info_text\<close> class attributes, which only
  the library's help rendering reads; instance attributes that client code adds
  under names that are not descriptors (\<open>setattr\<close> leaves the modelled state
  unchanged and \<open>getattr\<close> reports \<open>AttributeError\<close> for them).
\<close>

subsection \<open>Classes built as the code intends\<close>

text \<open>
  A class body of SimPEG declares \<open>Invertible\<close> triples under fresh names and links
  pairs of not yet linked properties with \<open>Reciprocal\<close>.
\<close>

inductive built_class :: "schema \<Rightarrow> bool" where
  empty_class: "built_class []"
| add_invertible: "built_class S \<Longrightarrow> distinct [p, m, d] \<Longrightarrow>
    p \<notin> fst ` set S \<Longrightarrow> m \<notin> fst ` set S \<Longrightarrow> d \<notin> fst ` set S \<Longrightarrow>
    built_class (Invertible h (p, m, d) S)"
| add_reciprocal: "built_class S \<Longrightarrow> p \<noteq> q \<Longrightarrow> is_physprop S p \<Longrightarrow> is_physprop S q \<Longrightarrow>
    PhysicalProperty_reciprocal S p = None \<Longrightarrow> PhysicalProperty_reciprocal S q = None \<Longrightarrow>
    Reciprocal S p q = Inr S' \<Longrightarrow> built_class S'"

lemma built_class_facts:
  "built_class S \<Longrightarrow>
     wf_schema S \<and> (\<forall>p. is_physprop S p \<longrightarrow> PhysicalProperty_mapping S p \<noteq> None)"
proof (induction rule: built_class.induct)
  case empty_class
  show ?case by (simp add: wf_schema_def is_physprop_def)
next
  case (add_invertible S p m d h)
  then show ?case by (simp add: Invertible_wf Invertible_getters)
next
  case (add_reciprocal S p q S')
  obtain S'' where r: "Reciprocal S p q = Inr S''"
    and g: "PhysicalProperty_mapping S'' = PhysicalProperty_mapping S" "is_physprop S'' = is_physprop S"
    using Reciprocal_physprops [OF add_reciprocal.hyps(3,4)] by metis
  with add_reciprocal have "S' = S''" by simp
  with add_reciprocal g show ?case
    using Reciprocal_wf [of S p q S'] by simp
qed

lemma scenario_class_is_built: "built_class scenario_class"
proof -
  have b0: "built_class []" by (rule built_class.empty_class)
  have b1: "built_class (Invertible ''Electrical conductivity'' (''sigma'', ''sigmaMap'', ''sigmaDeriv'') [])"
    by (rule built_class.add_invertible [OF b0]) simp_all
  have b2: "built_class (Invertible ''Electrical resistivity'' (''rho'', ''rhoMap'', ''rhoDeriv'')
              (Invertible ''Electrical conductivity'' (''sigma'', ''sigmaMap'', ''sigmaDeriv'') []))"
    by (rule built_class.add_invertible [OF b1]) (simp_all add: Invertible_keys)
  show ?thesis
    by (rule built_class.add_reciprocal [OF b2 _ _ _ _ _ scenario_class_built])
       (simp_all add: Invertible_getters)
qed

text \<open>
  C20. Every class built from \<open>Invertible\<close> triples and \<open>Reciprocal\<close> pairings
  is well-formed: mapping and property bound to each other, derivatives bound to
  properties, reciprocal links symmetric between distinct properties.
\<close>

theorem built_class_wf:
  assumes "built_class S"
  shows "wf_schema S"
  using built_class_facts [OF assms] by simp

theorem built_class_wf_witness: "wf_schema scenario_class"
  using built_class_wf [OF scenario_class_is_built] .

text \<open>
  C9. In such a class the getter of every attribute name returns on every instance:
  every physical property has a mapping, so the endless reciprocal recursion of the
  getter never starts.
\<close>

theorem built_class_fget_returns:
  assumes "built_class S"
  shows "\<exists>y. PhysicalProperty_fget S i p = Some y"
proof -
  from built_class_facts [OF assms]
  have wf: "wf_schema S" and mapped: "\<And>p. is_physprop S p \<Longrightarrow> PhysicalProperty_mapping S p \<noteq> None"
    by auto
  have "\<not> (\<exists>r. PhysicalProperty_reciprocal S p = Some r \<and> PhysicalProperty_mapping S p = None \<and>
          PhysicalProperty_mapping S r = None \<and> raw_get i p = None \<and> raw_get i r = None)"
    using mapped reciprocal_is_physprop by blast
  then show ?thesis by (rule fget_Some_unless_loop [OF wf])
qed

theorem built_class_fget_returns_witness:
  "\<exists>y. PhysicalProperty_fget scenario_class (empty_instance None) ''rho'' = Some y"
  using built_class_fget_returns [OF scenario_class_is_built] .

text \<open>
  Example: the spec's scenario (section 8), run on the model: with \<open>model = [1, 2, 4]\<close>
  and \<open>sigmaMap\<close> set to the identity map, \<open>sigma\<close> reads \<open>[1, 2, 4]\<close>,
  \<open>rho\<close> reads \<open>[1, 1/2, 1/4]\<close>, \<open>sigmaDeriv\<close> reads the identity's
  derivative, and \<open>rhoDeriv\<close> reads \<open>diag(-1/m\<^sup>2)\<close>, not the additive
  identity the spec expects.
\<close>

theorem spec_scenario:
  "(case run scenario_class (empty_instance None)
      [SetModel (Some [1, 2, 4]), SetAttr ''sigmaMap'' (Some (MapObj IdentityMap))] of
      Inl e \<Rightarrow> None
    | Inr i' \<Rightarrow> Some (PhysicalProperty_fget scenario_class i' ''sigma'',
                    PhysicalProperty_fget scenario_class i' ''rho'',
                    Derivative_fget scenario_class i' ''sigmaDeriv'',
                    Derivative_fget scenario_class i' ''rhoDeriv''))
   = Some (Some (Inr (Some (Arr [1, 2, 4]))), Some (Inr (Some (Arr [1, 1 / 2, 1 / 4]))),
           Inr (Diag [1, 1, 1]), Inr (Diag [- 1, - 1 / 4, - 1 / 16]))"
  by (simp add: setattr_def Mapping_fset_def Mapping_clear_props_def scenario_class_def
      Mapping_prop_def Mapping_reciprocal_prop_def Mapping_reciprocal_def PhysicalProperty_reciprocal_def
      mapping_attr_def PhysicalProperty_fget.simps PhysicalProperty_reciprocal_slot_def
      PhysicalProperty_mapping_def Mapping_fget_def Derivative_fget_def Derivative_mapping_def
      Derivative_physical_property_def raw_get_raw_set power2_eq_square)

end
